theory Spec2Isabelle
  imports Main "HOL-Library.Word"
begin

unbundle bit_operations_syntax

section \<open>Failure kinds and register types\<close>

text \<open>
  The failure kinds that \<open>MethodVerifier::Fail\<close> switches over
  (method_verifier.cc, lines 5532-5577).
\<close>

datatype VerifyError =
    VERIFY_ERROR_BAD_CLASS_HARD
  | VERIFY_ERROR_NO_CLASS
  | VERIFY_ERROR_UNRESOLVED_TYPE_CHECK
  | VERIFY_ERROR_NO_METHOD
  | VERIFY_ERROR_NO_FIELD
  | VERIFY_ERROR_ACCESS_CLASS
  | VERIFY_ERROR_ACCESS_FIELD
  | VERIFY_ERROR_ACCESS_METHOD
  | VERIFY_ERROR_INSTANTIATION
  | VERIFY_ERROR_CLASS_CHANGE
  | VERIFY_ERROR_LOCKING
  | VERIFY_ERROR_RUNTIME_THROW

text \<open>
  \<open>RegType\<close> is declared in reg_type.h, which is not among the sources. A register type
  is represented by the answers it gives to the queries that the verifier code under
  study makes of it: one field per query, named as the C++ method. \<open>'k\<close> is the type of
  \<open>RegType::Kind\<close>, \<open>'c\<close> the type of class objects (\<open>mirror::Class\<close>). \<open>GetClass\<close> is only
  read where the C++ dereferences the class.
\<close>

record ('k, 'c) RegType =
  GetId :: nat
  GetKind :: 'k
  HasClass :: bool
  GetClass :: 'c
  IsUndefined :: bool
  IsConflict :: bool
  IsBoolean :: bool
  IsByte :: bool
  IsShort :: bool
  IsChar :: bool
  IsInteger :: bool
  IsCategory1Types :: bool
  IsLowHalf :: bool
  IsReferenceTypes :: bool
  IsNonZeroReferenceTypes :: bool
  IsUninitializedTypes :: bool
  IsUnresolvedTypes :: bool
  IsJavaLangObject :: bool
  IsJavaLangObjectArray :: bool
  IsObjectArrayTypes :: bool

text \<open>Cache entries are compared by identity: \<open>lhs.Equals(rhs)\<close> compares the cache ids.\<close>

definition Equals :: "('k, 'c) RegType \<Rightarrow> ('k, 'c) RegType \<Rightarrow> bool" where
  "Equals lhs rhs = (GetId lhs = GetId rhs)"

datatype Assignability =
  kAssignable | kNotAssignable | kNarrowingConversion | kReference | kInvalid

text \<open>
  What the verifier needs from reg_type.h and from the class objects, taken as
  parameters: the kind table \<open>RegType::AssignabilityFrom\<close>, \<open>RegType::CheckWidePair\<close>,
  \<open>mirror::Class::IsInterface\<close> and \<open>mirror::Class::IsAssignableFrom\<close>.
\<close>

record ('k, 'c) RegTypeOps =
  AssignabilityFrom :: "'k \<Rightarrow> 'k \<Rightarrow> Assignability"
  CheckWidePair :: "('k, 'c) RegType \<Rightarrow> ('k, 'c) RegType \<Rightarrow> bool"
  IsInterface :: "'c \<Rightarrow> bool"
  ClassIsAssignableFrom :: "'c \<Rightarrow> 'c \<Rightarrow> bool"

text \<open>
  \<open>MethodVerifier::AssignableFrom\<close> (method_verifier.cc, lines 5616-5681). The debug
  assertions are left out; recording the dependency in \<open>VerifierDeps\<close> does not change
  the result. The last \<open>else\<close> of the C++ takes every remaining value of the table.
\<close>

definition AssignableFrom ::
  "('k, 'c) RegTypeOps \<Rightarrow> ('k, 'c) RegType \<Rightarrow> ('k, 'c) RegType \<Rightarrow> bool \<Rightarrow> bool" where
  "AssignableFrom T lhs rhs strict =
     (if Equals lhs rhs then True
      else (case AssignabilityFrom T (GetKind lhs) (GetKind rhs) of
              kAssignable \<Rightarrow> True
            | kNotAssignable \<Rightarrow> False
            | kNarrowingConversion \<Rightarrow> False
            | _ \<Rightarrow>
                (if \<not> strict \<and> \<not> IsUnresolvedTypes lhs \<and> IsInterface T (GetClass lhs)
                 then True
                 else if IsJavaLangObjectArray lhs then IsObjectArrayTypes rhs
                 else if HasClass lhs \<and> IsJavaLangObject rhs then False
                 else if HasClass lhs \<and> HasClass rhs
                 then ClassIsAssignableFrom T (GetClass lhs) (GetClass rhs)
                 else False)))"

definition IsAssignableFrom ::
  "('k, 'c) RegTypeOps \<Rightarrow> ('k, 'c) RegType \<Rightarrow> ('k, 'c) RegType \<Rightarrow> bool" where
  "IsAssignableFrom T lhs rhs = AssignableFrom T lhs rhs False"

definition IsStrictlyAssignableFrom ::
  "('k, 'c) RegTypeOps \<Rightarrow> ('k, 'c) RegType \<Rightarrow> ('k, 'c) RegType \<Rightarrow> bool" where
  "IsStrictlyAssignableFrom T lhs rhs = AssignableFrom T lhs rhs True"


section \<open>Instructions, per-pc flags and the method being verified\<close>

text \<open>
  The opcodes that the code under study tells apart by name; every other opcode is
  \<open>OTHER\<close> with its number. The instruction decoder (dex_instruction.h) is not among the
  sources: a decoded instruction carries what the verifier asks of it, the opcode, the
  static flags \<open>Instruction::FlagsOf\<close>, the size in code units and the operands A and B.
\<close>

datatype Code =
    NOP | MOVE_OBJECT | MOVE_OBJECT_FROM16 | MOVE_OBJECT_16 | MOVE_EXCEPTION
  | RETURN_VOID | RETURN | RETURN_WIDE | RETURN_OBJECT
  | CONST_CLASS | MONITOR_ENTER | MONITOR_EXIT | OTHER nat

datatype OpFlag = kBranch | kContinue | kSwitch | kThrow | kReturn

record Instruction =
  Opcode :: Code
  Flags :: "OpFlag set"
  SizeInCodeUnits :: nat
  VRegA :: nat
  VRegB :: nat

record InstructionFlags =
  IsOpcode :: bool
  IsBranchTarget :: bool
  IsInTry :: bool
  IsReturn :: bool
  IsVisited :: bool
  IsChanged :: bool

definition IsVisitedOrChanged :: "InstructionFlags \<Rightarrow> bool" where
  "IsVisitedOrChanged f = (IsVisited f \<or> IsChanged f)"

text \<open>\<open>IsCompatThrow\<close> (method_verifier.cc, lines 119-121).\<close>

definition IsCompatThrow :: "Code \<Rightarrow> bool" where
  "IsCompatThrow opcode = (opcode = RETURN_OBJECT \<or> opcode = MOVE_EXCEPTION)"

text \<open>
  The method under verification, as the verifier reads it through the code item
  accessor, the decoder, the exception table and the runtime:
  \<^item> \<open>Insns\<close> are the 16-bit code units and \<open>InsnsSizeInCodeUnits\<close> their number. The C++
    indexes the array without a bounds check wherever the pre-pass has established the
    bound, so the array is a total function next to its declared size.
  \<^item> \<open>InstructionAt\<close> is the decoder.
  \<^item> \<open>FindTryItem pc\<close> is the handler list of the try item covering \<open>pc\<close>, in table
    order, each entry a handler type index (\<open>None\<close> for a catch-all entry) and the
    handler address; \<open>None\<close> when no try item covers \<open>pc\<close>.
  \<^item> \<open>ResolvesToThrowable idx\<close>: the class linker resolves type index \<open>idx\<close> to the class
    root \<open>java.lang.Throwable\<close>.
\<close>

record ('k, 'c) Method =
  Insns :: "nat \<Rightarrow> 16 word"
  InsnsSizeInCodeUnits :: nat
  InstructionAt :: "nat \<Rightarrow> Instruction"
  FindTryItem :: "nat \<Rightarrow> (nat option \<times> nat) list option"
  ResolvesToThrowable :: "nat \<Rightarrow> bool"
  IsInstanceConstructor :: bool
  GetMethodReturnType :: "('k, 'c) RegType"
  IsAotMode :: bool
  SdkAtLeastS_V2 :: bool
  IsVerifierMissingKThrowFatal :: bool

section \<open>Register lines\<close>

text \<open>
  What a \<open>RegisterLine\<close> method or an opcode's transfer function does to the verifier
  besides changing the line it works on: a call of \<open>Fail\<close> with the error and the
  \<open>pending_exc\<close> argument, or a direct call of \<open>PotentiallyMarkRuntimeThrow\<close>.
\<close>

datatype Raised = RaiseFail VerifyError bool | RaiseRuntimeThrow

datatype TypeCategory = kTypeCategory1nr | kTypeCategoryRef

text \<open>
  The result of the transfer function of an opcode that is not spelled out below: what it
  raised, the working line it leaves, the locals \<open>just_set_result\<close> and
  \<open>exc_handler_unreachable\<close>, and the peephole lines for the branch and the fall-through
  successor (\<open>None\<close> for a null pointer).
\<close>

record 'l TransferResult =
  tr_raised :: "Raised list"
  tr_line :: 'l
  tr_just_set_result :: bool
  tr_exc_handler_unreachable :: bool
  tr_branch_line :: "'l option"
  tr_fallthrough_line :: "'l option"

text \<open>
  \<open>RegisterLine\<close> (register_line.h, register_line.cc) is not among the sources, and the
  type lattice it merges with is not either. The line type is the parameter \<open>'l\<close> and the
  methods the verifier calls are parameters. A method that may call back into
  \<open>MethodVerifier::Fail\<close> returns what it raised; the verifier model then runs \<open>Fail\<close>
  for it. What is raised is applied before the line changes, which is the order
  \<open>PotentiallyMarkRuntimeThrow\<close> relies on (its note at lines 5172-5174).
  \<open>MergeRegisters target incoming\<close> returns what was raised, the merged target line and
  the C++ method's result, whether the target changed. \<open>OtherTransfer pc inst line\<close>
  stands for the cases of the opcode switch of \<open>CodeFlowVerifyInstruction\<close> that are not
  spelled out below.
\<close>

record ('l, 'k, 'c) RegisterLineOps =
  GetRegisterType :: "'l \<Rightarrow> nat \<Rightarrow> ('k, 'c) RegType"
  MergeRegisters :: "'l \<Rightarrow> 'l \<Rightarrow> Raised list \<times> 'l \<times> bool"
  PushMonitor :: "'l \<Rightarrow> nat \<Rightarrow> nat \<Rightarrow> Raised list \<times> 'l"
  PopMonitor :: "'l \<Rightarrow> nat \<Rightarrow> Raised list \<times> 'l"
  MonitorStackDepth :: "'l \<Rightarrow> nat"
  VerifyMonitorStackEmpty :: "'l \<Rightarrow> Raised list"
  CheckConstructorReturn :: "'l \<Rightarrow> Raised list \<times> bool"
  MarkAllRegistersAsConflicts :: "'l \<Rightarrow> 'l"
  MarkAllRegistersAsConflictsExcept :: "'l \<Rightarrow> nat \<Rightarrow> 'l"
  MarkAllRegistersAsConflictsExceptWide :: "'l \<Rightarrow> nat \<Rightarrow> 'l"
  CopyRegister1 :: "'l \<Rightarrow> nat \<Rightarrow> nat \<Rightarrow> TypeCategory \<Rightarrow> Raised list \<times> 'l"
  SetResultTypeToUnknown :: "'l \<Rightarrow> 'l"
  OtherTransfer :: "nat \<Rightarrow> Instruction \<Rightarrow> 'l \<Rightarrow> 'l TransferResult"

section \<open>The verifier's state and its failure list\<close>

text \<open>
  The fields of \<open>MethodVerifier\<close> that the code-flow pass reads and writes.
  \<open>reg_table\<close> is the \<open>PcToRegisterLineTable\<close>: one slot per code unit, \<open>None\<close> for a null
  pointer. \<open>encountered_failure_types\<close> is the bit mask of failure kinds, as a set.
  The failure messages are not modelled. \<open>crashed\<close> records that the C++ has left
  defined behaviour or aborted: a \<open>LOG(FATAL)\<close> or a failed \<open>CHECK\<close> was reached, a null
  line was dereferenced, or the flag array or line table was indexed past its end.
  Assertions of debug builds (\<open>DCHECK\<close>, \<open>kIsDebugBuild\<close>, \<open>kVerifierDebug\<close>) are not
  modelled.
\<close>

record 'l Verifier =
  work_line :: 'l
  saved_line :: 'l
  reg_table :: "'l option list"
  insn_flags :: "InstructionFlags list"
  work_insn_idx :: nat
  have_pending_hard_failure :: bool
  have_pending_runtime_throw_failure :: bool
  failures :: "VerifyError list"
  encountered_failure_types :: "VerifyError set"
  crashed :: bool

definition kDexNoIndex :: nat where
  "kDexNoIndex = 0xFFFFFFFF"

text \<open>The tail of \<open>Fail\<close>: mark the kind as encountered and append to the failure list.\<close>

definition RecordFailure :: "VerifyError \<Rightarrow> 'l Verifier \<Rightarrow> 'l Verifier" where
  "RecordFailure error st =
     st\<lparr>encountered_failure_types := insert error (encountered_failure_types st),
        failures := failures st @ [error]\<rparr>"

text \<open>
  \<open>PotentiallyMarkRuntimeThrow\<close> (lines 5146-5180). Its call
  \<open>Fail(VERIFY_ERROR_RUNTIME_THROW, /* pending_exc= */ false)\<close> only records the failure.
\<close>

definition PotentiallyMarkRuntimeThrow ::
  "('k, 'c) Method \<Rightarrow> 'l Verifier \<Rightarrow> bool \<times> 'l Verifier" where
  "PotentiallyMarkRuntimeThrow M st =
     (if IsAotMode M \<or> SdkAtLeastS_V2 M then (False, st)
      else if work_insn_idx st < kDexNoIndex then
        (let inst = InstructionAt M (work_insn_idx st); opcode = Opcode inst in
         if opcode = MOVE_EXCEPTION
         then (True, RecordFailure VERIFY_ERROR_RUNTIME_THROW st)
         else if \<not> (work_insn_idx st < length (insn_flags st))
         then (True, st\<lparr>crashed := True\<rparr>)
         else if kThrow \<notin> Flags inst \<and> \<not> IsCompatThrow opcode
                 \<and> IsInTry (insn_flags st ! work_insn_idx st)
         then (if IsVerifierMissingKThrowFatal M
               then (True, st\<lparr>crashed := True\<rparr>)
               else (True, st\<lparr>saved_line := work_line st,
                              have_pending_runtime_throw_failure := True\<rparr>))
         else (True, st\<lparr>have_pending_runtime_throw_failure := True\<rparr>))
      else (True, st\<lparr>have_pending_runtime_throw_failure := True\<rparr>))"

text \<open>\<open>MethodVerifier::Fail\<close> (lines 5532-5577).\<close>

definition Fail :: "('k, 'c) Method \<Rightarrow> VerifyError \<Rightarrow> bool \<Rightarrow> 'l Verifier \<Rightarrow> 'l Verifier" where
  "Fail M error pending_exc st =
     (let st1 = st\<lparr>encountered_failure_types := insert error (encountered_failure_types st)\<rparr>;
          st2 = (if pending_exc then
                   (case error of
                      VERIFY_ERROR_BAD_CLASS_HARD \<Rightarrow> st1\<lparr>have_pending_hard_failure := True\<rparr>
                    | VERIFY_ERROR_RUNTIME_THROW \<Rightarrow> st1\<lparr>crashed := True\<rparr>
                    | _ \<Rightarrow> snd (PotentiallyMarkRuntimeThrow M st1))
                 else st1)
      in st2\<lparr>failures := failures st2 @ [error]\<rparr>)"

fun Raise :: "('k, 'c) Method \<Rightarrow> Raised list \<Rightarrow> 'l Verifier \<Rightarrow> 'l Verifier" where
  "Raise M [] st = st"
| "Raise M (RaiseFail error pending_exc # rs) st = Raise M rs (Fail M error pending_exc st)"
| "Raise M (RaiseRuntimeThrow # rs) st = Raise M rs (snd (PotentiallyMarkRuntimeThrow M st))"


section \<open>Checking a register against a type\<close>

text \<open>
  \<open>VerifyRegisterType(vsrc, check_type)\<close> (lines 859-891). \<open>FailForRegisterType\<close> and
  \<open>FailForRegisterTypeWide\<close> call \<open>Fail\<close>; the \<open>pending_exc\<close> argument of \<open>Fail\<close> is \<open>true\<close>
  wherever the C++ does not pass it.
\<close>

definition VerifyRegisterType ::
  "('k, 'c) RegTypeOps \<Rightarrow> ('l, 'k, 'c) RegisterLineOps \<Rightarrow> ('k, 'c) Method \<Rightarrow>
   nat \<Rightarrow> ('k, 'c) RegType \<Rightarrow> 'l Verifier \<Rightarrow> bool \<times> 'l Verifier" where
  "VerifyRegisterType T L M vsrc check_type st =
     (let src_type = GetRegisterType L (work_line st) vsrc in
      if \<not> IsAssignableFrom T check_type src_type then
        (let fail_type =
               (if \<not> IsNonZeroReferenceTypes check_type \<or> \<not> IsNonZeroReferenceTypes src_type
                then VERIFY_ERROR_BAD_CLASS_HARD
                else if IsUninitializedTypes check_type \<or> IsUninitializedTypes src_type
                then VERIFY_ERROR_BAD_CLASS_HARD
                else if IsUnresolvedTypes check_type \<or> IsUnresolvedTypes src_type
                then VERIFY_ERROR_UNRESOLVED_TYPE_CHECK
                else VERIFY_ERROR_BAD_CLASS_HARD)
         in (False, Fail M fail_type True st))
      else if IsLowHalf check_type then
        (let src_type_h = GetRegisterType L (work_line st) (vsrc + 1) in
         if \<not> CheckWidePair T src_type src_type_h
         then (False, Fail M VERIFY_ERROR_BAD_CLASS_HARD True st)
         else (True, st))
      else (True, st))"

section \<open>Propagating a line to a successor\<close>

text \<open>
  \<open>AdjustReturnLine\<close> (lines 2413-2442), applied to \<open>line\<close>; returns the adjusted line
  and the verifier after what \<open>CheckConstructorReturn\<close> raised.
\<close>

definition AdjustReturnLine ::
  "('l, 'k, 'c) RegisterLineOps \<Rightarrow> ('k, 'c) Method \<Rightarrow> Instruction \<Rightarrow> 'l \<Rightarrow> 'l Verifier \<Rightarrow>
   'l \<times> 'l Verifier" where
  "AdjustReturnLine L M ret_inst line st =
     (case Opcode ret_inst of
        RETURN_VOID \<Rightarrow>
          (let st1 = (if IsInstanceConstructor M
                      then Raise M (fst (CheckConstructorReturn L line)) st else st)
           in (MarkAllRegistersAsConflicts L line, st1))
      | RETURN \<Rightarrow> (MarkAllRegistersAsConflictsExcept L line (VRegA ret_inst), st)
      | RETURN_OBJECT \<Rightarrow> (MarkAllRegistersAsConflictsExcept L line (VRegA ret_inst), st)
      | RETURN_WIDE \<Rightarrow> (MarkAllRegistersAsConflictsExceptWide L line (VRegA ret_inst), st)
      | _ \<Rightarrow> (line, st\<lparr>crashed := True\<rparr>))"

definition SetChanged :: "nat \<Rightarrow> 'l Verifier \<Rightarrow> 'l Verifier" where
  "SetChanged pc st = st\<lparr>insn_flags := (insn_flags st)[pc := (insn_flags st ! pc)\<lparr>IsChanged := True\<rparr>]\<rparr>"

text \<open>
  \<open>UpdateRegisters(next_insn, merge_line, update_merge_line)\<close> (lines 5059-5109). The
  merge line is passed by pointer in the C++ and written when \<open>update_merge_line\<close> is set
  and the merge changed the target; the model returns it next to the result.
\<close>

definition UpdateRegisters ::
  "('l, 'k, 'c) RegisterLineOps \<Rightarrow> ('k, 'c) Method \<Rightarrow> nat \<Rightarrow> 'l \<Rightarrow> bool \<Rightarrow> 'l Verifier \<Rightarrow>
   bool \<times> 'l \<times> 'l Verifier" where
  "UpdateRegisters L M next_insn merge_line update_merge_line st =
     (if \<not> (next_insn < length (insn_flags st) \<and> next_insn < length (reg_table st))
      then (False, merge_line, st\<lparr>crashed := True\<rparr>)
      else case reg_table st ! next_insn of
        None \<Rightarrow> (False, merge_line, st\<lparr>crashed := True\<rparr>)
      | Some target_line \<Rightarrow>
          if \<not> IsVisitedOrChanged (insn_flags st ! next_insn) then
            (if IsReturn (insn_flags st ! next_insn) then
               (let st1 = Raise M (VerifyMonitorStackEmpty L merge_line) st;
                    (adjusted, st2) =
                       AdjustReturnLine L M (InstructionAt M next_insn) merge_line st1;
                    st3 = st2\<lparr>reg_table := (reg_table st2)[next_insn := Some adjusted]\<rparr>
                in if have_pending_hard_failure st3 then (False, merge_line, st3)
                   else (True, merge_line, SetChanged next_insn st3))
             else
               (True, merge_line,
                SetChanged next_insn
                  (st\<lparr>reg_table := (reg_table st)[next_insn := Some merge_line]\<rparr>)))
          else
            (let (raised, merged, changed) = MergeRegisters L target_line merge_line;
                 st1 = (Raise M raised st)
                         \<lparr>reg_table := (reg_table st)[next_insn := Some merged]\<rparr>
             in if have_pending_hard_failure st1 then (False, merge_line, st1)
                else (True,
                      (if update_merge_line \<and> changed then merged else merge_line),
                      (if changed then SetChanged next_insn st1 else st1))))"


section \<open>One instruction of the code-flow pass\<close>

text \<open>The local variables of \<open>CodeFlowVerifyInstruction\<close> that outlive the opcode switch.\<close>

record 'l Locals =
  opcode_flags :: "OpFlag set"
  just_set_result :: bool
  exc_handler_unreachable :: bool
  branch_line :: "'l option"
  fallthrough_line :: "'l option"
  branch_target :: int

text \<open>
  Lines 2476-2488: the copy of the working line kept for the exception edges.
\<close>

definition SaveWorkLine :: "('k, 'c) Method \<Rightarrow> 'l Verifier \<Rightarrow> 'l Verifier" where
  "SaveWorkLine M st =
     (let inst = InstructionAt M (work_insn_idx st) in
      if (kThrow \<in> Flags inst \<or> IsCompatThrow (Opcode inst))
         \<and> IsInTry (insn_flags st ! work_insn_idx st)
      then st\<lparr>saved_line := work_line st\<rparr>
      else st)"

text \<open>A call of a \<open>RegisterLine\<close> method on the working line.\<close>

definition OnWorkLine :: "('k, 'c) Method \<Rightarrow> Raised list \<times> 'l \<Rightarrow> 'l Verifier \<Rightarrow> 'l Verifier" where
  "OnWorkLine M r st = (Raise M (fst r) st)\<lparr>work_line := snd r\<rparr>"

text \<open>
  The condition \<open>!IsInstanceConstructor() || work_line_->CheckConstructorReturn(this)\<close>
  of the return cases.
\<close>

definition ConstructorReturnOk ::
  "('l, 'k, 'c) RegisterLineOps \<Rightarrow> ('k, 'c) Method \<Rightarrow> 'l Verifier \<Rightarrow> bool \<times> 'l Verifier" where
  "ConstructorReturnOk L M st =
     (if \<not> IsInstanceConstructor M then (True, st)
      else (let r = CheckConstructorReturn L (work_line st) in (snd r, Raise M (fst r) st)))"

text \<open>The case \<open>RETURN_VOID\<close> (lines 2568-2574).\<close>

definition Transfer_RETURN_VOID ::
  "('l, 'k, 'c) RegisterLineOps \<Rightarrow> ('k, 'c) Method \<Rightarrow> 'l Verifier \<Rightarrow> 'l Verifier" where
  "Transfer_RETURN_VOID L M st =
     (let (ok, st1) = ConstructorReturnOk L M st in
      if ok \<and> \<not> IsConflict (GetMethodReturnType M)
      then Fail M VERIFY_ERROR_BAD_CLASS_HARD True st1
      else st1)"

text \<open>
  The case \<open>RETURN\<close> (lines 2575-2598). \<open>AppendToLastFailMessage\<close> only edits a message.
\<close>

definition Transfer_RETURN ::
  "('k, 'c) RegTypeOps \<Rightarrow> ('l, 'k, 'c) RegisterLineOps \<Rightarrow> ('k, 'c) Method \<Rightarrow> Instruction \<Rightarrow>
   'l Verifier \<Rightarrow> 'l Verifier" where
  "Transfer_RETURN T L M inst st =
     (let (ok, st1) = ConstructorReturnOk L M st in
      if ok then
        (let return_type = GetMethodReturnType M in
         if \<not> IsCategory1Types return_type
         then Fail M VERIFY_ERROR_BAD_CLASS_HARD True st1
         else
           (let vregA = VRegA inst;
                src_type = GetRegisterType L (work_line st1) vregA;
                use_src = ((IsBoolean return_type \<and> IsByte src_type) \<or>
                           ((IsBoolean return_type \<or> IsByte return_type \<or>
                             IsShort return_type \<or> IsChar return_type) \<and>
                            IsInteger src_type))
            in snd (VerifyRegisterType T L M vregA
                      (if use_src then src_type else return_type) st1)))
      else st1)"

text \<open>The case \<open>RETURN_OBJECT\<close> (lines 2615-2650).\<close>

definition Transfer_RETURN_OBJECT ::
  "('k, 'c) RegTypeOps \<Rightarrow> ('l, 'k, 'c) RegisterLineOps \<Rightarrow> ('k, 'c) Method \<Rightarrow> Instruction \<Rightarrow>
   'l Verifier \<Rightarrow> 'l Verifier" where
  "Transfer_RETURN_OBJECT T L M inst st =
     (let (ok, st1) = ConstructorReturnOk L M st in
      if ok then
        (let return_type = GetMethodReturnType M in
         if \<not> IsReferenceTypes return_type
         then Fail M VERIFY_ERROR_BAD_CLASS_HARD True st1
         else
           (let vregA = VRegA inst;
                reg_type = GetRegisterType L (work_line st1) vregA
            in if IsUndefined reg_type then Fail M VERIFY_ERROR_BAD_CLASS_HARD True st1
               else if IsConflict reg_type then Fail M VERIFY_ERROR_BAD_CLASS_HARD True st1
               else if IsUninitializedTypes reg_type
               then Fail M VERIFY_ERROR_BAD_CLASS_HARD True st1
               else if \<not> IsReferenceTypes reg_type
               then Fail M VERIFY_ERROR_BAD_CLASS_HARD True st1
               else if \<not> IsAssignableFrom T return_type reg_type then
                 (if IsUnresolvedTypes reg_type \<or> IsUnresolvedTypes return_type
                  then Fail M VERIFY_ERROR_UNRESOLVED_TYPE_CHECK True st1
                  else Fail M VERIFY_ERROR_BAD_CLASS_HARD True st1)
               else st1))
      else st1)"

text \<open>
  The loop \<open>while (0 != prev_idx && !GetInstructionFlags(prev_idx).IsOpcode()) prev_idx--\<close>
  of the case \<open>MONITOR_ENTER\<close>.
\<close>

fun ScanBack :: "InstructionFlags list \<Rightarrow> nat \<Rightarrow> nat" where
  "ScanBack fl 0 = 0"
| "ScanBack fl (Suc p) = (if IsOpcode (fl ! Suc p) then Suc p else ScanBack fl p)"

text \<open>The case \<open>MONITOR_ENTER\<close> (lines 2726-2793).\<close>

definition Transfer_MONITOR_ENTER ::
  "('l, 'k, 'c) RegisterLineOps \<Rightarrow> ('k, 'c) Method \<Rightarrow> Instruction \<Rightarrow> 'l Verifier \<Rightarrow>
   'l Verifier" where
  "Transfer_MONITOR_ENTER L M inst st =
     (let idx = work_insn_idx st;
          st1 = OnWorkLine M (PushMonitor L (work_line st) (VRegA inst) idx) st
      in if 0 \<noteq> idx \<and> \<not> IsBranchTarget (insn_flags st1 ! idx) then
           (let prev_idx = ScanBack (insn_flags st1) (idx - 1);
                prev_inst = InstructionAt M prev_idx
            in if Opcode prev_inst = MOVE_OBJECT \<or> Opcode prev_inst = MOVE_OBJECT_16
                  \<or> Opcode prev_inst = MOVE_OBJECT_FROM16 then
                 (if VRegB prev_inst = VRegA inst
                  then OnWorkLine M (CopyRegister1 L (work_line st1) (VRegA prev_inst)
                                       (VRegB prev_inst) kTypeCategoryRef) st1
                  else st1)
               else if Opcode prev_inst = CONST_CLASS then
                 (if prev_idx = 0 \<or> IsBranchTarget (insn_flags st1 ! prev_idx) then st1
                  else
                    (let prev2_idx = ScanBack (insn_flags st1) (prev_idx - 1);
                         prev2_inst = InstructionAt M prev2_idx
                     in if Opcode prev2_inst \<noteq> CONST_CLASS then st1
                        else if VRegB prev_inst \<noteq> VRegB prev2_inst then st1
                        else if VRegA prev_inst = VRegA inst
                        then OnWorkLine M (CopyRegister1 L (work_line st1) (VRegA prev2_inst)
                                             (VRegA inst) kTypeCategoryRef) st1
                        else if VRegA prev2_inst = VRegA inst
                        then OnWorkLine M (CopyRegister1 L (work_line st1) (VRegA prev_inst)
                                             (VRegA inst) kTypeCategoryRef) st1
                        else st1))
               else st1)
         else st1)"

text \<open>
  The opcode switch (lines 2501-3696). The cases \<open>NOP\<close>, \<open>RETURN_VOID\<close>, \<open>RETURN\<close>,
  \<open>RETURN_OBJECT\<close>, \<open>MONITOR_ENTER\<close> and \<open>MONITOR_EXIT\<close> are those of the C++; every other
  case is \<open>OtherTransfer\<close>.
\<close>

definition Dispatch ::
  "('k, 'c) RegTypeOps \<Rightarrow> ('l, 'k, 'c) RegisterLineOps \<Rightarrow> ('k, 'c) Method \<Rightarrow> 'l Verifier \<Rightarrow>
   'l Locals \<times> 'l Verifier" where
  "Dispatch T L M st =
     (let inst = InstructionAt M (work_insn_idx st);
          loc = \<lparr>opcode_flags = Flags inst, just_set_result = False,
                 exc_handler_unreachable = False, branch_line = None,
                 fallthrough_line = None, branch_target = 0\<rparr>
      in case Opcode inst of
           NOP \<Rightarrow>
             (loc, if VRegA inst \<noteq> 0 then Fail M VERIFY_ERROR_BAD_CLASS_HARD True st else st)
         | RETURN_VOID \<Rightarrow> (loc, Transfer_RETURN_VOID L M st)
         | RETURN \<Rightarrow> (loc, Transfer_RETURN T L M inst st)
         | RETURN_OBJECT \<Rightarrow> (loc, Transfer_RETURN_OBJECT T L M inst st)
         | MONITOR_ENTER \<Rightarrow> (loc, Transfer_MONITOR_ENTER L M inst st)
         | MONITOR_EXIT \<Rightarrow>
             (loc\<lparr>opcode_flags := Flags inst - {kThrow}\<rparr>,
              OnWorkLine M (PopMonitor L (work_line st) (VRegA inst)) st)
         | _ \<Rightarrow>
             (let r = OtherTransfer L (work_insn_idx st) inst (work_line st) in
              (loc\<lparr>just_set_result := tr_just_set_result r,
                   exc_handler_unreachable := tr_exc_handler_unreachable r,
                   branch_line := tr_branch_line r,
                   fallthrough_line := tr_fallthrough_line r\<rparr>,
               OnWorkLine M (tr_raised r, tr_line r) st)))"

text \<open>
  Lines 3698-3730, after the switch: a pending hard failure rejects (when compiling
  ahead of time the last failure must then be a hard one, else \<open>LOG(FATAL)\<close>); a pending
  runtime-throw failure replaces the opcode flags by \<open>kThrow\<close>; the result register is
  cleared unless it was just set.
\<close>

definition AfterSwitch ::
  "('l, 'k, 'c) RegisterLineOps \<Rightarrow> ('k, 'c) Method \<Rightarrow> 'l Locals \<Rightarrow> 'l Verifier \<Rightarrow>
   bool \<times> 'l Locals \<times> 'l Verifier" where
  "AfterSwitch L M loc st =
     (if have_pending_hard_failure st then
        (if IsAotMode M \<and> (failures st = [] \<or> last (failures st) \<noteq> VERIFY_ERROR_BAD_CLASS_HARD)
         then (False, loc, st\<lparr>crashed := True\<rparr>)
         else (False, loc, st))
      else
        (let loc1 = (if have_pending_runtime_throw_failure st
                     then loc\<lparr>opcode_flags := {kThrow}\<rparr> else loc);
             st1 = (if \<not> just_set_result loc1
                    then st\<lparr>work_line := SetResultTypeToUnknown L (work_line st)\<rparr> else st)
         in (True, loc1, st1)))"


subsection \<open>Reading the code units\<close>

text \<open>
  The numbers of the opcodes that the C++ compares the low byte of a code unit with
  (dex_instruction_list.h is not among the sources; these are the numbers of the dex
  format).
\<close>

definition OP_MOVE_RESULT :: "16 word" where "OP_MOVE_RESULT = 0x0a"
definition OP_MOVE_RESULT_OBJECT :: "16 word" where "OP_MOVE_RESULT_OBJECT = 0x0c"
definition OP_MOVE_EXCEPTION :: "16 word" where "OP_MOVE_EXCEPTION = 0x0d"
definition OP_GOTO :: "16 word" where "OP_GOTO = 0x28"
definition OP_GOTO_16 :: "16 word" where "OP_GOTO_16 = 0x29"
definition OP_GOTO_32 :: "16 word" where "OP_GOTO_32 = 0x2a"
definition OP_PACKED_SWITCH :: "16 word" where "OP_PACKED_SWITCH = 0x2b"
definition OP_IF_EQ :: "16 word" where "OP_IF_EQ = 0x32"
definition OP_IF_LEZ :: "16 word" where "OP_IF_LEZ = 0x3d"

text \<open>\<open>a | (b << 16)\<close> read as a signed 32-bit value.\<close>

definition Fetch32 :: "16 word \<Rightarrow> 16 word \<Rightarrow> int" where
  "Fetch32 lo hi = sint ((ucast lo OR push_bit 16 (ucast hi)) :: 32 word)"

text \<open>Unsigned 32-bit addition of a dex pc and a signed offset, and the \<open>uint32_t\<close> to \<open>int\<close> cast.\<close>

definition AddOffset :: "nat \<Rightarrow> int \<Rightarrow> nat" where
  "AddOffset pc off = nat ((int pc + off) mod 2 ^ 32)"

definition ToInt :: "nat \<Rightarrow> int" where
  "ToInt n = sint (word_of_nat n :: 32 word)"

text \<open>
  \<open>GetBranchOffset\<close> (lines 1917-1954): the offset, \<open>*pConditional\<close> and \<open>*selfOkay\<close>, or
  \<open>None\<close> where the C++ returns false. The twelve \<open>if\<close> opcodes are the numbers from
  \<open>IF_EQ\<close> to \<open>IF_LEZ\<close>.
\<close>

definition GetBranchOffset :: "('k, 'c) Method \<Rightarrow> nat \<Rightarrow> (int \<times> bool \<times> bool) option" where
  "GetBranchOffset M cur_offset =
     (let w = Insns M cur_offset; op = w AND 0xff in
      if op = OP_GOTO then Some (sint w div 256, False, False)
      else if op = OP_GOTO_32
      then Some (Fetch32 (Insns M (cur_offset + 1)) (Insns M (cur_offset + 2)), False, True)
      else if op = OP_GOTO_16 then Some (sint (Insns M (cur_offset + 1)), False, False)
      else if OP_IF_EQ \<le> op \<and> op \<le> OP_IF_LEZ
      then Some (sint (Insns M (cur_offset + 1)), True, False)
      else None)"

text \<open>
  \<open>CheckNotMoveException\<close>, \<open>CheckNotMoveResult\<close> and \<open>CheckNotMoveExceptionOrMoveResult\<close>
  (lines 721-751). The index is an \<open>int\<close> in the C++; a negative one reads before the
  array, which the model does not follow: it reads the unit at \<open>nat\<close> of the index.
\<close>

definition CheckNotMoveException ::
  "('k, 'c) Method \<Rightarrow> int \<Rightarrow> 'l Verifier \<Rightarrow> bool \<times> 'l Verifier" where
  "CheckNotMoveException M insn_idx st =
     (if Insns M (nat insn_idx) AND 0xff = OP_MOVE_EXCEPTION
      then (False, Fail M VERIFY_ERROR_BAD_CLASS_HARD True st)
      else (True, st))"

definition CheckNotMoveResult ::
  "('k, 'c) Method \<Rightarrow> int \<Rightarrow> 'l Verifier \<Rightarrow> bool \<times> 'l Verifier" where
  "CheckNotMoveResult M insn_idx st =
     (if OP_MOVE_RESULT \<le> Insns M (nat insn_idx) AND 0xff
         \<and> Insns M (nat insn_idx) AND 0xff \<le> OP_MOVE_RESULT_OBJECT
      then (False, Fail M VERIFY_ERROR_BAD_CLASS_HARD True st)
      else (True, st))"

definition CheckNotMoveExceptionOrMoveResult ::
  "('k, 'c) Method \<Rightarrow> int \<Rightarrow> 'l Verifier \<Rightarrow> bool \<times> 'l Verifier" where
  "CheckNotMoveExceptionOrMoveResult M insn_idx st =
     (let (ok, st1) = CheckNotMoveException M insn_idx st in
      if ok then CheckNotMoveResult M insn_idx st1 else (False, st1))"

subsection \<open>Successor propagation\<close>

text \<open>The branch edge (lines 3744-3766).\<close>

definition HandleBranch ::
  "('l, 'k, 'c) RegisterLineOps \<Rightarrow> ('k, 'c) Method \<Rightarrow> 'l Locals \<Rightarrow> 'l Verifier \<Rightarrow>
   bool \<times> 'l Locals \<times> 'l Verifier" where
  "HandleBranch L M loc st =
     (if kBranch \<in> opcode_flags loc then
        (case GetBranchOffset M (work_insn_idx st) of
           None \<Rightarrow> (False, loc, Fail M VERIFY_ERROR_BAD_CLASS_HARD True st)
         | Some (off, isConditional, selfOkay) \<Rightarrow>
             (let loc1 = loc\<lparr>branch_target := off\<rparr>;
                  target = AddOffset (work_insn_idx st) off;
                  (ok, st1) = CheckNotMoveExceptionOrMoveResult M (ToInt target) st
              in if \<not> ok then (False, loc1, st1)
                 else
                   (let merge_line = (case branch_line loc1 of
                                        Some bl \<Rightarrow> bl | None \<Rightarrow> work_line st1);
                        (ok2, ml, st2) = UpdateRegisters L M target merge_line False st1
                    in (ok2, loc1, st2))))
      else (True, loc, st))"

text \<open>
  The switch edges (lines 3774-3806). \<open>base\<close> is the index of the first unit of the
  switch table, \<open>offset_to_targets\<close> that of the first target inside the table.
\<close>

fun SwitchTargets ::
  "('l, 'k, 'c) RegisterLineOps \<Rightarrow> ('k, 'c) Method \<Rightarrow> int \<Rightarrow> int \<Rightarrow> nat list \<Rightarrow> 'l Verifier \<Rightarrow>
   bool \<times> 'l Verifier" where
  "SwitchTargets L M base offset_to_targets [] st = (True, st)"
| "SwitchTargets L M base offset_to_targets (targ # targs) st =
     (let offset = Fetch32 (Insns M (nat (base + offset_to_targets + int targ * 2)))
                           (Insns M (nat (base + offset_to_targets + int targ * 2 + 1)));
          abs_offset = AddOffset (work_insn_idx st) offset;
          (ok, st1) = CheckNotMoveExceptionOrMoveResult M (ToInt abs_offset) st
      in if \<not> ok then (False, st1)
         else (let (ok2, ml, st2) = UpdateRegisters L M abs_offset (work_line st1) False st1
               in if \<not> ok2 then (False, st2)
                  else SwitchTargets L M base offset_to_targets targs st2))"

definition HandleSwitch ::
  "('l, 'k, 'c) RegisterLineOps \<Rightarrow> ('k, 'c) Method \<Rightarrow> 'l Locals \<Rightarrow> 'l Verifier \<Rightarrow>
   bool \<times> 'l Verifier" where
  "HandleSwitch L M loc st =
     (if kSwitch \<in> opcode_flags loc then
        (let idx = work_insn_idx st;
             offset_to_switch = Fetch32 (Insns M (idx + 1)) (Insns M (idx + 2));
             base = int idx + offset_to_switch;
             switch_count = unat (Insns M (nat (base + 1)));
             offset_to_targets =
               (if Insns M idx AND 0xff = OP_PACKED_SWITCH then 4
                else 2 + 2 * int switch_count)
         in SwitchTargets L M base offset_to_targets [0..<switch_count] st)
      else (True, st))"

text \<open>
  The exception edges (lines 3812-3869). \<open>ThrowEdges\<close> is the loop over the handlers of
  the covering try item: it returns false as soon as an update fails, else the value of
  \<open>has_catch_all_handler\<close>. The line merged is \<open>saved_line_\<close>, read when the update is made.
\<close>

fun ThrowEdges ::
  "('l, 'k, 'c) RegisterLineOps \<Rightarrow> ('k, 'c) Method \<Rightarrow> (nat option \<times> nat) list \<Rightarrow> bool \<Rightarrow>
   'l Verifier \<Rightarrow> bool \<times> bool \<times> 'l Verifier" where
  "ThrowEdges L M [] has_catch_all st = (True, has_catch_all, st)"
| "ThrowEdges L M ((handler_type_idx, handler_address) # hs) has_catch_all st =
     (let has_catch_all1 =
            (case handler_type_idx of
               None \<Rightarrow> True
             | Some ti \<Rightarrow> (if ResolvesToThrowable M ti then True else has_catch_all));
          (ok, ml, st1) = UpdateRegisters L M handler_address (saved_line st) False st
      in if \<not> ok then (False, has_catch_all1, st1)
         else ThrowEdges L M hs has_catch_all1 st1)"

definition HandleThrow ::
  "('l, 'k, 'c) RegisterLineOps \<Rightarrow> ('k, 'c) Method \<Rightarrow> 'l Locals \<Rightarrow> 'l Verifier \<Rightarrow>
   bool \<times> 'l Verifier" where
  "HandleThrow L M loc st =
     (if kThrow \<in> opcode_flags loc \<and> IsInTry (insn_flags st ! work_insn_idx st) then
        (case FindTryItem M (work_insn_idx st) of
           None \<Rightarrow> (False, st\<lparr>crashed := True\<rparr>)
         | Some handlers \<Rightarrow>
             (let (ok, has_catch_all_handler, st1) = ThrowEdges L M handlers False st in
              if \<not> ok then (False, st1)
              else if MonitorStackDepth L (work_line st1) > 0 \<and> \<not> has_catch_all_handler then
                (if Opcode (InstructionAt M (work_insn_idx st1)) \<noteq> MONITOR_ENTER
                    \<or> MonitorStackDepth L (work_line st1) \<noteq> 1
                 then (False, Fail M VERIFY_ERROR_BAD_CLASS_HARD True st1)
                 else (True, st1))
              else (True, st1)))
      else (True, st))"

text \<open>The fall-through edge (lines 3876-3912).\<close>

definition HandleContinue ::
  "('l, 'k, 'c) RegisterLineOps \<Rightarrow> ('k, 'c) Method \<Rightarrow> 'l Locals \<Rightarrow> 'l Verifier \<Rightarrow>
   bool \<times> 'l Verifier" where
  "HandleContinue L M loc st =
     (if kContinue \<in> opcode_flags loc \<and> \<not> exc_handler_unreachable loc then
        (let next_insn_idx =
               (work_insn_idx st + SizeInCodeUnits (InstructionAt M (work_insn_idx st)))
                 mod 2 ^ 32
         in if next_insn_idx \<ge> InsnsSizeInCodeUnits M
            then (False, Fail M VERIFY_ERROR_BAD_CLASS_HARD True st)
            else
              (let (ok, st1) = CheckNotMoveException M (ToInt next_insn_idx) st in
               if \<not> ok then (False, st1)
               else if \<not> (next_insn_idx < length (insn_flags st1)
                          \<and> next_insn_idx < length (reg_table st1))
               then (False, st1\<lparr>crashed := True\<rparr>)
               else
                 (let st2 = (case fallthrough_line loc of
                               Some fl \<Rightarrow> st1\<lparr>work_line := fl\<rparr> | None \<Rightarrow> st1);
                      st3 = (if IsReturn (insn_flags st2 ! next_insn_idx)
                             then (let (adjusted, s) =
                                         AdjustReturnLine L M (InstructionAt M next_insn_idx)
                                           (work_line st2) st2
                                   in s\<lparr>work_line := adjusted\<rparr>)
                             else st2)
                  in case reg_table st3 ! next_insn_idx of
                       Some next_line \<Rightarrow>
                         (let (ok2, ml, st4) =
                                UpdateRegisters L M next_insn_idx (work_line st3) True st3
                          in if \<not> ok2 then (False, st4)
                             else (True, st4\<lparr>work_line := ml\<rparr>))
                     | None \<Rightarrow> (True, SetChanged next_insn_idx st3))))
      else (True, st))"

text \<open>
  \<open>CodeFlowVerifyInstruction\<close> up to the exception edges (lines 2445-3806): the copy of
  the working line, the opcode switch, the checks after it, the branch edge and the switch
  edges. The result is false where the C++ has returned false.
\<close>

definition BeforeThrowEdges ::
  "('k, 'c) RegTypeOps \<Rightarrow> ('l, 'k, 'c) RegisterLineOps \<Rightarrow> ('k, 'c) Method \<Rightarrow>
   'l Verifier \<Rightarrow> bool \<times> 'l Locals \<times> 'l Verifier" where
  "BeforeThrowEdges T L M st =
     (let (loc0, st1) = Dispatch T L M (SaveWorkLine M st);
          (ok1, loc1, st2) = AfterSwitch L M loc0 st1
      in if \<not> ok1 then (False, loc1, st2)
         else
           (let (ok2, loc, st3) = HandleBranch L M loc1 st2 in
            if \<not> ok2 then (False, loc, st3)
            else (let (ok3, st4) = HandleSwitch L M loc st3 in (ok3, loc, st4))))"

text \<open>
  \<open>CodeFlowVerifyInstruction(&start_guess)\<close> (lines 2445-3943): the result, the new
  \<open>start_guess\<close> and the verifier.
\<close>

definition CodeFlowVerifyInstruction ::
  "('k, 'c) RegTypeOps \<Rightarrow> ('l, 'k, 'c) RegisterLineOps \<Rightarrow> ('k, 'c) Method \<Rightarrow> nat \<Rightarrow>
   'l Verifier \<Rightarrow> bool \<times> nat \<times> 'l Verifier" where
  "CodeFlowVerifyInstruction T L M start_guess st =
     (let (ok, loc, st4) = BeforeThrowEdges T L M st in
      if \<not> ok then (False, start_guess, st4)
      else
        (let (ok4, st5) = HandleThrow L M loc st4 in
         if \<not> ok4 then (False, start_guess, st5)
         else
           (let (ok5, st6) = HandleContinue L M loc st5 in
            if \<not> ok5 then (False, start_guess, st6)
            else
              (let st7 = (if kReturn \<in> opcode_flags loc
                          then Raise M (VerifyMonitorStackEmpty L (work_line st6)) st6
                          else st6);
                   inst = InstructionAt M (work_insn_idx st7);
                   start_guess1 =
                     (if kContinue \<in> opcode_flags loc
                      then (work_insn_idx st7 + SizeInCodeUnits inst) mod 2 ^ 32
                      else if kBranch \<in> opcode_flags loc
                      then AddOffset (work_insn_idx st7) (branch_target loc)
                      else start_guess);
                   st8 = (if have_pending_runtime_throw_failure st7
                          then (Fail M VERIFY_ERROR_RUNTIME_THROW False st7)
                                 \<lparr>have_pending_runtime_throw_failure := False\<rparr>
                          else st7)
               in (True, start_guess1, st8)))))"

text \<open>
  The exception-edge loop as C2 words it: the line merged into every handler is a line
  given beforehand (the snapshot), not one read from the verifier at each update.
\<close>

fun MergeSnapshotIntoHandlers ::
  "('l, 'k, 'c) RegisterLineOps \<Rightarrow> ('k, 'c) Method \<Rightarrow> 'l \<Rightarrow> (nat option \<times> nat) list \<Rightarrow>
   bool \<Rightarrow> 'l Verifier \<Rightarrow> bool \<times> bool \<times> 'l Verifier" where
  "MergeSnapshotIntoHandlers L M snapshot [] has_catch_all st = (True, has_catch_all, st)"
| "MergeSnapshotIntoHandlers L M snapshot ((handler_type_idx, handler_address) # hs)
     has_catch_all st =
     (let has_catch_all1 =
            (case handler_type_idx of
               None \<Rightarrow> True
             | Some ti \<Rightarrow> (if ResolvesToThrowable M ti then True else has_catch_all));
          (ok, ml, st1) = UpdateRegisters L M handler_address snapshot False st
      in if \<not> ok then (False, has_catch_all1, st1)
         else MergeSnapshotIntoHandlers L M snapshot hs has_catch_all1 st1)"

section \<open>The fixed-point driver\<close>

text \<open>
  The scan \<open>for (; insn_idx < insns_size; insn_idx++) if (IsChanged) break;\<close> of
  \<open>CodeFlowVerifyMethod\<close> (lines 2301-2305), started at \<open>insn_idx\<close>.
\<close>

function FindChanged :: "InstructionFlags list \<Rightarrow> nat \<Rightarrow> nat \<Rightarrow> nat" where
  "FindChanged fl insns_size insn_idx =
     (if insn_idx < insns_size
      then (if IsChanged (fl ! insn_idx) then insn_idx
            else FindChanged fl insns_size (insn_idx + 1))
      else insn_idx)"
  by pat_completeness auto
termination
  by (relation "measure (\<lambda>(fl, insns_size, insn_idx). insns_size - insn_idx)") auto

declare FindChanged.simps [simp del]

text \<open>
  Lines 2322-2341: the working line is loaded from the table when the instruction is a
  branch target and is left as it is otherwise.
\<close>

definition LoadWorkLine :: "nat \<Rightarrow> 'l Verifier \<Rightarrow> 'l Verifier" where
  "LoadWorkLine insn_idx st =
     (let st1 = st\<lparr>work_insn_idx := insn_idx\<rparr> in
      if IsBranchTarget (insn_flags st1 ! insn_idx) then
        (case reg_table st1 ! insn_idx of
           Some line \<Rightarrow> st1\<lparr>work_line := line\<rparr>
         | None \<Rightarrow> st1\<lparr>crashed := True\<rparr>)
      else st1)"

text \<open>Lines 2357-2359: \<open>SetVisited\<close> and \<open>ClearChanged\<close> on the instruction just verified.\<close>

definition MarkVisited :: "nat \<Rightarrow> 'l Verifier \<Rightarrow> 'l Verifier" where
  "MarkVisited insn_idx st =
     st\<lparr>insn_flags :=
          (insn_flags st)[insn_idx := (insn_flags st ! insn_idx)\<lparr>IsVisited := True,
                                                               IsChanged := False\<rparr>]\<rparr>"

text \<open>
  One turn of the loop \<open>while (true)\<close> of \<open>CodeFlowVerifyMethod\<close> (lines 2296-2360):
  \<open>Inl\<close> the value the method returns with, or \<open>Inr\<close> the next \<open>start_guess\<close> and verifier.
  Thread suspension and the collection of lock information for \<open>FindLocksAtDexPc\<close>
  do not change the verifier.
\<close>

definition DriverStep ::
  "('k, 'c) RegTypeOps \<Rightarrow> ('l, 'k, 'c) RegisterLineOps \<Rightarrow> ('k, 'c) Method \<Rightarrow> nat \<Rightarrow>
   'l Verifier \<Rightarrow> (bool \<times> 'l Verifier) + (nat \<times> 'l Verifier)" where
  "DriverStep T L M start_guess st =
     (let insns_size = InsnsSizeInCodeUnits M;
          insn_idx = FindChanged (insn_flags st) insns_size start_guess
      in if insn_idx = insns_size
         then (if start_guess \<noteq> 0 then Inr (0, st) else Inl (True, st))
         else if \<not> (insn_idx < length (insn_flags st) \<and> insn_idx < length (reg_table st))
         then Inl (False, st\<lparr>crashed := True\<rparr>)
         else
           (let st1 = LoadWorkLine insn_idx st;
                (ok, start_guess1, st2) = CodeFlowVerifyInstruction T L M start_guess st1
            in if \<not> ok \<or> crashed st2 then Inl (False, st2)
               else Inr (start_guess1, MarkVisited insn_idx st2)))"

partial_function (option) CodeFlowVerifyLoop ::
  "('k, 'c) RegTypeOps \<Rightarrow> ('l, 'k, 'c) RegisterLineOps \<Rightarrow> ('k, 'c) Method \<Rightarrow> nat \<Rightarrow>
   'l Verifier \<Rightarrow> (bool \<times> 'l Verifier) option" where
  "CodeFlowVerifyLoop T L M start_guess st =
     (case DriverStep T L M start_guess st of
        Inl r \<Rightarrow> Some r
      | Inr (start_guess1, st1) \<Rightarrow> CodeFlowVerifyLoop T L M start_guess1 st1)"

text \<open>
  \<open>CodeFlowVerifyMethod\<close> (lines 2287-2411): \<open>None\<close> if the loop does not end.
\<close>

definition CodeFlowVerifyMethod ::
  "('k, 'c) RegTypeOps \<Rightarrow> ('l, 'k, 'c) RegisterLineOps \<Rightarrow> ('k, 'c) Method \<Rightarrow>
   'l Verifier \<Rightarrow> (bool \<times> 'l Verifier) option" where
  "CodeFlowVerifyMethod T L M st = CodeFlowVerifyLoop T L M 0 (SetChanged 0 st)"


text \<open>
  The condition under which \<open>CodeFlowVerifyInstruction\<close> copies the working line before
  the opcode switch (line 2483), and under which \<open>PotentiallyMarkRuntimeThrow\<close> does not
  copy it again (lines 5165-5166).
\<close>

abbreviation ThrowsOrCompat :: "('k, 'c) Method \<Rightarrow> nat \<Rightarrow> bool" where
  "ThrowsOrCompat M pc \<equiv>
     kThrow \<in> Flags (InstructionAt M pc) \<or> IsCompatThrow (Opcode (InstructionAt M pc))"


section \<open>The exception edges, given the line to merge\<close>

text \<open>
  The exception-edge step as C2 words it: if the instruction can throw and lies in a try
  block, one line given beforehand, the snapshot, is merged into the target of every
  handler of the try item that covers the instruction, in handler-table order. What
  follows the loop (the catch-all check of lines 3853-3868) is that of \<open>HandleThrow\<close>.
\<close>

definition MergeSnapshotIntoCoveringHandlers ::
  "('l, 'k, 'c) RegisterLineOps \<Rightarrow> ('k, 'c) Method \<Rightarrow> 'l \<Rightarrow> 'l Locals \<Rightarrow> 'l Verifier \<Rightarrow>
   bool \<times> 'l Verifier" where
  "MergeSnapshotIntoCoveringHandlers L M snapshot loc st =
     (if kThrow \<in> opcode_flags loc \<and> IsInTry (insn_flags st ! work_insn_idx st) then
        (case FindTryItem M (work_insn_idx st) of
           None \<Rightarrow> (False, st\<lparr>crashed := True\<rparr>)
         | Some handlers \<Rightarrow>
             (let (ok, has_catch_all_handler, st1) =
                    MergeSnapshotIntoHandlers L M snapshot handlers False st in
              if \<not> ok then (False, st1)
              else if MonitorStackDepth L (work_line st1) > 0 \<and> \<not> has_catch_all_handler then
                (if Opcode (InstructionAt M (work_insn_idx st1)) \<noteq> MONITOR_ENTER
                    \<or> MonitorStackDepth L (work_line st1) \<noteq> 1
                 then (False, Fail M VERIFY_ERROR_BAD_CLASS_HARD True st1)
                 else (True, st1))
              else (True, st1)))
      else (True, st))"

text \<open>
  The rest of \<open>CodeFlowVerifyInstruction\<close> after the exception edges (lines 3871-3942),
  as a function of their outcome: the fall-through edge, the monitor check of a return,
  the new \<open>start_guess\<close> and the reset of the runtime-throw flag.
\<close>

definition AfterThrowEdges ::
  "('l, 'k, 'c) RegisterLineOps \<Rightarrow> ('k, 'c) Method \<Rightarrow> nat \<Rightarrow> 'l Locals \<Rightarrow>
   bool \<times> 'l Verifier \<Rightarrow> bool \<times> nat \<times> 'l Verifier" where
  "AfterThrowEdges L M start_guess loc edges =
     (let (ok4, st5) = edges in
      if \<not> ok4 then (False, start_guess, st5)
      else
        (let (ok5, st6) = HandleContinue L M loc st5 in
         if \<not> ok5 then (False, start_guess, st6)
         else
           (let st7 = (if kReturn \<in> opcode_flags loc
                       then Raise M (VerifyMonitorStackEmpty L (work_line st6)) st6
                       else st6);
                inst = InstructionAt M (work_insn_idx st7);
                start_guess1 =
                  (if kContinue \<in> opcode_flags loc
                   then (work_insn_idx st7 + SizeInCodeUnits inst) mod 2 ^ 32
                   else if kBranch \<in> opcode_flags loc
                   then AddOffset (work_insn_idx st7) (branch_target loc)
                   else start_guess);
                st8 = (if have_pending_runtime_throw_failure st7
                       then (Fail M VERIFY_ERROR_RUNTIME_THROW False st7)
                              \<lparr>have_pending_runtime_throw_failure := False\<rparr>
                       else st7)
            in (True, start_guess1, st8))))"

section \<open>The static pre-pass\<close>

text \<open>
  The verify flags of an opcode (\<open>Instruction::GetVerifyTypeArgumentAOf\<close> and the like).
  The tables that give them, the instruction formats and the operand decoder are in
  \<open>dex_instruction.h\<close> and \<open>dex_instruction_list.h\<close>, outside the files at hand: the
  pre-pass takes the decoded instruction as a value.
\<close>

datatype VerifyA = kVerifyNothingA | kVerifyRegA | kVerifyRegAWide

datatype VerifyB =
    kVerifyNothingB | kVerifyRegB | kVerifyRegBField | kVerifyRegBMethod
  | kVerifyRegBNewInstance | kVerifyRegBString | kVerifyRegBType | kVerifyRegBWide
  | kVerifyRegBCallSite | kVerifyRegBMethodHandle | kVerifyRegBPrototype

datatype VerifyC =
    kVerifyNothingC | kVerifyRegC | kVerifyRegCField | kVerifyRegCNewArray
  | kVerifyRegCType | kVerifyRegCWide

datatype VerifyH = kVerifyNothingH | kVerifyRegHPrototype

datatype VerifyExtra =
    kVerifyNothingExtra | kVerifyArrayData | kVerifyBranchTarget | kVerifySwitchTargets
  | kVerifyVarArgNonZero | kVerifyVarArg | kVerifyVarArgRangeNonZero | kVerifyVarArgRange
  | kVerifyError

text \<open>
  An instruction as the pre-pass reads it: its verify flags, its operands \<open>VRegA\<close> to
  \<open>VRegH\<close>, the registers \<open>GetVarArgs\<close> gives, the two first characters \<open>CheckFieldIndex\<close>
  permits for the descriptor of the field of a field access, \<open>Instruction::IsReturn\<close> and
  the size in code units.
\<close>

record DecodedInstruction =
  GetVerifyTypeArgumentA :: VerifyA
  GetVerifyTypeArgumentB :: VerifyB
  GetVerifyTypeArgumentC :: VerifyC
  GetVerifyTypeArgumentH :: VerifyH
  GetVerifyExtraFlags :: VerifyExtra
  DecodedVRegA :: nat
  DecodedVRegB :: nat
  DecodedVRegC :: nat
  DecodedVRegH :: nat
  GetVarArgs :: "nat list"
  PermittedDescriptors :: "char \<times> char"
  DecodedIsReturn :: bool
  DecodedSizeInCodeUnits :: nat

text \<open>
  What the pre-pass reads of the dex file and of the code item, with the decoder and the
  constants of \<open>Instruction\<close>.
\<close>

record DexFile =
  RegistersSize :: nat
  NumFieldIds :: nat
  NumMethodIds :: nat
  NumCallSiteIds :: nat
  NumMethodHandles :: nat
  proto_ids_size :: nat
  string_ids_size :: nat
  type_ids_size :: nat
  GetTypeDescriptor :: "nat \<Rightarrow> string"
  GetFieldTypeDescriptor :: "nat \<Rightarrow> string"
  DecodeAt :: "nat \<Rightarrow> DecodedInstruction"
  kMaxVarArgRegs :: nat
  kPackedSwitchSignature :: "16 word"
  kSparseSwitchSignature :: "16 word"

text \<open>The first character of a C string: the terminating zero when the string is empty.\<close>

definition FirstChar :: "string \<Rightarrow> char" where
  "FirstChar s = (case s of [] \<Rightarrow> CHR 0x00 | c # cs \<Rightarrow> c)"

text \<open>
  A check that fails hard: \<open>Fail(VERIFY_ERROR_BAD_CLASS_HARD) << ...; return false;\<close>.
\<close>

definition FailHard :: "('k, 'c) Method \<Rightarrow> 'l Verifier \<Rightarrow> bool \<times> 'l Verifier" where
  "FailHard M st = (False, Fail M VERIFY_ERROR_BAD_CLASS_HARD True st)"

text \<open>The index checks (lines 294-475).\<close>

definition CheckRegisterIndex ::
  "DexFile \<Rightarrow> ('k, 'c) Method \<Rightarrow> nat \<Rightarrow> 'l Verifier \<Rightarrow> bool \<times> 'l Verifier" where
  "CheckRegisterIndex D M idx st = (if idx \<ge> RegistersSize D then FailHard M st else (True, st))"

definition CheckWideRegisterIndex ::
  "DexFile \<Rightarrow> ('k, 'c) Method \<Rightarrow> nat \<Rightarrow> 'l Verifier \<Rightarrow> bool \<times> 'l Verifier" where
  "CheckWideRegisterIndex D M idx st =
     (if (idx + 1) mod 2 ^ 32 \<ge> RegistersSize D then FailHard M st else (True, st))"

definition CheckCallSiteIndex ::
  "DexFile \<Rightarrow> ('k, 'c) Method \<Rightarrow> nat \<Rightarrow> 'l Verifier \<Rightarrow> bool \<times> 'l Verifier" where
  "CheckCallSiteIndex D M idx st = (if idx \<ge> NumCallSiteIds D then FailHard M st else (True, st))"

definition CheckFieldIndex ::
  "DexFile \<Rightarrow> ('k, 'c) Method \<Rightarrow> DecodedInstruction \<Rightarrow> nat \<Rightarrow> 'l Verifier \<Rightarrow>
   bool \<times> 'l Verifier" where
  "CheckFieldIndex D M inst field_idx st =
     (if field_idx \<ge> NumFieldIds D then FailHard M st
      else (let permitted = PermittedDescriptors inst;
                descriptor = GetFieldTypeDescriptor D field_idx
            in if FirstChar descriptor \<noteq> fst permitted \<and> FirstChar descriptor \<noteq> snd permitted
               then FailHard M st
               else (True, st)))"

definition CheckMethodIndex ::
  "DexFile \<Rightarrow> ('k, 'c) Method \<Rightarrow> nat \<Rightarrow> 'l Verifier \<Rightarrow> bool \<times> 'l Verifier" where
  "CheckMethodIndex D M method_idx st =
     (if method_idx \<ge> NumMethodIds D then FailHard M st else (True, st))"

definition CheckMethodHandleIndex ::
  "DexFile \<Rightarrow> ('k, 'c) Method \<Rightarrow> nat \<Rightarrow> 'l Verifier \<Rightarrow> bool \<times> 'l Verifier" where
  "CheckMethodHandleIndex D M idx st =
     (if idx \<ge> NumMethodHandles D then FailHard M st else (True, st))"

definition CheckPrototypeIndex ::
  "DexFile \<Rightarrow> ('k, 'c) Method \<Rightarrow> nat \<Rightarrow> 'l Verifier \<Rightarrow> bool \<times> 'l Verifier" where
  "CheckPrototypeIndex D M idx st = (if idx \<ge> proto_ids_size D then FailHard M st else (True, st))"

definition CheckStringIndex ::
  "DexFile \<Rightarrow> ('k, 'c) Method \<Rightarrow> nat \<Rightarrow> 'l Verifier \<Rightarrow> bool \<times> 'l Verifier" where
  "CheckStringIndex D M idx st = (if idx \<ge> string_ids_size D then FailHard M st else (True, st))"

definition CheckTypeIndex ::
  "DexFile \<Rightarrow> ('k, 'c) Method \<Rightarrow> nat \<Rightarrow> 'l Verifier \<Rightarrow> bool \<times> 'l Verifier" where
  "CheckTypeIndex D M idx st = (if idx \<ge> type_ids_size D then FailHard M st else (True, st))"

text \<open>
  \<open>CheckVarArgRegs\<close> and \<open>CheckVarArgRangeRegs\<close> (lines 502-537), as in a release build: the
  registers of a non-range instruction are looked at only when there are fewer than 16.
\<close>

definition CheckVarArgRegs ::
  "DexFile \<Rightarrow> ('k, 'c) Method \<Rightarrow> DecodedInstruction \<Rightarrow> nat \<Rightarrow> 'l Verifier \<Rightarrow>
   bool \<times> 'l Verifier" where
  "CheckVarArgRegs D M inst vA st =
     (if RegistersSize D < 16 \<and> list_ex (\<lambda>arg. arg \<ge> RegistersSize D) (take vA (GetVarArgs inst))
      then FailHard M st
      else (True, st))"

definition CheckVarArgRangeRegs ::
  "DexFile \<Rightarrow> ('k, 'c) Method \<Rightarrow> nat \<Rightarrow> nat \<Rightarrow> 'l Verifier \<Rightarrow> bool \<times> 'l Verifier" where
  "CheckVarArgRangeRegs D M vA vC st =
     (if vA + vC > RegistersSize D then FailHard M st else (True, st))"

text \<open>
  \<open>CheckNewInstance\<close> (lines 1790-1807). The failure for \<open>java.lang.Class\<close> is raised with
  \<open>Fail(VERIFY_ERROR_INSTANTIATION)\<close>, and the check returns true after it.
\<close>

definition CheckNewInstance ::
  "DexFile \<Rightarrow> ('k, 'c) Method \<Rightarrow> nat \<Rightarrow> 'l Verifier \<Rightarrow> bool \<times> 'l Verifier" where
  "CheckNewInstance D M idx st =
     (if idx \<ge> type_ids_size D then FailHard M st
      else (let descriptor = GetTypeDescriptor D idx in
            if FirstChar descriptor \<noteq> CHR ''L'' then FailHard M st
            else if descriptor = ''Ljava/lang/Class;''
            then (True, Fail M VERIFY_ERROR_INSTANTIATION True st)
            else (True, st)))"

text \<open>\<open>CheckNewArray\<close> (lines 1810-1834): the brackets counted are the leading ones.\<close>

definition CheckNewArray ::
  "DexFile \<Rightarrow> ('k, 'c) Method \<Rightarrow> nat \<Rightarrow> 'l Verifier \<Rightarrow> bool \<times> 'l Verifier" where
  "CheckNewArray D M idx st =
     (if idx \<ge> type_ids_size D then FailHard M st
      else (let bracket_count = length (takeWhile (\<lambda>c. c = CHR ''['') (GetTypeDescriptor D idx))
            in if bracket_count = 0 then FailHard M st
               else if bracket_count > 255 then FailHard M st
               else (True, st)))"

text \<open>\<open>SetBranchTarget\<close> and \<open>SetReturn\<close> on the flags of one instruction.\<close>

definition SetBranchTarget :: "nat \<Rightarrow> 'l Verifier \<Rightarrow> 'l Verifier" where
  "SetBranchTarget pc st =
     st\<lparr>insn_flags := (insn_flags st)[pc := (insn_flags st ! pc)\<lparr>IsBranchTarget := True\<rparr>]\<rparr>"

definition SetReturn :: "nat \<Rightarrow> 'l Verifier \<Rightarrow> 'l Verifier" where
  "SetReturn pc st =
     st\<lparr>insn_flags := (insn_flags st)[pc := (insn_flags st ! pc)\<lparr>IsReturn := True\<rparr>]\<rparr>"

text \<open>Two code units read as an unsigned 32-bit value, low unit first.\<close>

definition Fetch32u :: "16 word \<Rightarrow> 16 word \<Rightarrow> nat" where
  "Fetch32u lo hi = unat ((ucast lo OR push_bit 16 (ucast hi)) :: 32 word)"

text \<open>
  \<open>CheckArrayData\<close> (lines 1837-1882). The sums of \<open>cur_offset\<close> and the offset are unsigned
  32-bit sums, but for the first one, made on \<open>int32_t\<close>. The table is 32-bit aligned when
  it lies at an even dex pc, the code units starting at an aligned address. Reading the
  flags beyond their array ends the process.
\<close>

definition CheckArrayData ::
  "('k, 'c) Method \<Rightarrow> nat \<Rightarrow> 'l Verifier \<Rightarrow> bool \<times> 'l Verifier" where
  "CheckArrayData M cur_offset st =
     (let insn_count = InsnsSizeInCodeUnits M;
          array_data_offset = Fetch32 (Insns M (cur_offset + 1)) (Insns M (cur_offset + 2))
      in if ToInt cur_offset + array_data_offset < 0
            \<or> AddOffset cur_offset (array_data_offset + 2) \<ge> insn_count
         then FailHard M st
         else if (int cur_offset + array_data_offset) mod 2 \<noteq> 0 then FailHard M st
         else
           (let array_data = AddOffset cur_offset array_data_offset in
            if \<not> array_data < length (insn_flags st) then (False, st\<lparr>crashed := True\<rparr>)
            else if \<not> IsOpcode (insn_flags st ! array_data) then FailHard M st
            else
              (let value_width = unat (Insns M (array_data + 1));
                   value_count = Fetch32u (Insns M (array_data + 2)) (Insns M (array_data + 3));
                   table_size = (4 + ((value_width * value_count) mod 2 ^ 32 + 1) mod 2 ^ 32 div 2)
                                  mod 2 ^ 32
               in if (array_data + table_size) mod 2 ^ 32 > insn_count then FailHard M st
                  else (True, st))))"

text \<open>
  \<open>CheckBranchTarget\<close> (lines 1885-1914). When \<open>GetBranchOffset\<close> returns false the check
  returns false and raises nothing.
\<close>

definition CheckBranchTarget ::
  "('k, 'c) Method \<Rightarrow> nat \<Rightarrow> 'l Verifier \<Rightarrow> bool \<times> 'l Verifier" where
  "CheckBranchTarget M cur_offset st =
     (case GetBranchOffset M cur_offset of
        None \<Rightarrow> (False, st)
      | Some (offset, isConditional, selfOkay) \<Rightarrow>
          if \<not> selfOkay \<and> offset = 0 then FailHard M st
          else if int cur_offset + offset \<noteq> int (AddOffset cur_offset offset)
          then FailHard M st
          else
            (let abs_offset = ToInt (AddOffset cur_offset offset) in
             if abs_offset < 0 \<or> nat abs_offset \<ge> InsnsSizeInCodeUnits M then FailHard M st
             else if \<not> nat abs_offset < length (insn_flags st)
             then (False, st\<lparr>crashed := True\<rparr>)
             else if \<not> IsOpcode (insn_flags st ! nat abs_offset) then FailHard M st
             else (True, SetBranchTarget (nat abs_offset) st)))"

text \<open>
  \<open>CheckSwitchTargets\<close> (lines 1957-2062). \<open>SparseKeysAscending\<close> is the loop over the keys
  of a sparse switch, \<open>CheckSwitchTargetList\<close> the loop over the targets; \<open>switch_insns\<close> is
  the index of the first unit of the table.
\<close>

fun SparseKeysAscending :: "('k, 'c) Method \<Rightarrow> nat \<Rightarrow> int \<Rightarrow> nat list \<Rightarrow> bool" where
  "SparseKeysAscending M switch_insns last_key [] = True"
| "SparseKeysAscending M switch_insns last_key (targ # targs) =
     (let key = Fetch32 (Insns M (switch_insns + 2 + targ * 2))
                        (Insns M (switch_insns + 2 + targ * 2 + 1))
      in if key \<le> last_key then False
         else SparseKeysAscending M switch_insns key targs)"

fun CheckSwitchTargetList ::
  "('k, 'c) Method \<Rightarrow> nat \<Rightarrow> nat \<Rightarrow> nat \<Rightarrow> nat list \<Rightarrow> 'l Verifier \<Rightarrow> bool \<times> 'l Verifier" where
  "CheckSwitchTargetList M cur_offset switch_insns targets_offset [] st = (True, st)"
| "CheckSwitchTargetList M cur_offset switch_insns targets_offset (targ # targs) st =
     (let offset = Fetch32 (Insns M (switch_insns + targets_offset + targ * 2))
                           (Insns M (switch_insns + targets_offset + targ * 2 + 1));
          abs_offset = ToInt (AddOffset cur_offset offset)
      in if abs_offset < 0 \<or> abs_offset \<ge> ToInt (InsnsSizeInCodeUnits M) then FailHard M st
         else if \<not> nat abs_offset < length (insn_flags st) then (False, st\<lparr>crashed := True\<rparr>)
         else if \<not> IsOpcode (insn_flags st ! nat abs_offset) then FailHard M st
         else CheckSwitchTargetList M cur_offset switch_insns targets_offset targs
                (SetBranchTarget (nat abs_offset) st))"

definition CheckSwitchTargets ::
  "DexFile \<Rightarrow> ('k, 'c) Method \<Rightarrow> nat \<Rightarrow> 'l Verifier \<Rightarrow> bool \<times> 'l Verifier" where
  "CheckSwitchTargets D M cur_offset st =
     (let insn_count = InsnsSizeInCodeUnits M;
          switch_offset = Fetch32 (Insns M (cur_offset + 1)) (Insns M (cur_offset + 2))
      in if ToInt cur_offset + switch_offset < 0
            \<or> AddOffset cur_offset (switch_offset + 2) > insn_count
         then FailHard M st
         else if (int cur_offset + switch_offset) mod 2 \<noteq> 0 then FailHard M st
         else
           (let switch_insns = AddOffset cur_offset switch_offset in
            if \<not> switch_insns < length (insn_flags st) then (False, st\<lparr>crashed := True\<rparr>)
            else if \<not> IsOpcode (insn_flags st ! switch_insns) then FailHard M st
            else
              (let is_packed_switch = (Insns M cur_offset AND 0xff = OP_PACKED_SWITCH);
                   switch_count = unat (Insns M (switch_insns + 1));
                   targets_offset = (if is_packed_switch then 4 else 2 + 2 * switch_count);
                   expected_signature = (if is_packed_switch then kPackedSwitchSignature D
                                         else kSparseSwitchSignature D);
                   table_size = targets_offset + switch_count * 2
               in if Insns M switch_insns \<noteq> expected_signature then FailHard M st
                  else if (switch_insns + table_size) mod 2 ^ 32 > insn_count then FailHard M st
                  else if switch_count > 1 \<and> is_packed_switch
                          \<and> Fetch32 (Insns M (switch_insns + 2)) (Insns M (switch_insns + 3))
                              > 2 ^ 31 - 1 - (int switch_count - 1)
                  then FailHard M st
                  else if switch_count > 1 \<and> \<not> is_packed_switch
                          \<and> \<not> SparseKeysAscending M switch_insns
                                (Fetch32 (Insns M (switch_insns + 2)) (Insns M (switch_insns + 3)))
                                [1..<switch_count]
                  then FailHard M st
                  else CheckSwitchTargetList M cur_offset switch_insns targets_offset
                         [0..<switch_count] st)))"

text \<open>
  \<open>result = result && Check(...)\<close>: the check is made only while the result is true.
\<close>

definition AndCheck ::
  "bool \<times> 'l Verifier \<Rightarrow> ('l Verifier \<Rightarrow> bool \<times> 'l Verifier) \<Rightarrow> bool \<times> 'l Verifier" where
  "AndCheck r check = (if fst r then check (snd r) else (False, snd r))"

text \<open>
  \<open>VerifyInstruction\<close> (lines 1654-1787), one definition for each of its five switches. The
  instruction is the one of the dispatch opcode, which has the format and the verify flags
  of the opcode read. An invalid argument count returns false at once, whatever the
  result so far.
\<close>

definition VerifyArgumentA ::
  "DexFile \<Rightarrow> ('k, 'c) Method \<Rightarrow> DecodedInstruction \<Rightarrow> bool \<times> 'l Verifier \<Rightarrow>
   bool \<times> 'l Verifier" where
  "VerifyArgumentA D M inst r =
     (case GetVerifyTypeArgumentA inst of
        kVerifyRegA \<Rightarrow> AndCheck r (CheckRegisterIndex D M (DecodedVRegA inst))
      | kVerifyRegAWide \<Rightarrow> AndCheck r (CheckWideRegisterIndex D M (DecodedVRegA inst))
      | kVerifyNothingA \<Rightarrow> r)"

definition VerifyArgumentB ::
  "DexFile \<Rightarrow> ('k, 'c) Method \<Rightarrow> DecodedInstruction \<Rightarrow> bool \<times> 'l Verifier \<Rightarrow>
   bool \<times> 'l Verifier" where
  "VerifyArgumentB D M inst r =
     (case GetVerifyTypeArgumentB inst of
        kVerifyRegB \<Rightarrow> AndCheck r (CheckRegisterIndex D M (DecodedVRegB inst))
      | kVerifyRegBField \<Rightarrow> AndCheck r (CheckFieldIndex D M inst (DecodedVRegB inst))
      | kVerifyRegBMethod \<Rightarrow> AndCheck r (CheckMethodIndex D M (DecodedVRegB inst))
      | kVerifyRegBNewInstance \<Rightarrow> AndCheck r (CheckNewInstance D M (DecodedVRegB inst))
      | kVerifyRegBString \<Rightarrow> AndCheck r (CheckStringIndex D M (DecodedVRegB inst))
      | kVerifyRegBType \<Rightarrow> AndCheck r (CheckTypeIndex D M (DecodedVRegB inst))
      | kVerifyRegBWide \<Rightarrow> AndCheck r (CheckWideRegisterIndex D M (DecodedVRegB inst))
      | kVerifyRegBCallSite \<Rightarrow> AndCheck r (CheckCallSiteIndex D M (DecodedVRegB inst))
      | kVerifyRegBMethodHandle \<Rightarrow> AndCheck r (CheckMethodHandleIndex D M (DecodedVRegB inst))
      | kVerifyRegBPrototype \<Rightarrow> AndCheck r (CheckPrototypeIndex D M (DecodedVRegB inst))
      | kVerifyNothingB \<Rightarrow> r)"

definition VerifyArgumentC ::
  "DexFile \<Rightarrow> ('k, 'c) Method \<Rightarrow> DecodedInstruction \<Rightarrow> bool \<times> 'l Verifier \<Rightarrow>
   bool \<times> 'l Verifier" where
  "VerifyArgumentC D M inst r =
     (case GetVerifyTypeArgumentC inst of
        kVerifyRegC \<Rightarrow> AndCheck r (CheckRegisterIndex D M (DecodedVRegC inst))
      | kVerifyRegCField \<Rightarrow> AndCheck r (CheckFieldIndex D M inst (DecodedVRegC inst))
      | kVerifyRegCNewArray \<Rightarrow> AndCheck r (CheckNewArray D M (DecodedVRegC inst))
      | kVerifyRegCType \<Rightarrow> AndCheck r (CheckTypeIndex D M (DecodedVRegC inst))
      | kVerifyRegCWide \<Rightarrow> AndCheck r (CheckWideRegisterIndex D M (DecodedVRegC inst))
      | kVerifyNothingC \<Rightarrow> r)"

definition VerifyArgumentH ::
  "DexFile \<Rightarrow> ('k, 'c) Method \<Rightarrow> DecodedInstruction \<Rightarrow> bool \<times> 'l Verifier \<Rightarrow>
   bool \<times> 'l Verifier" where
  "VerifyArgumentH D M inst r =
     (case GetVerifyTypeArgumentH inst of
        kVerifyRegHPrototype \<Rightarrow> AndCheck r (CheckPrototypeIndex D M (DecodedVRegH inst))
      | kVerifyNothingH \<Rightarrow> r)"

definition VerifyExtraArgs ::
  "DexFile \<Rightarrow> ('k, 'c) Method \<Rightarrow> DecodedInstruction \<Rightarrow> nat \<Rightarrow> bool \<times> 'l Verifier \<Rightarrow>
   bool \<times> 'l Verifier" where
  "VerifyExtraArgs D M inst code_offset r =
     (let v_a = DecodedVRegA inst in
      case GetVerifyExtraFlags inst of
        kVerifyArrayData \<Rightarrow> AndCheck r (CheckArrayData M code_offset)
      | kVerifyBranchTarget \<Rightarrow> AndCheck r (CheckBranchTarget M code_offset)
      | kVerifySwitchTargets \<Rightarrow> AndCheck r (CheckSwitchTargets D M code_offset)
      | kVerifyVarArgNonZero \<Rightarrow>
          if v_a = 0 \<or> v_a > kMaxVarArgRegs D then FailHard M (snd r)
          else AndCheck r (CheckVarArgRegs D M inst v_a)
      | kVerifyVarArg \<Rightarrow>
          if v_a > kMaxVarArgRegs D then FailHard M (snd r)
          else AndCheck r (CheckVarArgRegs D M inst v_a)
      | kVerifyVarArgRangeNonZero \<Rightarrow>
          if v_a = 0 then FailHard M (snd r)
          else AndCheck r (CheckVarArgRangeRegs D M v_a (DecodedVRegC inst))
      | kVerifyVarArgRange \<Rightarrow> AndCheck r (CheckVarArgRangeRegs D M v_a (DecodedVRegC inst))
      | kVerifyError \<Rightarrow> FailHard M (snd r)
      | kVerifyNothingExtra \<Rightarrow> r)"

definition VerifyInstruction ::
  "DexFile \<Rightarrow> ('k, 'c) Method \<Rightarrow> DecodedInstruction \<Rightarrow> nat \<Rightarrow> 'l Verifier \<Rightarrow>
   bool \<times> 'l Verifier" where
  "VerifyInstruction D M inst code_offset st =
     VerifyExtraArgs D M inst code_offset
       (VerifyArgumentH D M inst
          (VerifyArgumentC D M inst
             (VerifyArgumentB D M inst
                (VerifyArgumentA D M inst (True, st)))))"

text \<open>
  \<open>VerifyInstructions\<close> (lines 1577-1650): the loop from \<open>dex_pc\<close> on, without a value when
  it does not end, and the method, which first flags the start as a branch target.
\<close>

partial_function (option) VerifyInstructionsFrom ::
  "DexFile \<Rightarrow> ('k, 'c) Method \<Rightarrow> nat \<Rightarrow> 'l Verifier \<Rightarrow> (bool \<times> 'l Verifier) option" where
  "VerifyInstructionsFrom D M dex_pc st =
     (if dex_pc = InsnsSizeInCodeUnits M then Some (True, st)
      else (case VerifyInstruction D M (DecodeAt D dex_pc) dex_pc st of
              (ok, st1) \<Rightarrow>
                if \<not> ok then Some (False, st1)
                else VerifyInstructionsFrom D M
                       ((dex_pc + DecodedSizeInCodeUnits (DecodeAt D dex_pc)) mod 2 ^ 32)
                       (if DecodedIsReturn (DecodeAt D dex_pc) then SetReturn dex_pc st1
                        else st1)))"

definition VerifyInstructions ::
  "DexFile \<Rightarrow> ('k, 'c) Method \<Rightarrow> 'l Verifier \<Rightarrow> (bool \<times> 'l Verifier) option" where
  "VerifyInstructions D M st = VerifyInstructionsFrom D M 0 (SetBranchTarget 0 st)"

text \<open>
  The end of \<open>Verify\<close> (lines 1477-1483), from the static instruction verification on:
  \<open>result = result && VerifyInstructions(); result = result && VerifyCodeFlow();\<close> with the
  result so far true. \<open>VerifyCodeFlow\<close> is taken as a function of the verifier.
\<close>

definition VerifyFromInstructions ::
  "DexFile \<Rightarrow> ('k, 'c) Method \<Rightarrow> ('l Verifier \<Rightarrow> bool \<times> 'l Verifier) \<Rightarrow> 'l Verifier \<Rightarrow>
   (bool \<times> 'l Verifier) option" where
  "VerifyFromInstructions D M VerifyCodeFlow st =
     (case VerifyInstructions D M st of
        None \<Rightarrow> None
      | Some (ok, st1) \<Rightarrow> if ok then Some (VerifyCodeFlow st1) else Some (False, st1))"

text \<open>
  The kind of failure \<open>VerifyMethod\<close> reports (lines 5309-5352) from the result of \<open>Verify\<close>
  and the verifier it leaves: \<open>None\<close> where a \<open>CHECK\<close> ends the process; \<open>initial\<close> is the
  kind a \<open>FailureData\<close> starts with.
\<close>

datatype FailureKind =
  kNoFailure | kAccessChecksFailure | kTypeChecksFailure | kSoftFailure | kHardFailure

definition CanRuntimeHandleVerificationFailure :: "VerifyError set \<Rightarrow> bool" where
  "CanRuntimeHandleVerificationFailure encountered =
     (encountered \<subseteq> {VERIFY_ERROR_UNRESOLVED_TYPE_CHECK, VERIFY_ERROR_NO_CLASS,
                      VERIFY_ERROR_CLASS_CHANGE, VERIFY_ERROR_INSTANTIATION,
                      VERIFY_ERROR_ACCESS_CLASS, VERIFY_ERROR_ACCESS_FIELD,
                      VERIFY_ERROR_NO_METHOD, VERIFY_ERROR_NO_FIELD,
                      VERIFY_ERROR_ACCESS_METHOD, VERIFY_ERROR_RUNTIME_THROW})"

definition VerifyMethodKind :: "FailureKind \<Rightarrow> bool \<times> 'l Verifier \<Rightarrow> FailureKind option" where
  "VerifyMethodKind initial r =
     (let st = snd r in
      if fst r then
        (if have_pending_hard_failure st then None
         else if failures st \<noteq> [] then
           (if CanRuntimeHandleVerificationFailure (encountered_failure_types st)
            then (if VERIFY_ERROR_UNRESOLVED_TYPE_CHECK \<in> encountered_failure_types st
                  then Some kTypeChecksFailure else Some kAccessChecksFailure)
            else Some kSoftFailure)
         else Some initial)
      else
        (if failures st = [] \<or> \<not> have_pending_hard_failure st then None
         else Some kHardFailure))"

text \<open>
  The verifier after a hard rejection: the hard-failure flag is set and the failure
  recorded last is \<open>VERIFY_ERROR_BAD_CLASS_HARD\<close>.
\<close>

definition HardRejected :: "'l Verifier \<Rightarrow> bool" where
  "HardRejected st =
     (have_pending_hard_failure st \<and> failures st \<noteq> []
      \<and> last (failures st) = VERIFY_ERROR_BAD_CLASS_HARD)"

text \<open>
  What a check of the pre-pass leaves: it returns true, or the process has ended on an
  access outside the flags, or the method is rejected hard.
\<close>

definition HardIfFalse :: "bool \<times> 'l Verifier \<Rightarrow> bool" where
  "HardIfFalse r = (fst r \<or> crashed (snd r) \<or> HardRejected (snd r))"

section \<open>The cache of register types\<close>

text \<open>
  The classes of register types are declared in \<open>reg_type.h\<close> and the constants of the
  cache in \<open>reg_type_cache.h\<close>, outside the files at hand. The cache takes them as
  values: the queries on an entry, the constructors called with \<open>new\<close>, the class linker
  behind \<open>ResolveClass\<close>, \<open>IsValidDescriptor\<close> and the constants. \<open>'r\<close> is the type of the
  entries, \<open>'c\<close> that of the classes.
\<close>

record ('r, 'c) RegTypeClasses =
  GetDescriptor :: "'r \<Rightarrow> string"
  HasClassOf :: "'r \<Rightarrow> bool"
  GetClassOf :: "'r \<Rightarrow> 'c"
  IsUnresolvedTypesOf :: "'r \<Rightarrow> bool"
  IsConstant :: "'r \<Rightarrow> bool"
  IsPreciseConstant :: "'r \<Rightarrow> bool"
  ConstantValue :: "'r \<Rightarrow> int"
  IsUninitializedReference :: "'r \<Rightarrow> bool"
  IsUnresolvedAndUninitializedReference :: "'r \<Rightarrow> bool"
  GetAllocationPc :: "'r \<Rightarrow> nat"
  NewPreciseConstType :: "int \<Rightarrow> nat \<Rightarrow> 'r"
  NewImpreciseConstType :: "int \<Rightarrow> nat \<Rightarrow> 'r"
  NewReferenceType :: "'c \<Rightarrow> string \<Rightarrow> nat \<Rightarrow> 'r"
  NewUnresolvedReferenceType :: "string \<Rightarrow> nat \<Rightarrow> 'r"
  NewUninitializedReferenceType :: "'c \<Rightarrow> string \<Rightarrow> nat \<Rightarrow> nat \<Rightarrow> 'r"
  NewUnresolvedUninitializedRefType :: "string \<Rightarrow> nat \<Rightarrow> nat \<Rightarrow> 'r"
  ResolveClass :: "string \<Rightarrow> 'c option"
  IsValidDescriptor :: "string \<Rightarrow> bool"
  kNumPrimitivesAndSmallConstants :: nat
  kMinSmallConstant :: int
  kMaxSmallConstant :: int
  kConflictCacheId :: nat

text \<open>
  The cache: the members \<open>entries_\<close> and \<open>klass_entries_\<close>. An entry is referred to by its index in
  \<open>entries_\<close>: two references are to the same object exactly when the indices are equal,
  and the index is the cache id the entry was constructed with.
\<close>

record ('r, 'c) RegTypeCache =
  entries :: "'r list"
  klass_entries :: "('c \<times> nat) list"

text \<open>\<open>AddEntry\<close> (reg_type_cache-inl.h, lines 177-187): the index of the new entry.\<close>

definition AddEntry ::
  "('r, 'c) RegTypeClasses \<Rightarrow> ('r, 'c) RegTypeCache \<Rightarrow> 'r \<Rightarrow> nat \<times> ('r, 'c) RegTypeCache" where
  "AddEntry R c new_entry =
     (length (entries c),
      c\<lparr>entries := entries c @ [new_entry],
        klass_entries := (if HasClassOf R new_entry
                           then klass_entries c @ [(GetClassOf R new_entry, length (entries c))]
                           else klass_entries c)\<rparr>)"

text \<open>
  The loop \<open>for (size_t i = kNumPrimitivesAndSmallConstants; i < entries_.size(); i++)\<close>
  that returns the first entry satisfying a condition.
\<close>

definition FindEntry ::
  "('r, 'c) RegTypeClasses \<Rightarrow> ('r, 'c) RegTypeCache \<Rightarrow> ('r \<Rightarrow> bool) \<Rightarrow> nat option" where
  "FindEntry R c matches =
     find (\<lambda>i. matches (entries c ! i))
          [kNumPrimitivesAndSmallConstants R..<length (entries c)]"

text \<open>\<open>MatchDescriptor\<close> (reg_type_cache.cc, lines 134-141), on the entry itself.\<close>

definition MatchDescriptor :: "('r, 'c) RegTypeClasses \<Rightarrow> string \<Rightarrow> 'r \<Rightarrow> bool" where
  "MatchDescriptor R descriptor entry = (descriptor = GetDescriptor R entry)"

text \<open>
  \<open>RegTypeCache::From\<close> (lines 166-204). \<open>AddString\<close> copies the descriptor.
\<close>

definition From ::
  "('r, 'c) RegTypeClasses \<Rightarrow> ('r, 'c) RegTypeCache \<Rightarrow> string \<Rightarrow> nat \<times> ('r, 'c) RegTypeCache" where
  "From R c descriptor =
     (case FindEntry R c (MatchDescriptor R descriptor) of
        Some i \<Rightarrow> (i, c)
      | None \<Rightarrow>
          (case ResolveClass R descriptor of
             Some klass \<Rightarrow>
               AddEntry R c (NewReferenceType R klass descriptor (length (entries c)))
           | None \<Rightarrow>
               if IsValidDescriptor R descriptor
               then AddEntry R c (NewUnresolvedReferenceType R descriptor (length (entries c)))
               else (kConflictCacheId R, c)))"

text \<open>
  \<open>FromCat1NonSmallConstant\<close> (lines 509-525) and \<open>FromCat1Const\<close> (reg_type_cache-inl.h,
  lines 41-48).
\<close>

definition FromCat1NonSmallConstant ::
  "('r, 'c) RegTypeClasses \<Rightarrow> ('r, 'c) RegTypeCache \<Rightarrow> int \<Rightarrow> bool \<Rightarrow>
   nat \<times> ('r, 'c) RegTypeCache" where
  "FromCat1NonSmallConstant R c val precise =
     (case FindEntry R c (\<lambda>cur_entry.
             \<not> HasClassOf R cur_entry \<and> IsConstant R cur_entry
             \<and> IsPreciseConstant R cur_entry = precise
             \<and> ConstantValue R cur_entry = val) of
        Some i \<Rightarrow> (i, c)
      | None \<Rightarrow>
          if precise then AddEntry R c (NewPreciseConstType R val (length (entries c)))
          else AddEntry R c (NewImpreciseConstType R val (length (entries c))))"

definition FromCat1Const ::
  "('r, 'c) RegTypeClasses \<Rightarrow> ('r, 'c) RegTypeCache \<Rightarrow> int \<Rightarrow> bool \<Rightarrow>
   nat \<times> ('r, 'c) RegTypeCache" where
  "FromCat1Const R c val precise =
     (if precise \<and> val \<ge> kMinSmallConstant R \<and> val \<le> kMaxSmallConstant R
      then (nat (val - kMinSmallConstant R), c)
      else FromCat1NonSmallConstant R c val precise)"

text \<open>\<open>RegTypeCache::Uninitialized\<close> (lines 395-429).\<close>

definition Uninitialized ::
  "('r, 'c) RegTypeClasses \<Rightarrow> ('r, 'c) RegTypeCache \<Rightarrow> 'r \<Rightarrow> nat \<Rightarrow>
   nat \<times> ('r, 'c) RegTypeCache" where
  "Uninitialized R c type allocation_pc =
     (let descriptor = GetDescriptor R type in
      if IsUnresolvedTypesOf R type then
        (case FindEntry R c (\<lambda>cur_entry.
                IsUnresolvedAndUninitializedReference R cur_entry
                \<and> GetAllocationPc R cur_entry = allocation_pc
                \<and> GetDescriptor R cur_entry = descriptor) of
           Some i \<Rightarrow> (i, c)
         | None \<Rightarrow>
             AddEntry R c (NewUnresolvedUninitializedRefType R descriptor allocation_pc
                             (length (entries c))))
      else
        (let klass = GetClassOf R type in
         case FindEntry R c (\<lambda>cur_entry.
                IsUninitializedReference R cur_entry
                \<and> GetAllocationPc R cur_entry = allocation_pc
                \<and> GetClassOf R cur_entry = klass) of
           Some i \<Rightarrow> (i, c)
         | None \<Rightarrow>
             AddEntry R c (NewUninitializedReferenceType R klass descriptor allocation_pc
                             (length (entries c)))))"

text \<open>
  What the cache relies on of the classes of \<open>reg_type.h\<close>: an entry answers the queries
  with the values it was constructed from, no entry is both a resolved and an unresolved
  uninitialized reference, and the small constants and the conflict type lie below
  \<open>kNumPrimitivesAndSmallConstants\<close>.
\<close>

definition ClassesAsDeclared :: "('r, 'c) RegTypeClasses \<Rightarrow> bool" where
  "ClassesAsDeclared R =
     ((\<forall>k d n. GetDescriptor R (NewReferenceType R k d n) = d)
      \<and> (\<forall>d n. GetDescriptor R (NewUnresolvedReferenceType R d n) = d)
      \<and> (\<forall>v n. \<not> HasClassOf R (NewPreciseConstType R v n)
                \<and> IsConstant R (NewPreciseConstType R v n)
                \<and> IsPreciseConstant R (NewPreciseConstType R v n)
                \<and> ConstantValue R (NewPreciseConstType R v n) = v)
      \<and> (\<forall>v n. \<not> HasClassOf R (NewImpreciseConstType R v n)
                \<and> IsConstant R (NewImpreciseConstType R v n)
                \<and> \<not> IsPreciseConstant R (NewImpreciseConstType R v n)
                \<and> ConstantValue R (NewImpreciseConstType R v n) = v)
      \<and> (\<forall>k d pc n. IsUninitializedReference R (NewUninitializedReferenceType R k d pc n)
                \<and> GetAllocationPc R (NewUninitializedReferenceType R k d pc n) = pc
                \<and> GetClassOf R (NewUninitializedReferenceType R k d pc n) = k)
      \<and> (\<forall>d pc n. IsUnresolvedAndUninitializedReference R
                     (NewUnresolvedUninitializedRefType R d pc n)
                \<and> GetAllocationPc R (NewUnresolvedUninitializedRefType R d pc n) = pc
                \<and> GetDescriptor R (NewUnresolvedUninitializedRefType R d pc n) = d)
      \<and> (\<forall>r. \<not> (IsUninitializedReference R r \<and> IsUnresolvedAndUninitializedReference R r))
      \<and> kMinSmallConstant R \<le> kMaxSmallConstant R
      \<and> nat (kMaxSmallConstant R - kMinSmallConstant R) < kNumPrimitivesAndSmallConstants R
      \<and> kConflictCacheId R < kNumPrimitivesAndSmallConstants R)"

text \<open>\<open>c2\<close> is \<open>c1\<close> after entries were added: \<open>entries_\<close> only grows, at its end.\<close>

definition GrownFrom :: "('r, 'c) RegTypeCache \<Rightarrow> ('r, 'c) RegTypeCache \<Rightarrow> bool" where
  "GrownFrom c1 c2 = (take (length (entries c1)) (entries c2) = entries c1)"

section \<open>A measure for the fixed-point driver\<close>

text \<open>
  The quantities the loop of \<open>CodeFlowVerifyMethod\<close> works off, for a method of \<open>N\<close> code
  units and a rank \<open>h\<close> of register lines: the line slots never written so far (those of
  instructions neither visited nor changed), the ranks of the lines in the slots written
  so far, and the instructions marked changed, each weighted by its distance to the end
  of the method.
\<close>

definition Untouched :: "'l Verifier \<Rightarrow> nat \<Rightarrow> nat" where
  "Untouched st i =
     (if reg_table st ! i \<noteq> None \<and> \<not> IsVisitedOrChanged (insn_flags st ! i) then 1 else 0)"

definition RankAt :: "('l \<Rightarrow> nat) \<Rightarrow> 'l Verifier \<Rightarrow> nat \<Rightarrow> nat" where
  "RankAt h st i =
     (if IsVisitedOrChanged (insn_flags st ! i)
      then (case reg_table st ! i of Some line \<Rightarrow> h line | None \<Rightarrow> 0)
      else 0)"

definition ChangedAt :: "nat \<Rightarrow> 'l Verifier \<Rightarrow> nat \<Rightarrow> nat" where
  "ChangedAt N st i = (if IsChanged (insn_flags st ! i) then N - i else 0)"

definition UntouchedSlots :: "nat \<Rightarrow> 'l Verifier \<Rightarrow> nat" where
  "UntouchedSlots N st = sum (Untouched st) {..<N}"

definition SlotRank :: "('l \<Rightarrow> nat) \<Rightarrow> nat \<Rightarrow> 'l Verifier \<Rightarrow> nat" where
  "SlotRank h N st = sum (RankAt h st) {..<N}"

definition ChangedWeight :: "nat \<Rightarrow> 'l Verifier \<Rightarrow> nat" where
  "ChangedWeight N st = sum (ChangedAt N st) {..<N}"

text \<open>
  \<open>Progress h N X st st'\<close>: from \<open>st\<close> to \<open>st'\<close> no changed mark was cleared, and either a
  slot was written for the first time, or the rank of the written slots went down, or
  neither of them went up and only instructions in \<open>X\<close> were newly marked changed.
\<close>

definition Progress :: "('l \<Rightarrow> nat) \<Rightarrow> nat \<Rightarrow> nat set \<Rightarrow> 'l Verifier \<Rightarrow> 'l Verifier \<Rightarrow> bool" where
  "Progress h N X st st' =
     (length (insn_flags st') = length (insn_flags st) \<and>
      length (reg_table st') = length (reg_table st) \<and>
      (\<forall>j. IsChanged (insn_flags st ! j) \<longrightarrow> IsChanged (insn_flags st' ! j)) \<and>
      (UntouchedSlots N st' < UntouchedSlots N st \<or>
       (UntouchedSlots N st' = UntouchedSlots N st \<and> SlotRank h N st' < SlotRank h N st) \<or>
       (UntouchedSlots N st' = UntouchedSlots N st \<and> SlotRank h N st' \<le> SlotRank h N st \<and>
        (\<forall>j<N. IsChanged (insn_flags st' ! j) \<longrightarrow> IsChanged (insn_flags st ! j) \<or> j \<in> X))))"

text \<open>The quantity that decreases, lexicographically, with every turn of the loop.\<close>

definition DriverMeasure ::
  "('l \<Rightarrow> nat) \<Rightarrow> nat \<Rightarrow> nat \<times> 'l Verifier \<Rightarrow> nat \<times> nat \<times> nat \<times> nat" where
  "DriverMeasure h N = (\<lambda>(start_guess, st).
     (UntouchedSlots N st, SlotRank h N st, ChangedWeight N st,
      if start_guess = 0 then 0 else 1))"

text \<open>
  The rank falls with every merge that reports a change and rises with none: the lattice
  of register lines has finite height and merging is monotone.
\<close>

definition MergeLowersRank :: "('l, 'k, 'c) RegisterLineOps \<Rightarrow> ('l \<Rightarrow> nat) \<Rightarrow> bool" where
  "MergeLowersRank L h =
     (\<forall>target_line merge_line.
        (case MergeRegisters L target_line merge_line of
           (raised, merged, changed) \<Rightarrow>
             h merged \<le> h target_line \<and> (changed \<longrightarrow> h merged < h target_line)))"

section \<open>A small instance of the missing parts\<close>

text \<open>
  The theorems below hold for every register-line implementation and every kind table.
  To run the verifier model on concrete methods, the parameters are instantiated with
  the small implementation of this section.
\<close>

text \<open>
  Modelled from the spec: the kinds of \<open>RegType\<close> (reg_type.h is missing). These are some
  of the kinds the spec's data model lists: Undefined, Conflict, Boolean, Byte, Integer,
  the positive byte constant (the kind \<open>DetermineCat1Constant\<close>, lines 5122-5143, gives to
  the constants 2 to 127), the low half of a long constant, a resolved reference, an
  unresolved reference and the uninitialized \<open>this\<close> of a constructor.
\<close>

datatype Kind =
    kUndefined | kConflict | kBoolean | kByte | kInteger | kPositiveByteConstant
  | kConstantLo | kResolvedReference nat | kUnresolvedReference nat | kUninitializedThis

text \<open>
  Modelled from the spec: the \<open>RegType\<close> of a kind (reg_type.h is missing), with the
  answers the spec's data model gives: the int-family kinds and references are
  category 1, the cache id identifies the type, a resolved reference has a class.
  Classes are numbers; class 0 is \<open>java.lang.Object\<close>. \<open>IsByte()\<close> and \<open>IsInteger()\<close> ask
  for the kinds \<open>kByte\<close> and \<open>kInteger\<close>; a constant is of neither.
\<close>

fun KindId :: "Kind \<Rightarrow> nat" where
  "KindId kUndefined = 0"
| "KindId kConflict = 1"
| "KindId kBoolean = 2"
| "KindId kByte = 3"
| "KindId kInteger = 4"
| "KindId kConstantLo = 5"
| "KindId kUninitializedThis = 6"
| "KindId kPositiveByteConstant = 7"
| "KindId (kResolvedReference c) = 8 + 2 * c"
| "KindId (kUnresolvedReference d) = 9 + 2 * d"

fun IsRefKind :: "Kind \<Rightarrow> bool" where
  "IsRefKind (kResolvedReference c) = True"
| "IsRefKind (kUnresolvedReference d) = True"
| "IsRefKind kUninitializedThis = True"
| "IsRefKind k = False"

fun KindClass :: "Kind \<Rightarrow> nat option" where
  "KindClass (kResolvedReference c) = Some c"
| "KindClass k = None"

definition RegTypeOf :: "Kind \<Rightarrow> (Kind, nat) RegType" where
  "RegTypeOf k =
     \<lparr>GetId = KindId k, GetKind = k,
      HasClass = (KindClass k \<noteq> None),
      GetClass = (case KindClass k of Some c \<Rightarrow> c | None \<Rightarrow> 0),
      IsUndefined = (k = kUndefined), IsConflict = (k = kConflict),
      IsBoolean = (k = kBoolean), IsByte = (k = kByte), IsShort = False, IsChar = False,
      IsInteger = (k = kInteger),
      IsCategory1Types = (k = kBoolean \<or> k = kByte \<or> k = kInteger
                          \<or> k = kPositiveByteConstant \<or> IsRefKind k),
      IsLowHalf = (k = kConstantLo),
      IsReferenceTypes = IsRefKind k, IsNonZeroReferenceTypes = IsRefKind k,
      IsUninitializedTypes = (k = kUninitializedThis),
      IsUnresolvedTypes = (case k of kUnresolvedReference d \<Rightarrow> True | _ \<Rightarrow> False),
      IsJavaLangObject = (k = kResolvedReference 0),
      IsJavaLangObjectArray = False, IsObjectArrayTypes = False\<rparr>"

text \<open>
  Modelled from the spec: \<open>RegType::AssignabilityFrom\<close> (reg_type.h is missing). The spec
  requires the categories to match and leaves references to the class hierarchy; a
  wider int-family kind takes a narrower one, the other direction is the narrowing
  conversion that \<open>AssignableFrom\<close> refuses. The spec orders the constants by range,
  \<open>Zero < BooleanConstant < PositiveByteConstant\<close>: a positive byte constant has the range
  of a byte, so it fits byte and int and is a narrowing conversion for boolean. Nothing
  is assigned to a constant kind.
\<close>

fun IntRank :: "Kind \<Rightarrow> nat option" where
  "IntRank kBoolean = Some 0"
| "IntRank kByte = Some 1"
| "IntRank kInteger = Some 2"
| "IntRank k = None"

fun ValueRank :: "Kind \<Rightarrow> nat option" where
  "ValueRank kPositiveByteConstant = Some 1"
| "ValueRank k = IntRank k"

definition KindAssignability :: "Kind \<Rightarrow> Kind \<Rightarrow> Assignability" where
  "KindAssignability lhs rhs =
     (if IsRefKind lhs \<and> IsRefKind rhs then kReference
      else case (IntRank lhs, ValueRank rhs) of
             (Some a, Some b) \<Rightarrow> (if b \<le> a then kAssignable else kNarrowingConversion)
           | _ \<Rightarrow> kNotAssignable)"

text \<open>
  Modelled from the spec: the class hierarchy that the class resolution service
  supplies. Class 0 is \<open>java.lang.Object\<close>, class 1 an interface, class 3 a subclass of
  class 2.
\<close>

definition SmallTypeOps :: "(Kind, nat) RegTypeOps" where
  "SmallTypeOps =
     \<lparr>AssignabilityFrom = KindAssignability,
      CheckWidePair = (\<lambda>lo hi. False),
      IsInterface = (\<lambda>c. c = 1),
      ClassIsAssignableFrom = (\<lambda>lhs rhs. lhs = rhs \<or> lhs = 0 \<or> (lhs = 2 \<and> rhs = 3))\<rparr>"

text \<open>
  Modelled from the spec: \<open>RegisterLine\<close> (register_line.h is missing): one register type
  per virtual register, the monitor stack of (register, dex pc) pairs and the result
  register.
\<close>

record RegLine =
  regs :: "Kind list"
  monitors :: "(nat \<times> nat) list"
  result :: Kind

text \<open>
  Modelled from the spec: the methods of \<open>RegisterLine\<close> (register_line.cc is missing).
  Merging is register by register: equal types stay, different types give Conflict, and
  the method reports whether the target changed. \<open>monitor-enter\<close> pushes a (register,
  pc) pair, \<open>monitor-exit\<close> pops. A monitor held at a return is a locking failure. A
  constructor that returns with an uninitialized \<open>this\<close> is a hard failure. Marking
  registers as conflicts spares the returned operand. The transfer function of the
  other opcodes is that of \<open>iget\<close> for opcode number 0x52 (the destination register
  becomes Integer) and leaves the line alone for every other number.
\<close>

definition MergeKind :: "Kind \<Rightarrow> Kind \<Rightarrow> Kind" where
  "MergeKind a b = (if a = b then a else kConflict)"

definition SmallLineOps :: "(RegLine, Kind, nat) RegisterLineOps" where
  "SmallLineOps =
     \<lparr>GetRegisterType = (\<lambda>l v. RegTypeOf (if v < length (regs l) then regs l ! v else kConflict)),
      MergeRegisters = (\<lambda>target incoming.
         (let merged = target\<lparr>regs := map2 MergeKind (regs target) (regs incoming)\<rparr>
          in ([], merged, merged \<noteq> target))),
      PushMonitor = (\<lambda>l reg pc. ([], l\<lparr>monitors := monitors l @ [(reg, pc)]\<rparr>)),
      PopMonitor = (\<lambda>l reg. ([], l\<lparr>monitors := butlast (monitors l)\<rparr>)),
      MonitorStackDepth = (\<lambda>l. length (monitors l)),
      VerifyMonitorStackEmpty = (\<lambda>l.
         if monitors l = [] then [] else [RaiseFail VERIFY_ERROR_LOCKING False]),
      CheckConstructorReturn = (\<lambda>l.
         if kUninitializedThis \<in> set (regs l)
         then ([RaiseFail VERIFY_ERROR_BAD_CLASS_HARD True], False) else ([], True)),
      MarkAllRegistersAsConflicts = (\<lambda>l. l\<lparr>regs := map (\<lambda>k. kConflict) (regs l)\<rparr>),
      MarkAllRegistersAsConflictsExcept = (\<lambda>l v.
         l\<lparr>regs := map (\<lambda>i. if i = v then regs l ! i else kConflict) [0..<length (regs l)]\<rparr>),
      MarkAllRegistersAsConflictsExceptWide = (\<lambda>l v.
         l\<lparr>regs := map (\<lambda>i. if i = v \<or> i = v + 1 then regs l ! i else kConflict)
                       [0..<length (regs l)]\<rparr>),
      CopyRegister1 = (\<lambda>l vdst vsrc cat. ([], l\<lparr>regs := (regs l)[vdst := regs l ! vsrc]\<rparr>)),
      SetResultTypeToUnknown = (\<lambda>l. l\<lparr>result := kUndefined\<rparr>),
      OtherTransfer = (\<lambda>pc inst l.
         \<lparr>tr_raised = [],
          tr_line = (if Opcode inst = OTHER 0x52
                     then l\<lparr>regs := (regs l)[VRegA inst := kInteger]\<rparr> else l),
          tr_just_set_result = False, tr_exc_handler_unreachable = False,
          tr_branch_line = None, tr_fallthrough_line = None\<rparr>)\<rparr>"

text \<open>
  A method with no code units set, no try items and the defaults of a method that is
  neither a constructor nor compiled ahead of time; concrete methods update its fields.
\<close>

definition PlainMethod :: "(Kind, nat) Method" where
  "PlainMethod =
     \<lparr>Insns = (\<lambda>pc. 0), InsnsSizeInCodeUnits = 0,
      InstructionAt = (\<lambda>pc. \<lparr>Opcode = NOP, Flags = {kContinue}, SizeInCodeUnits = 1,
                              VRegA = 0, VRegB = 0\<rparr>),
      FindTryItem = (\<lambda>pc. None), ResolvesToThrowable = (\<lambda>ti. False),
      IsInstanceConstructor = False, GetMethodReturnType = RegTypeOf kConflict,
      IsAotMode = False, SdkAtLeastS_V2 = True, IsVerifierMissingKThrowFatal = False\<rparr>"

definition NoFlags :: InstructionFlags where
  "NoFlags = \<lparr>IsOpcode = True, IsBranchTarget = False, IsInTry = False, IsReturn = False,
              IsVisited = False, IsChanged = False\<rparr>"

text \<open>A verifier at the start of the code-flow pass, with both lines set to \<open>line\<close>.\<close>

definition InitialVerifier ::
  "RegLine \<Rightarrow> RegLine option list \<Rightarrow> InstructionFlags list \<Rightarrow> RegLine Verifier" where
  "InitialVerifier line table fl =
     \<lparr>work_line = line, saved_line = line, reg_table = table, insn_flags = fl,
      work_insn_idx = kDexNoIndex, have_pending_hard_failure = False,
      have_pending_runtime_throw_failure = False, failures = [],
      encountered_failure_types = {}, crashed = False\<rparr>"

text \<open>
  Modelled from the spec: the height left above a line in the lattice of the small
  instance, where a register can only move to \<open>kConflict\<close> and a line can only lose
  registers.
\<close>

definition LineRank :: "RegLine \<Rightarrow> nat" where
  "LineRank l = length (regs l) + length (filter (\<lambda>k. k \<noteq> kConflict) (regs l))"

text \<open>
  Modelled from the spec: a small instance of the classes of register types for the
  cache. An entry is the constructor it was made with and its arguments; classes are
  numbers; the only class that resolves is \<open>java.lang.Object\<close>, class 0; a descriptor
  is valid when it starts with \<open>L\<close>. The small constants are -1 to 4 and the first 19
  entries are the built-in ones, the conflict type at 17.
\<close>

datatype SmallEntry =
    BuiltIn nat
  | PreciseConst int
  | ImpreciseConst int
  | Reference nat string
  | UnresolvedReference string
  | UninitializedReference nat string nat
  | UnresolvedUninitializedRef string nat

definition SmallClasses :: "(SmallEntry, nat) RegTypeClasses" where
  "SmallClasses =
     \<lparr>GetDescriptor = (\<lambda>e. case e of Reference k d \<Rightarrow> d | UnresolvedReference d \<Rightarrow> d
                              | UninitializedReference k d pc \<Rightarrow> d
                              | UnresolvedUninitializedRef d pc \<Rightarrow> d | _ \<Rightarrow> []),
      HasClassOf = (\<lambda>e. case e of Reference k d \<Rightarrow> True
                           | UninitializedReference k d pc \<Rightarrow> True | _ \<Rightarrow> False),
      GetClassOf = (\<lambda>e. case e of Reference k d \<Rightarrow> k
                           | UninitializedReference k d pc \<Rightarrow> k | _ \<Rightarrow> 0),
      IsUnresolvedTypesOf = (\<lambda>e. case e of UnresolvedReference d \<Rightarrow> True
                                    | UnresolvedUninitializedRef d pc \<Rightarrow> True | _ \<Rightarrow> False),
      IsConstant = (\<lambda>e. case e of PreciseConst v \<Rightarrow> True | ImpreciseConst v \<Rightarrow> True
                           | _ \<Rightarrow> False),
      IsPreciseConstant = (\<lambda>e. case e of PreciseConst v \<Rightarrow> True | _ \<Rightarrow> False),
      ConstantValue = (\<lambda>e. case e of PreciseConst v \<Rightarrow> v | ImpreciseConst v \<Rightarrow> v | _ \<Rightarrow> 0),
      IsUninitializedReference = (\<lambda>e. case e of UninitializedReference k d pc \<Rightarrow> True
                                         | _ \<Rightarrow> False),
      IsUnresolvedAndUninitializedReference =
        (\<lambda>e. case e of UnresolvedUninitializedRef d pc \<Rightarrow> True | _ \<Rightarrow> False),
      GetAllocationPc = (\<lambda>e. case e of UninitializedReference k d pc \<Rightarrow> pc
                                | UnresolvedUninitializedRef d pc \<Rightarrow> pc | _ \<Rightarrow> 0),
      NewPreciseConstType = (\<lambda>v n. PreciseConst v),
      NewImpreciseConstType = (\<lambda>v n. ImpreciseConst v),
      NewReferenceType = (\<lambda>k d n. Reference k d),
      NewUnresolvedReferenceType = (\<lambda>d n. UnresolvedReference d),
      NewUninitializedReferenceType = (\<lambda>k d pc n. UninitializedReference k d pc),
      NewUnresolvedUninitializedRefType = (\<lambda>d pc n. UnresolvedUninitializedRef d pc),
      ResolveClass = (\<lambda>d. if d = ''Ljava/lang/Object;'' then Some 0 else None),
      IsValidDescriptor = (\<lambda>d. case d of [] \<Rightarrow> False | ch # cs \<Rightarrow> ch = CHR ''L''),
      kNumPrimitivesAndSmallConstants = 19,
      kMinSmallConstant = - 1,
      kMaxSmallConstant = 4,
      kConflictCacheId = 17\<rparr>"

section \<open>Concrete methods\<close>

text \<open>
  A method that is the single instruction \<open>return-object v0\<close>, declared to return the
  unresolved class 0, and the verifier about to verify that instruction with \<open>v0\<close>
  holding a reference to the resolved class 2.
\<close>

definition ReturnObjectInst :: Instruction where
  "ReturnObjectInst =
     \<lparr>Opcode = RETURN_OBJECT, Flags = {kReturn}, SizeInCodeUnits = 1, VRegA = 0, VRegB = 0\<rparr>"

definition ReturnObjectMethod :: "(Kind, nat) Method" where
  "ReturnObjectMethod =
     PlainMethod\<lparr>InsnsSizeInCodeUnits := 1, InstructionAt := (\<lambda>pc. ReturnObjectInst),
                 GetMethodReturnType := RegTypeOf (kUnresolvedReference 0)\<rparr>"

definition ReturnObjectVerifier :: "RegLine Verifier" where
  "ReturnObjectVerifier =
     (InitialVerifier \<lparr>regs = [kResolvedReference 2], monitors = [], result = kUndefined\<rparr>
        [None] [NoFlags\<lparr>IsReturn := True\<rparr>])\<lparr>work_insn_idx := 0\<rparr>"

text \<open>
  A method that is the single instruction \<open>return v0\<close>, declared to return boolean, and the
  verifier about to verify it with \<open>v0\<close> holding the given kind.
\<close>

definition ReturnInst :: Instruction where
  "ReturnInst =
     \<lparr>Opcode = RETURN, Flags = {kReturn}, SizeInCodeUnits = 1, VRegA = 0, VRegB = 0\<rparr>"

definition ReturnBooleanMethod :: "(Kind, nat) Method" where
  "ReturnBooleanMethod =
     PlainMethod\<lparr>InsnsSizeInCodeUnits := 1, InstructionAt := (\<lambda>pc. ReturnInst),
                 GetMethodReturnType := RegTypeOf kBoolean\<rparr>"

definition ReturnVerifier :: "Kind \<Rightarrow> RegLine Verifier" where
  "ReturnVerifier k =
     (InitialVerifier \<lparr>regs = [k], monitors = [], result = kUndefined\<rparr>
        [None] [NoFlags\<lparr>IsReturn := True\<rparr>])\<lparr>work_insn_idx := 0\<rparr>"

text \<open>
  Two code units, with a line slot at pc 1. \<open>ReturnAtOneMethod ret ctor\<close> decodes pc 1 as
  \<open>ret\<close>; \<open>SlotVerifier f1 saved\<close> is the verifier with the flags \<open>f1\<close> and the saved line
  \<open>saved\<close> at pc 1; \<open>Regs ks\<close> is the line with the register kinds \<open>ks\<close> and no monitor.
\<close>

definition ReturnVoidInst :: Instruction where
  "ReturnVoidInst =
     \<lparr>Opcode = RETURN_VOID, Flags = {kReturn}, SizeInCodeUnits = 1, VRegA = 0, VRegB = 0\<rparr>"

definition ReturnAtOneMethod :: "Instruction \<Rightarrow> bool \<Rightarrow> (Kind, nat) Method" where
  "ReturnAtOneMethod ret ctor =
     PlainMethod\<lparr>InsnsSizeInCodeUnits := 2,
                 InstructionAt := (\<lambda>pc. if pc = 1 then ret else InstructionAt PlainMethod pc),
                 IsInstanceConstructor := ctor\<rparr>"

definition SlotVerifier :: "InstructionFlags \<Rightarrow> RegLine \<Rightarrow> RegLine Verifier" where
  "SlotVerifier f1 saved =
     (InitialVerifier \<lparr>regs = [kUndefined, kUndefined], monitors = [], result = kUndefined\<rparr>
        [None, Some saved] [NoFlags, f1])\<lparr>work_insn_idx := 0\<rparr>"

definition TargetFlags :: InstructionFlags where
  "TargetFlags = NoFlags\<lparr>IsBranchTarget := True\<rparr>"

definition Regs :: "Kind list \<Rightarrow> RegLine" where
  "Regs ks = \<lparr>regs = ks, monitors = [], result = kUndefined\<rparr>"

text \<open>
  The scenario of the spec for the exception edges: \<open>iget v0, v1\<close> at pc 0 (two code
  units, may throw, falls through) inside a try block whose only handler, a catch-all, is
  at pc 3. \<open>v1\<close> holds a reference and \<open>v0\<close> is undefined before the instruction.
\<close>

definition IgetInst :: Instruction where
  "IgetInst = \<lparr>Opcode = OTHER 0x52, Flags = {kContinue, kThrow}, SizeInCodeUnits = 2,
               VRegA = 0, VRegB = 1\<rparr>"

definition IgetMethod :: "(Kind, nat) Method" where
  "IgetMethod =
     PlainMethod\<lparr>InsnsSizeInCodeUnits := 4,
                 InstructionAt := (\<lambda>pc. if pc = 0 then IgetInst else InstructionAt PlainMethod pc),
                 FindTryItem := (\<lambda>pc. if pc < 2 then Some [(None, 3)] else None)\<rparr>"

definition IgetVerifier :: "RegLine Verifier" where
  "IgetVerifier =
     (InitialVerifier (Regs [kUndefined, kResolvedReference 2])
        [Some (Regs [kUndefined, kResolvedReference 2]), None, None,
         Some (Regs [kUndefined, kUndefined])]
        [NoFlags\<lparr>IsBranchTarget := True, IsInTry := True, IsChanged := True\<rparr>,
         NoFlags\<lparr>IsOpcode := False, IsInTry := True\<rparr>, NoFlags, TargetFlags])
       \<lparr>work_insn_idx := 0\<rparr>"

text \<open>
  \<open>monitor-exit v0\<close> at pc 0 (may throw, falls through) inside a try block whose only
  handler, at pc 3, catches the type with index 7, which is not \<open>java.lang.Throwable\<close>.
  Two monitors are held before the instruction.
\<close>

definition MonitorExitInst :: Instruction where
  "MonitorExitInst = \<lparr>Opcode = MONITOR_EXIT, Flags = {kContinue, kThrow}, SizeInCodeUnits = 1,
                      VRegA = 0, VRegB = 0\<rparr>"

definition MonitorExitMethod :: "(Kind, nat) Method" where
  "MonitorExitMethod =
     PlainMethod\<lparr>InsnsSizeInCodeUnits := 4,
                 InstructionAt := (\<lambda>pc. if pc = 0 then MonitorExitInst
                                        else InstructionAt PlainMethod pc),
                 FindTryItem := (\<lambda>pc. if pc < 2 then Some [(Some 7, 3)] else None)\<rparr>"

definition TwoMonitors :: RegLine where
  "TwoMonitors = \<lparr>regs = [kResolvedReference 2, kResolvedReference 2],
                  monitors = [(0, 0), (1, 1)], result = kUndefined\<rparr>"

definition MonitorExitVerifier :: "RegLine Verifier" where
  "MonitorExitVerifier =
     (InitialVerifier TwoMonitors
        [Some TwoMonitors, None, None, Some (Regs [kUndefined, kUndefined])]
        [NoFlags\<lparr>IsBranchTarget := True, IsInTry := True, IsChanged := True\<rparr>,
         NoFlags\<lparr>IsInTry := True\<rparr>, NoFlags, TargetFlags])
       \<lparr>work_insn_idx := 0\<rparr>"

text \<open>
  The same try block with \<open>iget v0, v1\<close> at pc 0 (opcode 0x52) and with \<open>monitor-enter v0\<close>
  at pc 0, verified with the working line \<open>line\<close>.
\<close>

definition MonitorEnterInst :: Instruction where
  "MonitorEnterInst = \<lparr>Opcode = MONITOR_ENTER, Flags = {kContinue, kThrow},
                       SizeInCodeUnits = 1, VRegA = 0, VRegB = 0\<rparr>"

definition TryMethod :: "Instruction \<Rightarrow> (Kind, nat) Method" where
  "TryMethod inst =
     PlainMethod\<lparr>InsnsSizeInCodeUnits := 4,
                 InstructionAt := (\<lambda>pc. if pc = 0 then inst else InstructionAt PlainMethod pc),
                 FindTryItem := (\<lambda>pc. if pc < 2 then Some [(Some 7, 3)] else None)\<rparr>"

definition TryVerifier :: "RegLine \<Rightarrow> RegLine Verifier" where
  "TryVerifier line =
     (InitialVerifier line
        [Some line, None, None, Some (Regs [kUndefined, kUndefined])]
        [NoFlags\<lparr>IsBranchTarget := True, IsInTry := True, IsChanged := True\<rparr>,
         NoFlags\<lparr>IsInTry := True\<rparr>, NoFlags, TargetFlags])
       \<lparr>work_insn_idx := 0\<rparr>"

text \<open>The locals after the opcode switch of an instruction that may throw and falls through.\<close>

definition ThrowingLocals :: "RegLine Locals" where
  "ThrowingLocals = \<lparr>opcode_flags = {kContinue, kThrow}, just_set_result = False,
                     exc_handler_unreachable = False, branch_line = None,
                     fallthrough_line = None, branch_target = 0\<rparr>"

definition OneMonitor :: RegLine where
  "OneMonitor = \<lparr>regs = [kResolvedReference 2, kResolvedReference 2],
                 monitors = [(0, 0)], result = kUndefined\<rparr>"

text \<open>
  A method with a backward branch, five code units:
  pc 0 \<open>iget v0, v1\<close> (two units), pc 2 \<open>if-eqz v0, -2\<close> (two units, branching to pc 0),
  pc 4 \<open>return-void\<close>. Only pc 0 is a branch target and has a line slot. The verifier is
  as \<open>VerifyCodeFlow\<close> leaves it before the loop: the line of pc 0 set from the signature.
\<close>

definition IfEqzInst :: Instruction where
  "IfEqzInst = \<lparr>Opcode = OTHER 0x38, Flags = {kBranch, kContinue}, SizeInCodeUnits = 2,
                VRegA = 0, VRegB = 0\<rparr>"

definition LoopMethod :: "(Kind, nat) Method" where
  "LoopMethod =
     PlainMethod\<lparr>Insns := (\<lambda>pc. if pc = 0 then 0x0052 else if pc = 2 then 0x0038
                             else if pc = 3 then 0xFFFE else if pc = 4 then 0x000E else 0),
                 InsnsSizeInCodeUnits := 5,
                 InstructionAt := (\<lambda>pc. if pc = 0 then IgetInst else if pc = 2 then IfEqzInst
                                        else if pc = 4 then ReturnVoidInst
                                        else InstructionAt PlainMethod pc)\<rparr>"

definition LoopFlags :: "InstructionFlags list" where
  "LoopFlags = [TargetFlags, NoFlags\<lparr>IsOpcode := False\<rparr>, NoFlags,
                NoFlags\<lparr>IsOpcode := False\<rparr>, NoFlags\<lparr>IsReturn := True\<rparr>]"

definition LoopVerifier :: "RegLine Verifier" where
  "LoopVerifier =
     InitialVerifier (Regs [kUndefined, kUndefined])
       [Some (Regs [kUndefined, kResolvedReference 2]), None, None, None, None] LoopFlags"

text \<open>The states of the loop on \<open>LoopMethod\<close> after its first and its second instruction.\<close>

definition LoopState1 :: "RegLine Verifier" where
  "LoopState1 =
     LoopVerifier\<lparr>work_insn_idx := 0,
                   work_line := Regs [kInteger, kResolvedReference 2],
                   insn_flags := [TargetFlags\<lparr>IsVisited := True\<rparr>, NoFlags\<lparr>IsOpcode := False\<rparr>,
                                  NoFlags\<lparr>IsChanged := True\<rparr>, NoFlags\<lparr>IsOpcode := False\<rparr>,
                                  NoFlags\<lparr>IsReturn := True\<rparr>]\<rparr>"

definition LoopState2 :: "RegLine Verifier" where
  "LoopState2 =
     LoopVerifier\<lparr>work_insn_idx := 2,
                   reg_table := [Some (Regs [kConflict, kResolvedReference 2]), None, None, None, None],
                   work_line := Regs [kConflict, kConflict],
                   insn_flags := [TargetFlags\<lparr>IsVisited := True, IsChanged := True\<rparr>,
                                  NoFlags\<lparr>IsOpcode := False\<rparr>,
                                  NoFlags\<lparr>IsVisited := True\<rparr>, NoFlags\<lparr>IsOpcode := False\<rparr>,
                                  NoFlags\<lparr>IsReturn := True, IsChanged := True\<rparr>]\<rparr>"

text \<open>
  Inputs of the static pre-pass. \<open>PlainDex\<close> has one register, one entry in every table,
  the type 0 with descriptor \<open>Ljava/lang/Class;\<close>, and decodes every instruction as one
  unit with nothing to verify.
\<close>

definition NothingDecoded :: DecodedInstruction where
  "NothingDecoded =
     \<lparr>GetVerifyTypeArgumentA = kVerifyNothingA, GetVerifyTypeArgumentB = kVerifyNothingB,
      GetVerifyTypeArgumentC = kVerifyNothingC, GetVerifyTypeArgumentH = kVerifyNothingH,
      GetVerifyExtraFlags = kVerifyNothingExtra,
      DecodedVRegA = 0, DecodedVRegB = 0, DecodedVRegC = 0, DecodedVRegH = 0,
      GetVarArgs = [0, 0, 0, 0, 0], PermittedDescriptors = (CHR ''I'', CHR ''F''),
      DecodedIsReturn = False, DecodedSizeInCodeUnits = 1\<rparr>"

definition PlainDex :: DexFile where
  "PlainDex =
     \<lparr>RegistersSize = 1, NumFieldIds = 1, NumMethodIds = 1, NumCallSiteIds = 1,
      NumMethodHandles = 1, proto_ids_size = 1, string_ids_size = 1, type_ids_size = 1,
      GetTypeDescriptor = (\<lambda>idx. ''Ljava/lang/Class;''),
      GetFieldTypeDescriptor = (\<lambda>idx. ''I''),
      DecodeAt = (\<lambda>pc. NothingDecoded),
      kMaxVarArgRegs = 5, kPackedSwitchSignature = 0x0100, kSparseSwitchSignature = 0x0200\<rparr>"

text \<open>\<open>const/4 v5, 0\<close> alone in a method of one register and one code unit.\<close>

definition BadRegisterDex :: DexFile where
  "BadRegisterDex =
     PlainDex\<lparr>DecodeAt := (\<lambda>pc. NothingDecoded\<lparr>GetVerifyTypeArgumentA := kVerifyRegA,
                                                 DecodedVRegA := 5\<rparr>)\<rparr>"

definition OneUnitMethod :: "(Kind, nat) Method" where
  "OneUnitMethod = PlainMethod\<lparr>InsnsSizeInCodeUnits := 1\<rparr>"

definition OneUnitVerifier :: "RegLine Verifier" where
  "OneUnitVerifier = InitialVerifier (Regs [kUndefined]) [None] [NoFlags]"

text \<open>
  \<open>new-instance v0, Ljava/lang/Class;\<close> (two units) followed by \<open>return-void\<close>, in a method
  of one register.
\<close>

definition NewInstanceDex :: DexFile where
  "NewInstanceDex =
     PlainDex\<lparr>DecodeAt := (\<lambda>pc.
        if pc = 0 then NothingDecoded\<lparr>GetVerifyTypeArgumentA := kVerifyRegA,
                                      GetVerifyTypeArgumentB := kVerifyRegBNewInstance,
                                      DecodedSizeInCodeUnits := 2\<rparr>
        else NothingDecoded\<lparr>DecodedIsReturn := True\<rparr>)\<rparr>"

definition NewInstanceMethod :: "(Kind, nat) Method" where
  "NewInstanceMethod = PlainMethod\<lparr>InsnsSizeInCodeUnits := 3\<rparr>"

definition NewInstanceVerifier :: "RegLine Verifier" where
  "NewInstanceVerifier =
     InitialVerifier (Regs [kUndefined]) [None, None, None]
       [NoFlags, NoFlags\<lparr>IsOpcode := False\<rparr>, NoFlags]"

text \<open>The verifier the pre-pass leaves for it.\<close>

definition NewInstanceState :: "RegLine Verifier" where
  "NewInstanceState =
     NewInstanceVerifier
       \<lparr>insn_flags := [NoFlags\<lparr>IsBranchTarget := True\<rparr>, NoFlags\<lparr>IsOpcode := False\<rparr>,
                       NoFlags\<lparr>IsReturn := True\<rparr>],
        failures := [VERIFY_ERROR_INSTANTIATION],
        encountered_failure_types := {VERIFY_ERROR_INSTANTIATION}\<rparr>"

text \<open>
  Caches of the small instance: the one the constructor leaves, and the ones after the
  requests for \<open>Ljava/lang/Object;\<close>, for the precise constant 100 and for the
  uninitialized \<open>Object\<close> allocated at pc 7, made in this order.
\<close>

definition InitialCache :: "(SmallEntry, nat) RegTypeCache" where
  "InitialCache = \<lparr>entries = map BuiltIn [0..<19], klass_entries = []\<rparr>"

definition ObjectEntry :: SmallEntry where
  "ObjectEntry = Reference 0 ''Ljava/lang/Object;''"

definition CacheA :: "(SmallEntry, nat) RegTypeCache" where
  "CacheA = \<lparr>entries = map BuiltIn [0..<19] @ [ObjectEntry], klass_entries = [(0, 19)]\<rparr>"

definition CacheB :: "(SmallEntry, nat) RegTypeCache" where
  "CacheB = \<lparr>entries = map BuiltIn [0..<19] @ [ObjectEntry, PreciseConst 100],
              klass_entries = [(0, 19)]\<rparr>"

definition CacheC :: "(SmallEntry, nat) RegTypeCache" where
  "CacheC = \<lparr>entries = map BuiltIn [0..<19]
                         @ [ObjectEntry, PreciseConst 100,
                            UninitializedReference 0 ''Ljava/lang/Object;'' 7],
              klass_entries = [(0, 19), (0, 21)]\<rparr>"

text \<open>The method \<open>return v0\<close> declared to return byte.\<close>

definition ReturnByteMethod :: "(Kind, nat) Method" where
  "ReturnByteMethod = ReturnBooleanMethod\<lparr>GetMethodReturnType := RegTypeOf kByte\<rparr>"

text \<open>
  \<open>iget v0, v1\<close> at pc 0 inside a try block with two handlers: the first, at pc 3, catches
  the type with index 7, the second, at pc 4, is a catch-all. The verifier is about to
  verify pc 0; its \<open>saved_line_\<close> still holds the line of an earlier instruction.
\<close>

definition TwoHandlerMethod :: "(Kind, nat) Method" where
  "TwoHandlerMethod =
     PlainMethod\<lparr>InsnsSizeInCodeUnits := 5,
                 InstructionAt := (\<lambda>pc. if pc = 0 then IgetInst else InstructionAt PlainMethod pc),
                 FindTryItem := (\<lambda>pc. if pc < 2 then Some [(Some 7, 3), (None, 4)] else None)\<rparr>"

definition TwoHandlerVerifier :: "RegLine Verifier" where
  "TwoHandlerVerifier =
     (InitialVerifier (Regs [kUndefined, kResolvedReference 2])
        [Some (Regs [kUndefined, kResolvedReference 2]), None, None,
         Some (Regs [kUndefined, kUndefined]), Some (Regs [kUndefined, kUndefined])]
        [NoFlags\<lparr>IsBranchTarget := True, IsInTry := True, IsChanged := True\<rparr>,
         NoFlags\<lparr>IsOpcode := False, IsInTry := True\<rparr>, NoFlags, TargetFlags, TargetFlags])
       \<lparr>work_insn_idx := 0, saved_line := Regs [kConflict, kConflict]\<rparr>"

text \<open>
  Modelled from the spec: \<open>RegisterLine::PopMonitor\<close> (register_line.cc is missing) told of
  a \<open>monitor-exit\<close> with no monitor held. The spec keeps the monitor stack to detect
  monitor mismatches; \<open>PopMonitor\<close> is handed the verifier (line 2816), and here it reports
  the mismatch as \<open>Fail(VERIFY_ERROR_LOCKING)\<close> with a pending exception, the case of \<open>Fail\<close>
  that calls \<open>PotentiallyMarkRuntimeThrow\<close> (lines 5551-5554; the comment at lines 3716-3718
  has the locking failures of a return mark the instruction in the same way), and leaves
  the line alone. With a monitor held it pops. The other methods are those of
  \<open>SmallLineOps\<close>.
\<close>

definition StrictLineOps :: "(RegLine, Kind, nat) RegisterLineOps" where
  "StrictLineOps =
     SmallLineOps\<lparr>PopMonitor := (\<lambda>l reg.
        if monitors l = [] then ([RaiseFail VERIFY_ERROR_LOCKING True], l)
        else ([], l\<lparr>monitors := butlast (monitors l)\<rparr>))\<rparr>"

text \<open>
  The try block of \<open>TryMethod\<close> in a method verified at run time for an API level below
  S_V2, where \<open>PotentiallyMarkRuntimeThrow\<close> marks the instruction.
\<close>

definition CompatTryMethod :: "Instruction \<Rightarrow> (Kind, nat) Method" where
  "CompatTryMethod inst = (TryMethod inst)\<lparr>IsAotMode := False, SdkAtLeastS_V2 := False\<rparr>"

section \<open>What raising a failure leaves unchanged\<close>

lemma PotentiallyMarkRuntimeThrow_frame [simp]:
  "insn_flags (snd (PotentiallyMarkRuntimeThrow M st)) = insn_flags st"
  "reg_table (snd (PotentiallyMarkRuntimeThrow M st)) = reg_table st"
  "work_line (snd (PotentiallyMarkRuntimeThrow M st)) = work_line st"
  "work_insn_idx (snd (PotentiallyMarkRuntimeThrow M st)) = work_insn_idx st"
  by (simp_all add: PotentiallyMarkRuntimeThrow_def RecordFailure_def Let_def)

lemma Fail_frame [simp]:
  "insn_flags (Fail M e p st) = insn_flags st"
  "reg_table (Fail M e p st) = reg_table st"
  "work_line (Fail M e p st) = work_line st"
  "work_insn_idx (Fail M e p st) = work_insn_idx st"
  by (cases e; simp add: Fail_def Let_def)+

lemma Raise_frame [simp]:
  "insn_flags (Raise M rs st) = insn_flags st"
  "reg_table (Raise M rs st) = reg_table st"
  "work_line (Raise M rs st) = work_line st"
  "work_insn_idx (Raise M rs st) = work_insn_idx st"
  by (induction M rs st rule: Raise.induct; simp)+

lemma AdjustReturnLine_frame [simp]:
  "insn_flags (snd (AdjustReturnLine L M ret line st)) = insn_flags st"
  "reg_table (snd (AdjustReturnLine L M ret line st)) = reg_table st"
  "work_line (snd (AdjustReturnLine L M ret line st)) = work_line st"
  "work_insn_idx (snd (AdjustReturnLine L M ret line st)) = work_insn_idx st"
  by (cases "Opcode ret"; simp add: AdjustReturnLine_def Let_def)+

lemma SetChanged_simps [simp]:
  "reg_table (SetChanged pc st) = reg_table st"
  "work_line (SetChanged pc st) = work_line st"
  "saved_line (SetChanged pc st) = saved_line st"
  "work_insn_idx (SetChanged pc st) = work_insn_idx st"
  "failures (SetChanged pc st) = failures st"
  "have_pending_hard_failure (SetChanged pc st) = have_pending_hard_failure st"
  "have_pending_runtime_throw_failure (SetChanged pc st) = have_pending_runtime_throw_failure st"
  "crashed (SetChanged pc st) = crashed st"
  "length (insn_flags (SetChanged pc st)) = length (insn_flags st)"
  by (simp_all add: SetChanged_def)

lemma SetChanged_flags:
  "pc < length (insn_flags st) \<Longrightarrow> IsChanged (insn_flags (SetChanged pc st) ! pc)"
  "q \<noteq> pc \<Longrightarrow> insn_flags (SetChanged pc st) ! q = insn_flags st ! q"
  by (simp_all add: SetChanged_def)

section \<open>Evaluating the small instance\<close>

lemma SmallLineOps_simps [simp]:
  "MergeRegisters SmallLineOps target incoming
     = ([], target\<lparr>regs := map2 MergeKind (regs target) (regs incoming)\<rparr>,
        target\<lparr>regs := map2 MergeKind (regs target) (regs incoming)\<rparr> \<noteq> target)"
  "PushMonitor SmallLineOps l reg pc = ([], l\<lparr>monitors := monitors l @ [(reg, pc)]\<rparr>)"
  "PopMonitor SmallLineOps l reg = ([], l\<lparr>monitors := butlast (monitors l)\<rparr>)"
  "MonitorStackDepth SmallLineOps l = length (monitors l)"
  "VerifyMonitorStackEmpty SmallLineOps l
     = (if monitors l = [] then [] else [RaiseFail VERIFY_ERROR_LOCKING False])"
  "CheckConstructorReturn SmallLineOps l
     = (if kUninitializedThis \<in> set (regs l)
        then ([RaiseFail VERIFY_ERROR_BAD_CLASS_HARD True], False) else ([], True))"
  "MarkAllRegistersAsConflicts SmallLineOps l = l\<lparr>regs := map (\<lambda>k. kConflict) (regs l)\<rparr>"
  "MarkAllRegistersAsConflictsExcept SmallLineOps l v
     = l\<lparr>regs := map (\<lambda>i. if i = v then regs l ! i else kConflict) [0..<length (regs l)]\<rparr>"
  "MarkAllRegistersAsConflictsExceptWide SmallLineOps l v
     = l\<lparr>regs := map (\<lambda>i. if i = v \<or> i = v + 1 then regs l ! i else kConflict)
                     [0..<length (regs l)]\<rparr>"
  "CopyRegister1 SmallLineOps l vdst vsrc cat = ([], l\<lparr>regs := (regs l)[vdst := regs l ! vsrc]\<rparr>)"
  "SetResultTypeToUnknown SmallLineOps l = l\<lparr>result := kUndefined\<rparr>"
  "OtherTransfer SmallLineOps pc inst l
     = \<lparr>tr_raised = [],
        tr_line = (if Opcode inst = OTHER 0x52
                   then l\<lparr>regs := (regs l)[VRegA inst := kInteger]\<rparr> else l),
        tr_just_set_result = False, tr_exc_handler_unreachable = False,
        tr_branch_line = None, tr_fallthrough_line = None\<rparr>"
  by (simp_all add: SmallLineOps_def Let_def)

lemma SmallLineOps_GetRegisterType [simp]:
  "GetRegisterType SmallLineOps l v
     = RegTypeOf (if v < length (regs l) then regs l ! v else kConflict)"
  by (simp add: SmallLineOps_def)

lemma SmallTypeOps_simps [simp]:
  "AssignabilityFrom SmallTypeOps = KindAssignability"
  "IsInterface SmallTypeOps c = (c = 1)"
  "ClassIsAssignableFrom SmallTypeOps lhs rhs = (lhs = rhs \<or> lhs = 0 \<or> (lhs = 2 \<and> rhs = 3))"
  "CheckWidePair SmallTypeOps lo hi = False"
  by (simp_all add: SmallTypeOps_def)

lemma PlainMethod_simps [simp]:
  "Insns PlainMethod pc = 0"
  "InsnsSizeInCodeUnits PlainMethod = 0"
  "InstructionAt PlainMethod pc
     = \<lparr>Opcode = NOP, Flags = {kContinue}, SizeInCodeUnits = 1, VRegA = 0, VRegB = 0\<rparr>"
  "FindTryItem PlainMethod pc = None"
  "ResolvesToThrowable PlainMethod ti = False"
  "IsInstanceConstructor PlainMethod = False"
  "GetMethodReturnType PlainMethod = RegTypeOf kConflict"
  "IsAotMode PlainMethod = False"
  "SdkAtLeastS_V2 PlainMethod = True"
  "IsVerifierMissingKThrowFatal PlainMethod = False"
  by (simp_all add: PlainMethod_def)

lemma InitialVerifier_simps [simp]:
  "work_line (InitialVerifier line table fl) = line"
  "saved_line (InitialVerifier line table fl) = line"
  "reg_table (InitialVerifier line table fl) = table"
  "insn_flags (InitialVerifier line table fl) = fl"
  "work_insn_idx (InitialVerifier line table fl) = kDexNoIndex"
  "have_pending_hard_failure (InitialVerifier line table fl) = False"
  "have_pending_runtime_throw_failure (InitialVerifier line table fl) = False"
  "failures (InitialVerifier line table fl) = []"
  "encountered_failure_types (InitialVerifier line table fl) = {}"
  "crashed (InitialVerifier line table fl) = False"
  by (simp_all add: InitialVerifier_def)

lemma SlotVerifier_simps [simp]:
  "work_line (SlotVerifier f1 saved) = Regs [kUndefined, kUndefined]"
  "reg_table (SlotVerifier f1 saved) = [None, Some saved]"
  "insn_flags (SlotVerifier f1 saved) = [NoFlags, f1]"
  "failures (SlotVerifier f1 saved) = []"
  "have_pending_hard_failure (SlotVerifier f1 saved) = False"
  "work_insn_idx (SlotVerifier f1 saved) = 0"
  by (simp_all add: SlotVerifier_def Regs_def)

lemma ReturnAtOneMethod_simps [simp]:
  "InstructionAt (ReturnAtOneMethod ret ctor) pc
     = (if pc = 1 then ret else InstructionAt PlainMethod pc)"
  "IsInstanceConstructor (ReturnAtOneMethod ret ctor) = ctor"
  "IsAotMode (ReturnAtOneMethod ret ctor) = False"
  "SdkAtLeastS_V2 (ReturnAtOneMethod ret ctor) = True"
  by (simp_all add: ReturnAtOneMethod_def)

lemma TargetFlags_simps [simp]:
  "IsVisitedOrChanged TargetFlags = False"
  "IsReturn TargetFlags = False"
  "IsVisitedOrChanged (TargetFlags\<lparr>IsReturn := True\<rparr>) = False"
  "IsVisitedOrChanged (TargetFlags\<lparr>IsVisited := True\<rparr>) = True"
  "IsReturn (TargetFlags\<lparr>IsVisited := True\<rparr>) = False"
  "IsChanged (TargetFlags\<lparr>IsVisited := True\<rparr>) = False"
  "IsChanged TargetFlags = False"
  by (simp_all add: TargetFlags_def NoFlags_def IsVisitedOrChanged_def)

lemma IgetMethod_simps [simp]:
  "InstructionAt IgetMethod pc = (if pc = 0 then IgetInst else InstructionAt PlainMethod pc)"
  "FindTryItem IgetMethod pc = (if pc < 2 then Some [(None, 3)] else None)"
  "InsnsSizeInCodeUnits IgetMethod = 4"
  "Insns IgetMethod pc = 0"
  "IsAotMode IgetMethod = False"
  "SdkAtLeastS_V2 IgetMethod = True"
  by (simp_all add: IgetMethod_def)

lemma IgetVerifier_simps [simp]:
  "work_line IgetVerifier = Regs [kUndefined, kResolvedReference 2]"
  "work_insn_idx IgetVerifier = 0"
  "insn_flags IgetVerifier
     = [NoFlags\<lparr>IsBranchTarget := True, IsInTry := True, IsChanged := True\<rparr>,
        NoFlags\<lparr>IsOpcode := False, IsInTry := True\<rparr>, NoFlags, TargetFlags]"
  "reg_table IgetVerifier
     = [Some (Regs [kUndefined, kResolvedReference 2]), None, None,
        Some (Regs [kUndefined, kUndefined])]"
  "have_pending_hard_failure IgetVerifier = False"
  "have_pending_runtime_throw_failure IgetVerifier = False"
  "failures IgetVerifier = []"
  by (simp_all add: IgetVerifier_def)

lemma IgetInst_simps [simp]:
  "Opcode IgetInst = OTHER 0x52" "Flags IgetInst = {kContinue, kThrow}"
  "SizeInCodeUnits IgetInst = 2" "VRegA IgetInst = 0" "VRegB IgetInst = 1"
  by (simp_all add: IgetInst_def)

lemma TryMethod_simps [simp]:
  "InstructionAt (TryMethod inst) pc = (if pc = 0 then inst else InstructionAt PlainMethod pc)"
  "FindTryItem (TryMethod inst) pc = (if pc < 2 then Some [(Some 7, 3)] else None)"
  "ResolvesToThrowable (TryMethod inst) ti = False"
  "InsnsSizeInCodeUnits (TryMethod inst) = 4"
  "Insns (TryMethod inst) pc = 0"
  "IsAotMode (TryMethod inst) = False"
  "SdkAtLeastS_V2 (TryMethod inst) = True"
  by (simp_all add: TryMethod_def)

lemma MonitorExitMethod_simps [simp]:
  "InstructionAt MonitorExitMethod pc
     = (if pc = 0 then MonitorExitInst else InstructionAt PlainMethod pc)"
  "FindTryItem MonitorExitMethod pc = (if pc < 2 then Some [(Some 7, 3)] else None)"
  "ResolvesToThrowable MonitorExitMethod ti = False"
  "InsnsSizeInCodeUnits MonitorExitMethod = 4"
  "Insns MonitorExitMethod pc = 0"
  "IsAotMode MonitorExitMethod = False"
  "SdkAtLeastS_V2 MonitorExitMethod = True"
  by (simp_all add: MonitorExitMethod_def)

lemma TryVerifier_simps [simp]:
  "work_line (TryVerifier line) = line"
  "saved_line (TryVerifier line) = line"
  "work_insn_idx (TryVerifier line) = 0"
  "insn_flags (TryVerifier line)
     = [NoFlags\<lparr>IsBranchTarget := True, IsInTry := True, IsChanged := True\<rparr>,
        NoFlags\<lparr>IsInTry := True\<rparr>, NoFlags, TargetFlags]"
  "reg_table (TryVerifier line)
     = [Some line, None, None, Some (Regs [kUndefined, kUndefined])]"
  "have_pending_hard_failure (TryVerifier line) = False"
  "have_pending_runtime_throw_failure (TryVerifier line) = False"
  "failures (TryVerifier line) = []"
  by (simp_all add: TryVerifier_def)

lemma MonitorExitVerifier_eq: "MonitorExitVerifier = TryVerifier TwoMonitors"
  by (simp add: MonitorExitVerifier_def TryVerifier_def)

lemma Inst_simps [simp]:
  "Opcode MonitorExitInst = MONITOR_EXIT" "Flags MonitorExitInst = {kContinue, kThrow}"
  "SizeInCodeUnits MonitorExitInst = 1" "VRegA MonitorExitInst = 0"
  "Opcode MonitorEnterInst = MONITOR_ENTER" "Flags MonitorEnterInst = {kContinue, kThrow}"
  "SizeInCodeUnits MonitorEnterInst = 1" "VRegA MonitorEnterInst = 0"
  by (simp_all add: MonitorExitInst_def MonitorEnterInst_def)

lemma LoopMethod_simps [simp]:
  "Insns LoopMethod pc = (if pc = 0 then 0x0052 else if pc = 2 then 0x0038
                          else if pc = 3 then 0xFFFE else if pc = 4 then 0x000E else 0)"
  "InsnsSizeInCodeUnits LoopMethod = 5"
  "InstructionAt LoopMethod pc = (if pc = 0 then IgetInst else if pc = 2 then IfEqzInst
                                  else if pc = 4 then ReturnVoidInst
                                  else InstructionAt PlainMethod pc)"
  "FindTryItem LoopMethod pc = None"
  "IsInstanceConstructor LoopMethod = False"
  "GetMethodReturnType LoopMethod = RegTypeOf kConflict"
  "IsAotMode LoopMethod = False"
  "SdkAtLeastS_V2 LoopMethod = True"
  by (simp_all add: LoopMethod_def)

lemma IfEqzInst_simps [simp]:
  "Opcode IfEqzInst = OTHER 0x38" "Flags IfEqzInst = {kBranch, kContinue}"
  "SizeInCodeUnits IfEqzInst = 2" "VRegA IfEqzInst = 0"
  by (simp_all add: IfEqzInst_def)

lemma ReturnVoidInst_simps [simp]:
  "Opcode ReturnVoidInst = RETURN_VOID" "Flags ReturnVoidInst = {kReturn}"
  "SizeInCodeUnits ReturnVoidInst = 1" "VRegA ReturnVoidInst = 0"
  by (simp_all add: ReturnVoidInst_def)

subsection \<open>The scan for the next instruction to verify\<close>

lemma FindChanged_props:
  "sg \<le> N \<Longrightarrow> sg \<le> FindChanged fl N sg \<and> FindChanged fl N sg \<le> N \<and>
     (FindChanged fl N sg < N \<longrightarrow> IsChanged (fl ! FindChanged fl N sg)) \<and>
     (\<forall>j. sg \<le> j \<and> j < FindChanged fl N sg \<longrightarrow> \<not> IsChanged (fl ! j))"
proof (induction fl N sg rule: FindChanged.induct)
  case (1 fl N sg)
  show ?case
  proof (cases "sg < N \<and> \<not> IsChanged (fl ! sg)")
    case True
    then have eq: "FindChanged fl N sg = FindChanged fl N (sg + 1)"
      by (simp add: FindChanged.simps [of fl N sg])
    from True have "sg + 1 \<le> N" by simp
    from 1(1) this True have ih: "sg + 1 \<le> FindChanged fl N (sg + 1) \<and> FindChanged fl N (sg + 1) \<le> N \<and>
     (FindChanged fl N (sg + 1) < N \<longrightarrow> IsChanged (fl ! FindChanged fl N (sg + 1))) \<and>
     (\<forall>j. sg + 1 \<le> j \<and> j < FindChanged fl N (sg + 1) \<longrightarrow> \<not> IsChanged (fl ! j))" by simp
    have a: "sg \<le> FindChanged fl N (sg + 1)" using ih by simp
    have b: "\<forall>j. sg \<le> j \<and> j < FindChanged fl N (sg + 1) \<longrightarrow> \<not> IsChanged (fl ! j)"
    proof (intro allI impI)
      fix j assume j: "sg \<le> j \<and> j < FindChanged fl N (sg + 1)"
      show "\<not> IsChanged (fl ! j)"
      proof (cases "j = sg")
        case True then show ?thesis using \<open>sg < N \<and> \<not> IsChanged (fl ! sg)\<close> by simp
      next
        case False
        then have "sg + 1 \<le> j" using j by simp
        then show ?thesis using ih j by blast
      qed
    qed
    show ?thesis unfolding eq using ih a b by blast
  next
    case False
    then have eq: "FindChanged fl N sg = sg"
      by (simp add: FindChanged.simps [of fl N sg])
    have "\<not> sg < N \<or> IsChanged (fl ! sg)" using False by blast
    then show ?thesis unfolding eq using 1(2) by auto
  qed
qed

lemma FindChanged_least:
  assumes "sg \<le> i" "i < N" "IsChanged (fl ! i)" "\<forall>j. sg \<le> j \<and> j < i \<longrightarrow> \<not> IsChanged (fl ! j)"
  shows "FindChanged fl N sg = i"
proof -
  have sgN: "sg \<le> N" using assms by simp
  note p = FindChanged_props [OF sgN, of fl]
  have 1: "\<not> i < FindChanged fl N sg" using p assms(1,3) by blast
  have "FindChanged fl N sg < i \<Longrightarrow> False"
  proof -
    assume a: "FindChanged fl N sg < i"
    then have "FindChanged fl N sg < N" using assms(2) by simp
    then have "IsChanged (fl ! FindChanged fl N sg)" using p by blast
    moreover have "sg \<le> FindChanged fl N sg" using p by blast
    ultimately show False using assms(4) a by blast
  qed
  with 1 show ?thesis by (meson nat_neq_iff)
qed

lemma FindChanged_none:
  assumes "sg \<le> N" "\<forall>j. sg \<le> j \<and> j < N \<longrightarrow> \<not> IsChanged (fl ! j)"
  shows "FindChanged fl N sg = N"
proof -
  note p = FindChanged_props [OF assms(1), of fl]
  have "\<not> FindChanged fl N sg < N" using p assms(2) by blast
  then show ?thesis using p by simp
qed

lemma LoadWorkLine_simps:
  "work_insn_idx (LoadWorkLine i st) = i"
  "insn_flags (LoadWorkLine i st) = insn_flags st"
  "reg_table (LoadWorkLine i st) = reg_table st"
  "IsBranchTarget (insn_flags st ! i) \<Longrightarrow> reg_table st ! i = Some line \<Longrightarrow>
     work_line (LoadWorkLine i st) = line"
  "\<not> IsBranchTarget (insn_flags st ! i) \<Longrightarrow> work_line (LoadWorkLine i st) = work_line st"
  by (simp_all add: LoadWorkLine_def Let_def split: option.splits)


section \<open>Assignability\<close>

lemma AssignableFrom_equal: "Equals lhs rhs \<Longrightarrow> AssignableFrom T lhs rhs strict"
  by (simp add: AssignableFrom_def)

lemma RegTypeOf_simps [simp]:
  "GetId (RegTypeOf k) = KindId k"
  "GetKind (RegTypeOf k) = k"
  "HasClass (RegTypeOf k) = (KindClass k \<noteq> None)"
  "IsUnresolvedTypes (RegTypeOf k) = (case k of kUnresolvedReference d \<Rightarrow> True | _ \<Rightarrow> False)"
  "IsReferenceTypes (RegTypeOf k) = IsRefKind k"
  "IsNonZeroReferenceTypes (RegTypeOf k) = IsRefKind k"
  "IsJavaLangObjectArray (RegTypeOf k) = False"
  "IsJavaLangObject (RegTypeOf k) = (k = kResolvedReference 0)"
  "GetClass (RegTypeOf k) = (case KindClass k of Some c \<Rightarrow> c | None \<Rightarrow> 0)"
  by (simp_all add: RegTypeOf_def)

lemma PotentiallyMarkRuntimeThrow_hard [simp]:
  "have_pending_hard_failure (snd (PotentiallyMarkRuntimeThrow M st)) = have_pending_hard_failure st"
  by (simp add: PotentiallyMarkRuntimeThrow_def RecordFailure_def Let_def)

lemma PotentiallyMarkRuntimeThrow_failures:
  "Opcode (InstructionAt M (work_insn_idx st)) \<noteq> MOVE_EXCEPTION \<Longrightarrow>
   failures (snd (PotentiallyMarkRuntimeThrow M st)) = failures st"
  by (simp add: PotentiallyMarkRuntimeThrow_def RecordFailure_def Let_def)

lemma Fail_unresolved_type_check:
  assumes "Opcode (InstructionAt M (work_insn_idx st)) \<noteq> MOVE_EXCEPTION"
  shows "failures (Fail M VERIFY_ERROR_UNRESOLVED_TYPE_CHECK True st)
           = failures st @ [VERIFY_ERROR_UNRESOLVED_TYPE_CHECK]"
    and "have_pending_hard_failure (Fail M VERIFY_ERROR_UNRESOLVED_TYPE_CHECK True st)
           = have_pending_hard_failure st"
  using assms by (simp_all add: Fail_def Let_def PotentiallyMarkRuntimeThrow_failures)

lemma Fail_hard [simp]:
  "have_pending_hard_failure (Fail M VERIFY_ERROR_BAD_CLASS_HARD True st)"
  "failures (Fail M VERIFY_ERROR_BAD_CLASS_HARD True st) = failures st @ [VERIFY_ERROR_BAD_CLASS_HARD]"
  by (simp_all add: Fail_def Let_def)

text \<open>
  C8, as amended. \<open>AssignableFrom(expected, actual, strict)\<close> returns true exactly when the
  two types are the same cache entry, or the kind table says assignable, or, for two
  references, when the check is not strict and expected is a resolved interface, or
  expected is \<open>Object[]\<close> and actual an object array, or both have a class, actual is not
  \<open>java.lang.Object\<close> and expected's class is assignable from actual's. It returns false for
  a narrowing conversion and for two different references of which one has no class
  (is unresolved), unless one of the first two reference cases applies. For such an
  unresolved pair \<open>return-object\<close> records the soft failure
  \<open>VERIFY_ERROR_UNRESOLVED_TYPE_CHECK\<close> and no hard failure.
\<close>

theorem AssignableFrom_characterised:
  fixes T :: "('k, 'c) RegTypeOps" and L :: "('l, 'k, 'c) RegisterLineOps"
  shows
  "(AssignableFrom T lhs rhs strict \<longleftrightarrow>
      Equals lhs rhs
      \<or> AssignabilityFrom T (GetKind lhs) (GetKind rhs) = kAssignable
      \<or> ((AssignabilityFrom T (GetKind lhs) (GetKind rhs) = kReference
           \<or> AssignabilityFrom T (GetKind lhs) (GetKind rhs) = kInvalid)
          \<and> ((\<not> strict \<and> \<not> IsUnresolvedTypes lhs \<and> IsInterface T (GetClass lhs))
              \<or> (IsJavaLangObjectArray lhs \<and> IsObjectArrayTypes rhs)
              \<or> (\<not> IsJavaLangObjectArray lhs \<and> HasClass lhs \<and> HasClass rhs
                  \<and> \<not> IsJavaLangObject rhs
                  \<and> ClassIsAssignableFrom T (GetClass lhs) (GetClass rhs)))))
   \<and> (\<not> Equals lhs rhs
        \<and> AssignabilityFrom T (GetKind lhs) (GetKind rhs) = kReference
        \<and> (\<not> HasClass lhs \<or> \<not> HasClass rhs)
        \<and> (strict \<or> IsUnresolvedTypes lhs \<or> \<not> IsInterface T (GetClass lhs))
        \<and> \<not> IsJavaLangObjectArray lhs
      \<longrightarrow> \<not> AssignableFrom T lhs rhs strict)
   \<and> (Opcode (InstructionAt M (work_insn_idx st)) = RETURN_OBJECT
        \<and> \<not> IsInstanceConstructor M
        \<and> IsReferenceTypes (GetMethodReturnType M)
        \<and> \<not> IsUndefined (GetRegisterType L (work_line st) (VRegA inst))
        \<and> \<not> IsConflict (GetRegisterType L (work_line st) (VRegA inst))
        \<and> \<not> IsUninitializedTypes (GetRegisterType L (work_line st) (VRegA inst))
        \<and> IsReferenceTypes (GetRegisterType L (work_line st) (VRegA inst))
        \<and> \<not> IsAssignableFrom T (GetMethodReturnType M)
                (GetRegisterType L (work_line st) (VRegA inst))
        \<and> (IsUnresolvedTypes (GetRegisterType L (work_line st) (VRegA inst))
            \<or> IsUnresolvedTypes (GetMethodReturnType M))
      \<longrightarrow> failures (Transfer_RETURN_OBJECT T L M inst st)
             = failures st @ [VERIFY_ERROR_UNRESOLVED_TYPE_CHECK]
          \<and> have_pending_hard_failure (Transfer_RETURN_OBJECT T L M inst st)
             = have_pending_hard_failure st)"
proof (intro conjI impI)
  show "AssignableFrom T lhs rhs strict \<longleftrightarrow>
      Equals lhs rhs
      \<or> AssignabilityFrom T (GetKind lhs) (GetKind rhs) = kAssignable
      \<or> ((AssignabilityFrom T (GetKind lhs) (GetKind rhs) = kReference
           \<or> AssignabilityFrom T (GetKind lhs) (GetKind rhs) = kInvalid)
          \<and> ((\<not> strict \<and> \<not> IsUnresolvedTypes lhs \<and> IsInterface T (GetClass lhs))
              \<or> (IsJavaLangObjectArray lhs \<and> IsObjectArrayTypes rhs)
              \<or> (\<not> IsJavaLangObjectArray lhs \<and> HasClass lhs \<and> HasClass rhs
                  \<and> \<not> IsJavaLangObject rhs
                  \<and> ClassIsAssignableFrom T (GetClass lhs) (GetClass rhs))))"
    by (cases "AssignabilityFrom T (GetKind lhs) (GetKind rhs)")
       (auto simp: AssignableFrom_def)
next
  assume "\<not> Equals lhs rhs
        \<and> AssignabilityFrom T (GetKind lhs) (GetKind rhs) = kReference
        \<and> (\<not> HasClass lhs \<or> \<not> HasClass rhs)
        \<and> (strict \<or> IsUnresolvedTypes lhs \<or> \<not> IsInterface T (GetClass lhs))
        \<and> \<not> IsJavaLangObjectArray lhs"
  then show "\<not> AssignableFrom T lhs rhs strict"
    by (auto simp: AssignableFrom_def)
next
  assume a: "Opcode (InstructionAt M (work_insn_idx st)) = RETURN_OBJECT
        \<and> \<not> IsInstanceConstructor M
        \<and> IsReferenceTypes (GetMethodReturnType M)
        \<and> \<not> IsUndefined (GetRegisterType L (work_line st) (VRegA inst))
        \<and> \<not> IsConflict (GetRegisterType L (work_line st) (VRegA inst))
        \<and> \<not> IsUninitializedTypes (GetRegisterType L (work_line st) (VRegA inst))
        \<and> IsReferenceTypes (GetRegisterType L (work_line st) (VRegA inst))
        \<and> \<not> IsAssignableFrom T (GetMethodReturnType M)
                (GetRegisterType L (work_line st) (VRegA inst))
        \<and> (IsUnresolvedTypes (GetRegisterType L (work_line st) (VRegA inst))
            \<or> IsUnresolvedTypes (GetMethodReturnType M))"
  then have eq: "Transfer_RETURN_OBJECT T L M inst st
                   = Fail M VERIFY_ERROR_UNRESOLVED_TYPE_CHECK True st"
    by (auto simp: Transfer_RETURN_OBJECT_def ConstructorReturnOk_def Let_def)
  from a have ne: "Opcode (InstructionAt M (work_insn_idx st)) \<noteq> MOVE_EXCEPTION"
    by simp
  show "failures (Transfer_RETURN_OBJECT T L M inst st)
          = failures st @ [VERIFY_ERROR_UNRESOLVED_TYPE_CHECK]"
    by (simp add: eq Fail_unresolved_type_check(1)[OF ne])
  show "have_pending_hard_failure (Transfer_RETURN_OBJECT T L M inst st)
          = have_pending_hard_failure st"
    by (simp add: eq Fail_unresolved_type_check(2)[OF ne])
qed

theorem AssignableFrom_characterised_witness:
  "\<not> AssignableFrom SmallTypeOps (RegTypeOf (kUnresolvedReference 0))
       (RegTypeOf (kResolvedReference 2)) False
   \<and> failures (Transfer_RETURN_OBJECT SmallTypeOps SmallLineOps ReturnObjectMethod
                ReturnObjectInst ReturnObjectVerifier)
       = [VERIFY_ERROR_UNRESOLVED_TYPE_CHECK]
   \<and> \<not> have_pending_hard_failure
         (Transfer_RETURN_OBJECT SmallTypeOps SmallLineOps ReturnObjectMethod
            ReturnObjectInst ReturnObjectVerifier)"
proof -
  let ?lhs = "RegTypeOf (kUnresolvedReference 0)"
  let ?rhs = "RegTypeOf (kResolvedReference 2)"
  note t = AssignableFrom_characterised [of SmallTypeOps ?lhs ?rhs False ReturnObjectMethod
             ReturnObjectVerifier SmallLineOps ReturnObjectInst]
  have h1: "\<not> Equals ?lhs ?rhs
        \<and> AssignabilityFrom SmallTypeOps (GetKind ?lhs) (GetKind ?rhs) = kReference
        \<and> (\<not> HasClass ?lhs \<or> \<not> HasClass ?rhs)
        \<and> (False \<or> IsUnresolvedTypes ?lhs \<or> \<not> IsInterface SmallTypeOps (GetClass ?lhs))
        \<and> \<not> IsJavaLangObjectArray ?lhs"
    by (simp add: Equals_def KindAssignability_def)
  have c1: "\<not> AssignableFrom SmallTypeOps ?lhs ?rhs False"
    using t h1 by blast
  have h2: "Opcode (InstructionAt ReturnObjectMethod (work_insn_idx ReturnObjectVerifier))
              = RETURN_OBJECT
        \<and> \<not> IsInstanceConstructor ReturnObjectMethod
        \<and> IsReferenceTypes (GetMethodReturnType ReturnObjectMethod)
        \<and> \<not> IsUndefined (GetRegisterType SmallLineOps (work_line ReturnObjectVerifier)
                            (VRegA ReturnObjectInst))
        \<and> \<not> IsConflict (GetRegisterType SmallLineOps (work_line ReturnObjectVerifier)
                            (VRegA ReturnObjectInst))
        \<and> \<not> IsUninitializedTypes (GetRegisterType SmallLineOps (work_line ReturnObjectVerifier)
                            (VRegA ReturnObjectInst))
        \<and> IsReferenceTypes (GetRegisterType SmallLineOps (work_line ReturnObjectVerifier)
                            (VRegA ReturnObjectInst))
        \<and> \<not> IsAssignableFrom SmallTypeOps (GetMethodReturnType ReturnObjectMethod)
                (GetRegisterType SmallLineOps (work_line ReturnObjectVerifier)
                   (VRegA ReturnObjectInst))
        \<and> (IsUnresolvedTypes (GetRegisterType SmallLineOps (work_line ReturnObjectVerifier)
                                (VRegA ReturnObjectInst))
            \<or> IsUnresolvedTypes (GetMethodReturnType ReturnObjectMethod))"
    using c1
    by (simp add: ReturnObjectMethod_def ReturnObjectVerifier_def ReturnObjectInst_def
          PlainMethod_def InitialVerifier_def IsAssignableFrom_def RegTypeOf_def)
  have c2: "failures (Transfer_RETURN_OBJECT SmallTypeOps SmallLineOps ReturnObjectMethod
                ReturnObjectInst ReturnObjectVerifier)
              = failures ReturnObjectVerifier @ [VERIFY_ERROR_UNRESOLVED_TYPE_CHECK]
          \<and> have_pending_hard_failure
                (Transfer_RETURN_OBJECT SmallTypeOps SmallLineOps ReturnObjectMethod
                   ReturnObjectInst ReturnObjectVerifier)
              = have_pending_hard_failure ReturnObjectVerifier"
    using t h2 by blast
  show ?thesis
    using c1 c2 by (simp add: ReturnObjectVerifier_def InitialVerifier_def)
qed

text \<open>
  C8 as stated fails: with expected an unresolved reference and actual a reference to a
  resolved class, \<open>AssignableFrom\<close> returns false.
\<close>

theorem AssignableFrom_unresolved_counterexample:
  "IsUnresolvedTypes (RegTypeOf (kUnresolvedReference 0))
   \<and> AssignabilityFrom SmallTypeOps (GetKind (RegTypeOf (kUnresolvedReference 0)))
       (GetKind (RegTypeOf (kResolvedReference 2))) = kReference
   \<and> AssignableFrom SmallTypeOps (RegTypeOf (kUnresolvedReference 0))
       (RegTypeOf (kResolvedReference 2)) False = False"
  by (simp add: AssignableFrom_def Equals_def KindAssignability_def)

section \<open>The return instruction\<close>

lemma VerifyRegisterType_same:
  assumes "check_type = GetRegisterType L (work_line st) vsrc" and "\<not> IsLowHalf check_type"
  shows "VerifyRegisterType T L M vsrc check_type st = (True, st)"
  using assms
  by (simp add: VerifyRegisterType_def IsAssignableFrom_def AssignableFrom_def Equals_def)

lemma VerifyRegisterType_primitive_mismatch:
  assumes "src = GetRegisterType L (work_line st) vsrc"
    and "\<not> Equals check_type src"
    and "AssignabilityFrom T (GetKind check_type) (GetKind src) = kNotAssignable
         \<or> AssignabilityFrom T (GetKind check_type) (GetKind src) = kNarrowingConversion"
    and "\<not> IsNonZeroReferenceTypes check_type \<or> \<not> IsNonZeroReferenceTypes src"
  shows "VerifyRegisterType T L M vsrc check_type st
           = (False, Fail M VERIFY_ERROR_BAD_CLASS_HARD True st)"
  using assms
  by (auto simp: VerifyRegisterType_def IsAssignableFrom_def AssignableFrom_def Let_def)

lemma VerifyRegisterType_accepts:
  assumes "src = GetRegisterType L (work_line st) vsrc"
    and "Equals check_type src
         \<or> AssignabilityFrom T (GetKind check_type) (GetKind src) = kAssignable"
    and "\<not> IsLowHalf check_type"
  shows "VerifyRegisterType T L M vsrc check_type st = (True, st)"
  using assms
  by (auto simp: VerifyRegisterType_def IsAssignableFrom_def AssignableFrom_def Let_def)

lemma Transfer_RETURN_general:
  assumes "\<not> IsInstanceConstructor M" and "IsCategory1Types (GetMethodReturnType M)"
    and "\<not> IsByte (GetRegisterType L (work_line st) (VRegA inst))"
    and "\<not> IsInteger (GetRegisterType L (work_line st) (VRegA inst))"
  shows "Transfer_RETURN T L M inst st
           = snd (VerifyRegisterType T L M (VRegA inst) (GetMethodReturnType M) st)"
  using assms by (auto simp: Transfer_RETURN_def ConstructorReturnOk_def Let_def)

text \<open>
  C5, as amended. For \<open>return vAA\<close> in a method whose declared return type is of category 1
  (and that is not an instance constructor):

  \<^item> a source register for which \<open>IsByte()\<close> holds (the type Byte) is accepted when the
    declared type is boolean, and one for which \<open>IsInteger()\<close> holds (the type Integer) is
    accepted when the declared type is boolean, byte, short or char; the instruction
    then leaves the verifier as it was, with no failure;
  \<^item> every other source, a constant among them, is checked against the declared type by
    the general rule: it is accepted when it is the declared type or the assignability
    table has its kind assignable to the declared kind;
  \<^item> and when the table refuses its kind for the declared kind (not assignable, or a
    narrowing conversion) and it is not a reference, the instruction is a hard failure.
    That is the case of the low half of a long constant, and of a byte constant against
    boolean wherever the table has that as a narrowing conversion.
\<close>

theorem return_narrowing_tolerance:
  fixes T :: "('k, 'c) RegTypeOps" and L :: "('l, 'k, 'c) RegisterLineOps"
  shows
  "(\<not> IsInstanceConstructor M \<and> IsCategory1Types (GetMethodReturnType M)
      \<and> \<not> IsLowHalf (GetRegisterType L (work_line st) (VRegA inst))
      \<and> ((IsBoolean (GetMethodReturnType M)
            \<and> IsByte (GetRegisterType L (work_line st) (VRegA inst)))
          \<or> ((IsBoolean (GetMethodReturnType M) \<or> IsByte (GetMethodReturnType M)
               \<or> IsShort (GetMethodReturnType M) \<or> IsChar (GetMethodReturnType M))
              \<and> IsInteger (GetRegisterType L (work_line st) (VRegA inst))))
    \<longrightarrow> Transfer_RETURN T L M inst st = st)
   \<and> (\<not> IsInstanceConstructor M \<and> IsCategory1Types (GetMethodReturnType M)
      \<and> \<not> IsLowHalf (GetMethodReturnType M)
      \<and> \<not> IsByte (GetRegisterType L (work_line st) (VRegA inst))
      \<and> \<not> IsInteger (GetRegisterType L (work_line st) (VRegA inst))
      \<and> (Equals (GetMethodReturnType M) (GetRegisterType L (work_line st) (VRegA inst))
          \<or> AssignabilityFrom T (GetKind (GetMethodReturnType M))
               (GetKind (GetRegisterType L (work_line st) (VRegA inst))) = kAssignable)
    \<longrightarrow> Transfer_RETURN T L M inst st = st)
   \<and> (\<not> IsInstanceConstructor M \<and> IsCategory1Types (GetMethodReturnType M)
      \<and> \<not> IsByte (GetRegisterType L (work_line st) (VRegA inst))
      \<and> \<not> IsInteger (GetRegisterType L (work_line st) (VRegA inst))
      \<and> \<not> Equals (GetMethodReturnType M) (GetRegisterType L (work_line st) (VRegA inst))
      \<and> (AssignabilityFrom T (GetKind (GetMethodReturnType M))
            (GetKind (GetRegisterType L (work_line st) (VRegA inst))) = kNotAssignable
          \<or> AssignabilityFrom T (GetKind (GetMethodReturnType M))
            (GetKind (GetRegisterType L (work_line st) (VRegA inst))) = kNarrowingConversion)
      \<and> \<not> IsNonZeroReferenceTypes (GetRegisterType L (work_line st) (VRegA inst))
    \<longrightarrow> have_pending_hard_failure (Transfer_RETURN T L M inst st)
        \<and> failures (Transfer_RETURN T L M inst st)
            = failures st @ [VERIFY_ERROR_BAD_CLASS_HARD])"
proof (intro conjI impI)
  let ?ret = "GetMethodReturnType M"
  let ?src = "GetRegisterType L (work_line st) (VRegA inst)"
  assume a: "\<not> IsInstanceConstructor M \<and> IsCategory1Types ?ret \<and> \<not> IsLowHalf ?src
      \<and> ((IsBoolean ?ret \<and> IsByte ?src)
          \<or> ((IsBoolean ?ret \<or> IsByte ?ret \<or> IsShort ?ret \<or> IsChar ?ret) \<and> IsInteger ?src))"
  then have "Transfer_RETURN T L M inst st
               = snd (VerifyRegisterType T L M (VRegA inst) ?src st)"
    by (auto simp: Transfer_RETURN_def ConstructorReturnOk_def Let_def)
  also have "\<dots> = st"
    using a by (simp add: VerifyRegisterType_same)
  finally show "Transfer_RETURN T L M inst st = st" .
next
  let ?ret = "GetMethodReturnType M"
  let ?src = "GetRegisterType L (work_line st) (VRegA inst)"
  assume a: "\<not> IsInstanceConstructor M \<and> IsCategory1Types ?ret \<and> \<not> IsLowHalf ?ret
      \<and> \<not> IsByte ?src \<and> \<not> IsInteger ?src
      \<and> (Equals ?ret ?src \<or> AssignabilityFrom T (GetKind ?ret) (GetKind ?src) = kAssignable)"
  then have "Transfer_RETURN T L M inst st
               = snd (VerifyRegisterType T L M (VRegA inst) ?ret st)"
    by (simp add: Transfer_RETURN_general)
  also have "\<dots> = st"
    using a by (subst VerifyRegisterType_accepts [where src = ?src]) auto
  finally show "Transfer_RETURN T L M inst st = st" .
next
  let ?ret = "GetMethodReturnType M"
  let ?src = "GetRegisterType L (work_line st) (VRegA inst)"
  assume a: "\<not> IsInstanceConstructor M \<and> IsCategory1Types ?ret
      \<and> \<not> IsByte ?src \<and> \<not> IsInteger ?src \<and> \<not> Equals ?ret ?src
      \<and> (AssignabilityFrom T (GetKind ?ret) (GetKind ?src) = kNotAssignable
          \<or> AssignabilityFrom T (GetKind ?ret) (GetKind ?src) = kNarrowingConversion)
      \<and> \<not> IsNonZeroReferenceTypes ?src"
  then have "Transfer_RETURN T L M inst st
               = snd (VerifyRegisterType T L M (VRegA inst) ?ret st)"
    by (simp add: Transfer_RETURN_general)
  also have "\<dots> = Fail M VERIFY_ERROR_BAD_CLASS_HARD True st"
    using a by (subst VerifyRegisterType_primitive_mismatch [where src = ?src]) auto
  finally have eq: "Transfer_RETURN T L M inst st = Fail M VERIFY_ERROR_BAD_CLASS_HARD True st" .
  show "have_pending_hard_failure (Transfer_RETURN T L M inst st)"
    by (simp add: eq)
  show "failures (Transfer_RETURN T L M inst st) = failures st @ [VERIFY_ERROR_BAD_CLASS_HARD]"
    by (simp add: eq)
qed

lemma ReturnVerifier_simps [simp]:
  "work_line (ReturnVerifier k) = \<lparr>regs = [k], monitors = [], result = kUndefined\<rparr>"
  "failures (ReturnVerifier k) = []"
  "have_pending_hard_failure (ReturnVerifier k) = False"
  by (simp_all add: ReturnVerifier_def InitialVerifier_def)

lemma ReturnBooleanMethod_simps [simp]:
  "IsInstanceConstructor ReturnBooleanMethod = False"
  "GetMethodReturnType ReturnBooleanMethod = RegTypeOf kBoolean"
  "IsInstanceConstructor ReturnByteMethod = False"
  "GetMethodReturnType ReturnByteMethod = RegTypeOf kByte"
  by (simp_all add: ReturnByteMethod_def ReturnBooleanMethod_def PlainMethod_def)

text \<open>
  \<open>return v0\<close> with \<open>v0\<close> of type Byte in a method returning boolean, and with \<open>v0\<close> a
  positive byte constant in a method returning byte, leave the verifier without a
  failure; with \<open>v0\<close> the low half of a long constant in a method returning boolean the
  instruction is a hard failure.
\<close>

theorem return_narrowing_tolerance_witness:
  "Transfer_RETURN SmallTypeOps SmallLineOps ReturnBooleanMethod ReturnInst (ReturnVerifier kByte)
     = ReturnVerifier kByte
   \<and> failures (ReturnVerifier kByte) = []
   \<and> Transfer_RETURN SmallTypeOps SmallLineOps ReturnByteMethod ReturnInst
       (ReturnVerifier kPositiveByteConstant)
     = ReturnVerifier kPositiveByteConstant
   \<and> have_pending_hard_failure
       (Transfer_RETURN SmallTypeOps SmallLineOps ReturnBooleanMethod ReturnInst
          (ReturnVerifier kConstantLo))
   \<and> failures (Transfer_RETURN SmallTypeOps SmallLineOps ReturnBooleanMethod ReturnInst
                 (ReturnVerifier kConstantLo)) = [VERIFY_ERROR_BAD_CLASS_HARD]"
proof -
  note t1 = return_narrowing_tolerance [of ReturnBooleanMethod SmallLineOps
              "ReturnVerifier kByte" ReturnInst SmallTypeOps]
  note t2 = return_narrowing_tolerance [of ReturnBooleanMethod SmallLineOps
              "ReturnVerifier kConstantLo" ReturnInst SmallTypeOps]
  note t3 = return_narrowing_tolerance [of ReturnByteMethod SmallLineOps
              "ReturnVerifier kPositiveByteConstant" ReturnInst SmallTypeOps]
  let ?ret = "GetMethodReturnType ReturnBooleanMethod"
  let ?rby = "GetMethodReturnType ReturnByteMethod"
  let ?b = "GetRegisterType SmallLineOps (work_line (ReturnVerifier kByte)) (VRegA ReturnInst)"
  let ?c = "GetRegisterType SmallLineOps (work_line (ReturnVerifier kConstantLo))
              (VRegA ReturnInst)"
  let ?p = "GetRegisterType SmallLineOps (work_line (ReturnVerifier kPositiveByteConstant))
              (VRegA ReturnInst)"
  have h1: "\<not> IsInstanceConstructor ReturnBooleanMethod \<and> IsCategory1Types ?ret
      \<and> \<not> IsLowHalf ?b
      \<and> ((IsBoolean ?ret \<and> IsByte ?b)
          \<or> ((IsBoolean ?ret \<or> IsByte ?ret \<or> IsShort ?ret \<or> IsChar ?ret) \<and> IsInteger ?b))"
    by (simp add: ReturnInst_def RegTypeOf_def)
  have h2: "\<not> IsInstanceConstructor ReturnBooleanMethod \<and> IsCategory1Types ?ret
      \<and> \<not> IsByte ?c \<and> \<not> IsInteger ?c \<and> \<not> Equals ?ret ?c
      \<and> (AssignabilityFrom SmallTypeOps (GetKind ?ret) (GetKind ?c) = kNotAssignable
          \<or> AssignabilityFrom SmallTypeOps (GetKind ?ret) (GetKind ?c) = kNarrowingConversion)
      \<and> \<not> IsNonZeroReferenceTypes ?c"
    by (simp add: ReturnInst_def RegTypeOf_def Equals_def KindAssignability_def)
  have h3: "\<not> IsInstanceConstructor ReturnByteMethod \<and> IsCategory1Types ?rby
      \<and> \<not> IsLowHalf ?rby \<and> \<not> IsByte ?p \<and> \<not> IsInteger ?p
      \<and> (Equals ?rby ?p
          \<or> AssignabilityFrom SmallTypeOps (GetKind ?rby) (GetKind ?p) = kAssignable)"
    by (simp add: ReturnInst_def RegTypeOf_def Equals_def KindAssignability_def)
  have c1: "Transfer_RETURN SmallTypeOps SmallLineOps ReturnBooleanMethod ReturnInst
              (ReturnVerifier kByte) = ReturnVerifier kByte"
    using t1 h1 by blast
  have c2: "have_pending_hard_failure
              (Transfer_RETURN SmallTypeOps SmallLineOps ReturnBooleanMethod ReturnInst
                 (ReturnVerifier kConstantLo))
          \<and> failures (Transfer_RETURN SmallTypeOps SmallLineOps ReturnBooleanMethod ReturnInst
                 (ReturnVerifier kConstantLo))
              = failures (ReturnVerifier kConstantLo) @ [VERIFY_ERROR_BAD_CLASS_HARD]"
    using t2 h2 by blast
  have c3: "Transfer_RETURN SmallTypeOps SmallLineOps ReturnByteMethod ReturnInst
              (ReturnVerifier kPositiveByteConstant) = ReturnVerifier kPositiveByteConstant"
    using t3 h3 by blast
  show ?thesis using c1 c2 c3 by simp
qed

text \<open>
  C5 as stated fails for the byte constant: \<open>return v0\<close> in a method returning boolean,
  with \<open>v0\<close> holding a positive byte constant (what \<open>const/4 v0, 5\<close> leaves in it), is
  a hard failure and \<open>CodeFlowVerifyInstruction\<close> returns false. The constant is not of
  the type Byte, so the tolerance does not apply, and boolean from a byte constant is
  a narrowing conversion.
\<close>

theorem return_byte_constant_counterexample:
  "have_pending_hard_failure
     (Transfer_RETURN SmallTypeOps SmallLineOps ReturnBooleanMethod ReturnInst
        (ReturnVerifier kPositiveByteConstant))
   \<and> failures (Transfer_RETURN SmallTypeOps SmallLineOps ReturnBooleanMethod ReturnInst
                 (ReturnVerifier kPositiveByteConstant)) = [VERIFY_ERROR_BAD_CLASS_HARD]
   \<and> \<not> fst (CodeFlowVerifyInstruction SmallTypeOps SmallLineOps ReturnBooleanMethod 0
               (ReturnVerifier kPositiveByteConstant))"
  by (simp add: CodeFlowVerifyInstruction_def BeforeThrowEdges_def SaveWorkLine_def Dispatch_def
        AfterSwitch_def Transfer_RETURN_def ConstructorReturnOk_def VerifyRegisterType_def
        IsAssignableFrom_def AssignableFrom_def Equals_def KindAssignability_def Let_def
        ReturnInst_def RegTypeOf_def ReturnVerifier_def InitialVerifier_def
        ReturnBooleanMethod_def PlainMethod_def Fail_def NoFlags_def)

section \<open>UpdateRegisters\<close>

lemma AdjustReturnLine_line:
  "Opcode ret = RETURN_VOID \<Longrightarrow>
     fst (AdjustReturnLine L M ret line st) = MarkAllRegistersAsConflicts L line"
  "Opcode ret = RETURN \<or> Opcode ret = RETURN_OBJECT \<Longrightarrow>
     fst (AdjustReturnLine L M ret line st) = MarkAllRegistersAsConflictsExcept L line (VRegA ret)"
  "Opcode ret = RETURN_WIDE \<Longrightarrow>
     fst (AdjustReturnLine L M ret line st)
       = MarkAllRegistersAsConflictsExceptWide L line (VRegA ret)"
  by (auto simp: AdjustReturnLine_def Let_def)

lemma UpdateRegisters_first_visit:
  assumes "next_insn < length (insn_flags st)" "next_insn < length (reg_table st)"
    and "reg_table st ! next_insn = Some target_line"
    and "\<not> IsVisitedOrChanged (insn_flags st ! next_insn)"
    and "\<not> IsReturn (insn_flags st ! next_insn)"
    and "UpdateRegisters L M next_insn merge_line update_merge_line st = (ok, ml, st')"
  shows "ok \<and> ml = merge_line \<and> reg_table st' ! next_insn = Some merge_line
         \<and> IsChanged (insn_flags st' ! next_insn) \<and> failures st' = failures st"
  using assms by (auto simp: UpdateRegisters_def SetChanged_def)

lemma UpdateRegisters_first_visit_return:
  assumes "next_insn < length (insn_flags st)" "next_insn < length (reg_table st)"
    and "reg_table st ! next_insn = Some target_line"
    and "\<not> IsVisitedOrChanged (insn_flags st ! next_insn)"
    and "IsReturn (insn_flags st ! next_insn)"
    and "UpdateRegisters L M next_insn merge_line update_merge_line st = (ok, ml, st')"
  shows "reg_table st' ! next_insn
           = Some (fst (AdjustReturnLine L M (InstructionAt M next_insn) merge_line
                          (Raise M (VerifyMonitorStackEmpty L merge_line) st)))
         \<and> failures st'
           = failures (snd (AdjustReturnLine L M (InstructionAt M next_insn) merge_line
                              (Raise M (VerifyMonitorStackEmpty L merge_line) st)))
         \<and> (ok \<longleftrightarrow> \<not> have_pending_hard_failure st')
         \<and> (ok \<longrightarrow> IsChanged (insn_flags st' ! next_insn))
         \<and> (\<not> ok \<longrightarrow> insn_flags st' = insn_flags st)"
  using assms
  by (auto simp: UpdateRegisters_def Let_def split_def SetChanged_def split: if_splits)

lemma UpdateRegisters_merge:
  assumes "next_insn < length (insn_flags st)" "next_insn < length (reg_table st)"
    and "reg_table st ! next_insn = Some target_line"
    and "IsVisitedOrChanged (insn_flags st ! next_insn)"
    and "UpdateRegisters L M next_insn merge_line update_merge_line st = (ok, ml, st')"
  shows "reg_table st' ! next_insn = Some (fst (snd (MergeRegisters L target_line merge_line)))
         \<and> failures st' = failures (Raise M (fst (MergeRegisters L target_line merge_line)) st)
         \<and> (ok \<longleftrightarrow> \<not> have_pending_hard_failure st')
         \<and> (ok \<longrightarrow> (IsChanged (insn_flags st' ! next_insn)
                      \<longleftrightarrow> IsChanged (insn_flags st ! next_insn)
                          \<or> snd (snd (MergeRegisters L target_line merge_line))))
         \<and> (ok \<longrightarrow> ml = (if update_merge_line \<and> snd (snd (MergeRegisters L target_line merge_line))
                          then fst (snd (MergeRegisters L target_line merge_line))
                          else merge_line))"
  using assms
  by (auto simp: UpdateRegisters_def Let_def split_def SetChanged_def split: if_splits)

text \<open>
  C10, as amended. For \<open>UpdateRegisters(next_insn, merge_line, update_merge_line)\<close> on a
  pc that has a saved-line slot:
  \<^item> if the pc has never been visited or marked changed and is not a return, the saved
    line becomes the incoming line and the pc is marked changed;
  \<^item> if it has never been visited or marked changed and is a return, the monitor stack
    of the incoming line is verified empty and the saved line becomes the incoming line
    as \<open>AdjustReturnLine\<close> adjusts it (all registers Conflict for \<open>return-void\<close>, all but
    the returned operand for \<open>return\<close> and \<open>return-object\<close>, all but the returned pair
    for \<open>return-wide\<close>); the update succeeds exactly when no hard failure is pending
    afterwards, the pc is marked changed when it succeeds, and is left unmarked when it
    fails;
  \<^item> otherwise the incoming line is merged into the saved line, with no check of the
    monitor stack by \<open>UpdateRegisters\<close> and no adjustment; the update succeeds exactly
    when no hard failure is pending, and then the pc is marked changed only if the merge
    reported a change.
\<close>

theorem UpdateRegisters_behaviour:
  assumes "next_insn < length (insn_flags st)" "next_insn < length (reg_table st)"
    and "reg_table st ! next_insn = Some target_line"
    and "UpdateRegisters L M next_insn merge_line update_merge_line st = (ok, ml, st')"
  shows
    "(\<not> IsVisitedOrChanged (insn_flags st ! next_insn) \<and> \<not> IsReturn (insn_flags st ! next_insn)
        \<longrightarrow> ok \<and> reg_table st' ! next_insn = Some merge_line
            \<and> IsChanged (insn_flags st' ! next_insn) \<and> failures st' = failures st)
     \<and> (\<not> IsVisitedOrChanged (insn_flags st ! next_insn) \<and> IsReturn (insn_flags st ! next_insn)
        \<longrightarrow> reg_table st' ! next_insn
              = Some (fst (AdjustReturnLine L M (InstructionAt M next_insn) merge_line
                             (Raise M (VerifyMonitorStackEmpty L merge_line) st)))
            \<and> failures st'
              = failures (snd (AdjustReturnLine L M (InstructionAt M next_insn) merge_line
                                 (Raise M (VerifyMonitorStackEmpty L merge_line) st)))
            \<and> (ok \<longleftrightarrow> \<not> have_pending_hard_failure st')
            \<and> (ok \<longrightarrow> IsChanged (insn_flags st' ! next_insn))
            \<and> (\<not> ok \<longrightarrow> insn_flags st' = insn_flags st))
     \<and> (IsVisitedOrChanged (insn_flags st ! next_insn)
        \<longrightarrow> reg_table st' ! next_insn
              = Some (fst (snd (MergeRegisters L target_line merge_line)))
            \<and> failures st'
              = failures (Raise M (fst (MergeRegisters L target_line merge_line)) st)
            \<and> (ok \<longleftrightarrow> \<not> have_pending_hard_failure st')
            \<and> (ok \<longrightarrow> (IsChanged (insn_flags st' ! next_insn)
                         \<longleftrightarrow> IsChanged (insn_flags st ! next_insn)
                             \<or> snd (snd (MergeRegisters L target_line merge_line)))))
     \<and> (Opcode ret = RETURN_VOID
        \<longrightarrow> fst (AdjustReturnLine L M ret line s) = MarkAllRegistersAsConflicts L line)
     \<and> (Opcode ret = RETURN \<or> Opcode ret = RETURN_OBJECT
        \<longrightarrow> fst (AdjustReturnLine L M ret line s)
              = MarkAllRegistersAsConflictsExcept L line (VRegA ret))
     \<and> (Opcode ret = RETURN_WIDE
        \<longrightarrow> fst (AdjustReturnLine L M ret line s)
              = MarkAllRegistersAsConflictsExceptWide L line (VRegA ret))"
  using UpdateRegisters_first_visit [OF assms(1-3) _ _ assms(4)]
        UpdateRegisters_first_visit_return [OF assms(1-3) _ _ assms(4)]
        UpdateRegisters_merge [OF assms(1-3) _ assms(4)]
        AdjustReturnLine_line [of ret L M line s]
  by blast

lemma UpdateRegisters_example_return:
  "UpdateRegisters SmallLineOps (ReturnAtOneMethod ReturnInst False) 1
     (Regs [kInteger, kBoolean]) False
     (SlotVerifier (TargetFlags\<lparr>IsReturn := True\<rparr>) (Regs [kUndefined, kUndefined]))
   = (True, Regs [kInteger, kBoolean],
      (SlotVerifier (TargetFlags\<lparr>IsReturn := True\<rparr>) (Regs [kUndefined, kUndefined]))
        \<lparr>reg_table := [None, Some (Regs [kInteger, kConflict])],
         insn_flags := [NoFlags, TargetFlags\<lparr>IsReturn := True, IsChanged := True\<rparr>]\<rparr>)"
  by (simp add: UpdateRegisters_def AdjustReturnLine_def ReturnInst_def Regs_def Let_def
        SetChanged_def)

lemma UpdateRegisters_example_merge:
  "UpdateRegisters SmallLineOps (ReturnAtOneMethod ReturnInst False) 1
     (Regs [kInteger, kBoolean]) False
     (SlotVerifier (TargetFlags\<lparr>IsVisited := True\<rparr>) (Regs [kInteger, kInteger]))
   = (True, Regs [kInteger, kBoolean],
      (SlotVerifier (TargetFlags\<lparr>IsVisited := True\<rparr>) (Regs [kInteger, kInteger]))
        \<lparr>reg_table := [None, Some (Regs [kInteger, kConflict])],
         insn_flags := [NoFlags, TargetFlags\<lparr>IsVisited := True, IsChanged := True\<rparr>]\<rparr>)"
  by (simp add: UpdateRegisters_def Regs_def Let_def SetChanged_def MergeKind_def)

lemma UpdateRegisters_example_first:
  "UpdateRegisters SmallLineOps (ReturnAtOneMethod ReturnInst False) 1
     (Regs [kInteger, kBoolean]) False
     (SlotVerifier TargetFlags (Regs [kUndefined, kUndefined]))
   = (True, Regs [kInteger, kBoolean],
      (SlotVerifier TargetFlags (Regs [kUndefined, kUndefined]))
        \<lparr>reg_table := [None, Some (Regs [kInteger, kBoolean])],
         insn_flags := [NoFlags, TargetFlags\<lparr>IsChanged := True\<rparr>]\<rparr>)"
  by (simp add: UpdateRegisters_def Regs_def Let_def SetChanged_def)

theorem UpdateRegisters_behaviour_witness:
  "(let st' = snd (snd (UpdateRegisters SmallLineOps (ReturnAtOneMethod ReturnInst False) 1
                          (Regs [kInteger, kBoolean]) False
                          (SlotVerifier TargetFlags (Regs [kUndefined, kUndefined]))))
    in reg_table st' ! 1 = Some (Regs [kInteger, kBoolean]) \<and> IsChanged (insn_flags st' ! 1))
   \<and> (let st' = snd (snd (UpdateRegisters SmallLineOps (ReturnAtOneMethod ReturnInst False) 1
                          (Regs [kInteger, kBoolean]) False
                          (SlotVerifier (TargetFlags\<lparr>IsReturn := True\<rparr>)
                             (Regs [kUndefined, kUndefined]))))
    in reg_table st' ! 1 = Some (Regs [kInteger, kConflict]) \<and> IsChanged (insn_flags st' ! 1))
   \<and> (let st' = snd (snd (UpdateRegisters SmallLineOps (ReturnAtOneMethod ReturnInst False) 1
                          (Regs [kInteger, kBoolean]) False
                          (SlotVerifier (TargetFlags\<lparr>IsVisited := True\<rparr>)
                             (Regs [kInteger, kInteger]))))
    in reg_table st' ! 1 = Some (Regs [kInteger, kConflict]) \<and> IsChanged (insn_flags st' ! 1))"
proof -
  let ?M = "ReturnAtOneMethod ReturnInst False"
  let ?ml = "Regs [kInteger, kBoolean]"
  let ?s1 = "SlotVerifier TargetFlags (Regs [kUndefined, kUndefined])"
  let ?s2 = "SlotVerifier (TargetFlags\<lparr>IsReturn := True\<rparr>) (Regs [kUndefined, kUndefined])"
  let ?s3 = "SlotVerifier (TargetFlags\<lparr>IsVisited := True\<rparr>) (Regs [kInteger, kInteger])"
  let ?r1 = "UpdateRegisters SmallLineOps ?M 1 ?ml False ?s1"
  let ?r2 = "UpdateRegisters SmallLineOps ?M 1 ?ml False ?s2"
  let ?r3 = "UpdateRegisters SmallLineOps ?M 1 ?ml False ?s3"
  have t1: "\<not> IsVisitedOrChanged (insn_flags ?s1 ! 1) \<and> \<not> IsReturn (insn_flags ?s1 ! 1)
           \<longrightarrow> fst ?r1 \<and> reg_table (snd (snd ?r1)) ! 1 = Some ?ml
               \<and> IsChanged (insn_flags (snd (snd ?r1)) ! 1)
               \<and> failures (snd (snd ?r1)) = failures ?s1"
    using UpdateRegisters_behaviour [of 1 ?s1 "Regs [kUndefined, kUndefined]" SmallLineOps ?M
            ?ml False "fst ?r1" "fst (snd ?r1)" "snd (snd ?r1)"]
    by simp
  have t2: "\<not> IsVisitedOrChanged (insn_flags ?s2 ! 1) \<and> IsReturn (insn_flags ?s2 ! 1)
           \<longrightarrow> reg_table (snd (snd ?r2)) ! 1
                 = Some (fst (AdjustReturnLine SmallLineOps ?M (InstructionAt ?M 1) ?ml
                                (Raise ?M (VerifyMonitorStackEmpty SmallLineOps ?ml) ?s2)))
               \<and> (fst ?r2 \<longleftrightarrow> \<not> have_pending_hard_failure (snd (snd ?r2)))
               \<and> (fst ?r2 \<longrightarrow> IsChanged (insn_flags (snd (snd ?r2)) ! 1))"
    using UpdateRegisters_behaviour [of 1 ?s2 "Regs [kUndefined, kUndefined]" SmallLineOps ?M
            ?ml False "fst ?r2" "fst (snd ?r2)" "snd (snd ?r2)"]
    by simp
  have a2: "fst (AdjustReturnLine SmallLineOps ?M (InstructionAt ?M 1) ?ml
                   (Raise ?M (VerifyMonitorStackEmpty SmallLineOps ?ml) ?s2))
              = MarkAllRegistersAsConflictsExcept SmallLineOps ?ml (VRegA ReturnInst)"
    using UpdateRegisters_behaviour [of 1 ?s2 "Regs [kUndefined, kUndefined]" SmallLineOps ?M
            ?ml False "fst ?r2" "fst (snd ?r2)" "snd (snd ?r2)" ReturnInst ?ml
            "Raise ?M (VerifyMonitorStackEmpty SmallLineOps ?ml) ?s2"]
    by (simp add: ReturnInst_def)
  have t3: "IsVisitedOrChanged (insn_flags ?s3 ! 1)
           \<longrightarrow> reg_table (snd (snd ?r3)) ! 1
                 = Some (fst (snd (MergeRegisters SmallLineOps (Regs [kInteger, kInteger]) ?ml)))
               \<and> (fst ?r3 \<longleftrightarrow> \<not> have_pending_hard_failure (snd (snd ?r3)))
               \<and> (fst ?r3 \<longrightarrow> (IsChanged (insn_flags (snd (snd ?r3)) ! 1)
                      \<longleftrightarrow> IsChanged (insn_flags ?s3 ! 1)
                          \<or> snd (snd (MergeRegisters SmallLineOps (Regs [kInteger, kInteger]) ?ml))))"
    using UpdateRegisters_behaviour [of 1 ?s3 "Regs [kInteger, kInteger]" SmallLineOps ?M
            ?ml False "fst ?r3" "fst (snd ?r3)" "snd (snd ?r3)"]
    by simp
  have c1: "reg_table (snd (snd ?r1)) ! 1 = Some ?ml \<and> IsChanged (insn_flags (snd (snd ?r1)) ! 1)"
    using t1 by simp
  have ok2: "fst ?r2" by (simp only: UpdateRegisters_example_return fst_conv)
  have c2: "reg_table (snd (snd ?r2)) ! 1 = Some (Regs [kInteger, kConflict])
            \<and> IsChanged (insn_flags (snd (snd ?r2)) ! 1)"
    using t2 ok2 a2 by (simp add: Regs_def ReturnInst_def)
  have ok3: "fst ?r3" by (simp only: UpdateRegisters_example_merge fst_conv)
  have c3: "reg_table (snd (snd ?r3)) ! 1 = Some (Regs [kInteger, kConflict])
            \<and> IsChanged (insn_flags (snd (snd ?r3)) ! 1)"
    using t3 ok3 by (simp add: Regs_def MergeKind_def)
  show ?thesis using c1 c2 c3 by (simp add: Let_def)
qed

text \<open>
  C10 as stated fails: the return at pc 1 has never been visited or marked changed, the
  incoming line of the constructor still holds the uninitialized \<open>this\<close>, the constructor
  check raises a hard failure, and \<open>UpdateRegisters\<close> returns false without marking pc 1
  as changed.
\<close>

theorem UpdateRegisters_unmarked_counterexample:
  "\<not> IsVisitedOrChanged
       (insn_flags (SlotVerifier (TargetFlags\<lparr>IsReturn := True\<rparr>)
                      (Regs [kUndefined, kUndefined])) ! 1)
   \<and> fst (UpdateRegisters SmallLineOps (ReturnAtOneMethod ReturnVoidInst True) 1
            (Regs [kUninitializedThis, kInteger]) False
            (SlotVerifier (TargetFlags\<lparr>IsReturn := True\<rparr>) (Regs [kUndefined, kUndefined])))
       = False
   \<and> \<not> IsChanged
         (insn_flags
            (snd (snd (UpdateRegisters SmallLineOps (ReturnAtOneMethod ReturnVoidInst True) 1
                         (Regs [kUninitializedThis, kInteger]) False
                         (SlotVerifier (TargetFlags\<lparr>IsReturn := True\<rparr>)
                            (Regs [kUndefined, kUndefined]))))) ! 1)"
  by (simp add: UpdateRegisters_def AdjustReturnLine_def ReturnVoidInst_def Regs_def Fail_def
        Let_def)

section \<open>The copy of the working line kept for the exception edges\<close>

lemma PotentiallyMarkRuntimeThrow_saved:
  "ThrowsOrCompat M (work_insn_idx st) \<Longrightarrow>
   saved_line (snd (PotentiallyMarkRuntimeThrow M st)) = saved_line st"
  by (auto simp: PotentiallyMarkRuntimeThrow_def RecordFailure_def Let_def)

lemma Fail_saved:
  "ThrowsOrCompat M (work_insn_idx st) \<Longrightarrow> saved_line (Fail M e p st) = saved_line st"
  by (cases e; simp add: Fail_def Let_def PotentiallyMarkRuntimeThrow_saved)

lemma Raise_saved:
  "ThrowsOrCompat M (work_insn_idx st) \<Longrightarrow> saved_line (Raise M rs st) = saved_line st"
  by (induction M rs st rule: Raise.induct) (simp_all add: Fail_saved PotentiallyMarkRuntimeThrow_saved)

lemma AdjustReturnLine_saved:
  "ThrowsOrCompat M (work_insn_idx st) \<Longrightarrow>
   saved_line (snd (AdjustReturnLine L M ret line st)) = saved_line st"
  by (cases "Opcode ret"; simp add: AdjustReturnLine_def Let_def Raise_saved)

lemma UpdateRegisters_saved:
  "ThrowsOrCompat M (work_insn_idx st) \<Longrightarrow>
   saved_line (snd (snd (UpdateRegisters L M next_insn ml upd st))) = saved_line st"
  by (auto simp: UpdateRegisters_def Let_def split_def Raise_saved AdjustReturnLine_saved
           split: option.splits)

lemma UpdateRegisters_frame:
  "work_insn_idx (snd (snd (UpdateRegisters L M next_insn ml upd st))) = work_insn_idx st"
  "work_line (snd (snd (UpdateRegisters L M next_insn ml upd st))) = work_line st"
  "length (insn_flags (snd (snd (UpdateRegisters L M next_insn ml upd st)))) = length (insn_flags st)"
  "length (reg_table (snd (snd (UpdateRegisters L M next_insn ml upd st)))) = length (reg_table st)"
  by (auto simp: UpdateRegisters_def Let_def split_def split: option.splits)


lemma VerifyRegisterType_saved:
  "ThrowsOrCompat M (work_insn_idx st) \<Longrightarrow>
   saved_line (snd (VerifyRegisterType T L M v ct st)) = saved_line st"
  by (simp add: VerifyRegisterType_def Let_def Fail_saved)

lemma VerifyRegisterType_frame [simp]:
  "work_insn_idx (snd (VerifyRegisterType T L M v ct st)) = work_insn_idx st"
  "insn_flags (snd (VerifyRegisterType T L M v ct st)) = insn_flags st"
  "reg_table (snd (VerifyRegisterType T L M v ct st)) = reg_table st"
  "work_line (snd (VerifyRegisterType T L M v ct st)) = work_line st"
  by (simp_all add: VerifyRegisterType_def Let_def)

lemma ConstructorReturnOk_saved:
  "ThrowsOrCompat M (work_insn_idx st) \<Longrightarrow>
   saved_line (snd (ConstructorReturnOk L M st)) = saved_line st"
  by (simp add: ConstructorReturnOk_def Let_def Raise_saved)

lemma ConstructorReturnOk_frame [simp]:
  "work_insn_idx (snd (ConstructorReturnOk L M st)) = work_insn_idx st"
  "insn_flags (snd (ConstructorReturnOk L M st)) = insn_flags st"
  "reg_table (snd (ConstructorReturnOk L M st)) = reg_table st"
  "work_line (snd (ConstructorReturnOk L M st)) = work_line st"
  by (simp_all add: ConstructorReturnOk_def Let_def)

lemma OnWorkLine_saved:
  "ThrowsOrCompat M (work_insn_idx st) \<Longrightarrow> saved_line (OnWorkLine M r st) = saved_line st"
  by (simp add: OnWorkLine_def Raise_saved)

lemma OnWorkLine_frame [simp]:
  "work_insn_idx (OnWorkLine M r st) = work_insn_idx st"
  "insn_flags (OnWorkLine M r st) = insn_flags st"
  "reg_table (OnWorkLine M r st) = reg_table st"
  "work_line (OnWorkLine M r st) = snd r"
  by (simp_all add: OnWorkLine_def)

lemma Transfer_RETURN_VOID_saved:
  "ThrowsOrCompat M (work_insn_idx st) \<Longrightarrow>
   saved_line (Transfer_RETURN_VOID L M st) = saved_line st"
  by (simp add: Transfer_RETURN_VOID_def split_def Let_def Fail_saved ConstructorReturnOk_saved)

lemma Transfer_RETURN_saved:
  "ThrowsOrCompat M (work_insn_idx st) \<Longrightarrow>
   saved_line (Transfer_RETURN T L M inst st) = saved_line st"
  by (simp add: Transfer_RETURN_def split_def Let_def Fail_saved ConstructorReturnOk_saved
        VerifyRegisterType_saved)

lemma Transfer_RETURN_OBJECT_saved:
  "ThrowsOrCompat M (work_insn_idx st) \<Longrightarrow>
   saved_line (Transfer_RETURN_OBJECT T L M inst st) = saved_line st"
  by (simp add: Transfer_RETURN_OBJECT_def split_def Let_def Fail_saved ConstructorReturnOk_saved)

lemma Transfer_MONITOR_ENTER_saved:
  "ThrowsOrCompat M (work_insn_idx st) \<Longrightarrow>
   saved_line (Transfer_MONITOR_ENTER L M inst st) = saved_line st"
  by (simp add: Transfer_MONITOR_ENTER_def Let_def OnWorkLine_saved)

lemma Transfer_frames [simp]:
  "work_insn_idx (Transfer_RETURN_VOID L M st) = work_insn_idx st"
  "insn_flags (Transfer_RETURN_VOID L M st) = insn_flags st"
  "reg_table (Transfer_RETURN_VOID L M st) = reg_table st"
  "work_insn_idx (Transfer_RETURN T L M inst st) = work_insn_idx st"
  "insn_flags (Transfer_RETURN T L M inst st) = insn_flags st"
  "reg_table (Transfer_RETURN T L M inst st) = reg_table st"
  "work_insn_idx (Transfer_RETURN_OBJECT T L M inst st) = work_insn_idx st"
  "insn_flags (Transfer_RETURN_OBJECT T L M inst st) = insn_flags st"
  "reg_table (Transfer_RETURN_OBJECT T L M inst st) = reg_table st"
  "work_insn_idx (Transfer_MONITOR_ENTER L M inst st) = work_insn_idx st"
  "insn_flags (Transfer_MONITOR_ENTER L M inst st) = insn_flags st"
  "reg_table (Transfer_MONITOR_ENTER L M inst st) = reg_table st"
  by (simp_all add: Transfer_RETURN_VOID_def Transfer_RETURN_def Transfer_RETURN_OBJECT_def
        Transfer_MONITOR_ENTER_def split_def Let_def)

lemma Dispatch_saved:
  "ThrowsOrCompat M (work_insn_idx st) \<Longrightarrow>
   saved_line (snd (Dispatch T L M st)) = saved_line st"
  by (cases "Opcode (InstructionAt M (work_insn_idx st))";
      simp add: Dispatch_def Let_def Fail_saved OnWorkLine_saved Transfer_RETURN_VOID_saved
        Transfer_RETURN_saved Transfer_RETURN_OBJECT_saved Transfer_MONITOR_ENTER_saved)

lemma Dispatch_frame [simp]:
  "work_insn_idx (snd (Dispatch T L M st)) = work_insn_idx st"
  "insn_flags (snd (Dispatch T L M st)) = insn_flags st"
  "reg_table (snd (Dispatch T L M st)) = reg_table st"
  by (cases "Opcode (InstructionAt M (work_insn_idx st))"; simp add: Dispatch_def Let_def)+

lemma AfterSwitch_frame [simp]:
  "work_insn_idx (snd (snd (AfterSwitch L M loc st))) = work_insn_idx st"
  "insn_flags (snd (snd (AfterSwitch L M loc st))) = insn_flags st"
  "reg_table (snd (snd (AfterSwitch L M loc st))) = reg_table st"
  "saved_line (snd (snd (AfterSwitch L M loc st))) = saved_line st"
  by (simp_all add: AfterSwitch_def Let_def)

lemma CheckNotMove_frame [simp]:
  "work_insn_idx (snd (CheckNotMoveException M i st)) = work_insn_idx st"
  "insn_flags (snd (CheckNotMoveException M i st)) = insn_flags st"
  "reg_table (snd (CheckNotMoveException M i st)) = reg_table st"
  "work_line (snd (CheckNotMoveException M i st)) = work_line st"
  "work_insn_idx (snd (CheckNotMoveResult M i st)) = work_insn_idx st"
  "insn_flags (snd (CheckNotMoveResult M i st)) = insn_flags st"
  "reg_table (snd (CheckNotMoveResult M i st)) = reg_table st"
  "work_line (snd (CheckNotMoveResult M i st)) = work_line st"
  "work_insn_idx (snd (CheckNotMoveExceptionOrMoveResult M i st)) = work_insn_idx st"
  "insn_flags (snd (CheckNotMoveExceptionOrMoveResult M i st)) = insn_flags st"
  "reg_table (snd (CheckNotMoveExceptionOrMoveResult M i st)) = reg_table st"
  "work_line (snd (CheckNotMoveExceptionOrMoveResult M i st)) = work_line st"
  by (simp_all add: CheckNotMoveException_def CheckNotMoveResult_def
        CheckNotMoveExceptionOrMoveResult_def split_def)

lemma CheckNotMove_saved:
  assumes "ThrowsOrCompat M (work_insn_idx st)"
  shows "saved_line (snd (CheckNotMoveException M i st)) = saved_line st"
    and "saved_line (snd (CheckNotMoveResult M i st)) = saved_line st"
    and "saved_line (snd (CheckNotMoveExceptionOrMoveResult M i st)) = saved_line st"
  using assms
  by (simp_all add: CheckNotMoveException_def CheckNotMoveResult_def
        CheckNotMoveExceptionOrMoveResult_def split_def Fail_saved)

lemma HandleBranch_saved:
  "ThrowsOrCompat M (work_insn_idx st) \<Longrightarrow>
   saved_line (snd (snd (HandleBranch L M loc st))) = saved_line st"
  by (simp add: HandleBranch_def Let_def split_def Fail_saved UpdateRegisters_saved
        CheckNotMove_saved split: option.splits)

lemma HandleBranch_frame [simp]:
  "work_insn_idx (snd (snd (HandleBranch L M loc st))) = work_insn_idx st"
  "work_line (snd (snd (HandleBranch L M loc st))) = work_line st"
  "length (insn_flags (snd (snd (HandleBranch L M loc st)))) = length (insn_flags st)"
  by (simp_all add: HandleBranch_def Let_def split_def UpdateRegisters_frame split: option.splits)

lemma SwitchTargets_saved:
  "ThrowsOrCompat M (work_insn_idx st) \<Longrightarrow>
   saved_line (snd (SwitchTargets L M base ott targs st)) = saved_line st"
  by (induction targs arbitrary: st)
     (simp_all add: Let_def split_def UpdateRegisters_saved CheckNotMove_saved
        UpdateRegisters_frame)

lemma SwitchTargets_frame [simp]:
  "work_insn_idx (snd (SwitchTargets L M base ott targs st)) = work_insn_idx st"
  "work_line (snd (SwitchTargets L M base ott targs st)) = work_line st"
  by (induction targs arbitrary: st; simp add: Let_def split_def UpdateRegisters_frame)+

lemma HandleSwitch_saved:
  "ThrowsOrCompat M (work_insn_idx st) \<Longrightarrow>
   saved_line (snd (HandleSwitch L M loc st)) = saved_line st"
  by (simp add: HandleSwitch_def Let_def SwitchTargets_saved)

lemma HandleSwitch_frame [simp]:
  "work_insn_idx (snd (HandleSwitch L M loc st)) = work_insn_idx st"
  "work_line (snd (HandleSwitch L M loc st)) = work_line st"
  by (simp_all add: HandleSwitch_def Let_def)

lemma SaveWorkLine_simps [simp]:
  "work_insn_idx (SaveWorkLine M st) = work_insn_idx st"
  "work_line (SaveWorkLine M st) = work_line st"
  "insn_flags (SaveWorkLine M st) = insn_flags st"
  "reg_table (SaveWorkLine M st) = reg_table st"
  by (simp_all add: SaveWorkLine_def Let_def)

lemma SaveWorkLine_saved:
  "ThrowsOrCompat M (work_insn_idx st) \<Longrightarrow> IsInTry (insn_flags st ! work_insn_idx st) \<Longrightarrow>
   saved_line (SaveWorkLine M st) = work_line st"
  by (auto simp: SaveWorkLine_def Let_def)

lemma BeforeThrowEdges_idx [simp]:
  "work_insn_idx (snd (snd (BeforeThrowEdges T L M st))) = work_insn_idx st"
  by (simp add: BeforeThrowEdges_def Let_def split_def)

lemma BeforeThrowEdges_saved:
  assumes "ThrowsOrCompat M (work_insn_idx st)" "IsInTry (insn_flags st ! work_insn_idx st)"
  shows "saved_line (snd (snd (BeforeThrowEdges T L M st))) = work_line st"
  using assms
  by (simp add: BeforeThrowEdges_def Let_def split_def HandleSwitch_saved HandleBranch_saved
        Dispatch_saved SaveWorkLine_saved)

lemma ThrowEdges_snapshot:
  "ThrowsOrCompat M (work_insn_idx st) \<Longrightarrow>
   ThrowEdges L M hs b st = MergeSnapshotIntoHandlers L M (saved_line st) hs b st"
proof (induction hs arbitrary: b st)
  case Nil
  then show ?case by simp
next
  case (Cons h hs)
  obtain ti addr where h: "h = (ti, addr)" by (cases h)
  let ?r = "UpdateRegisters L M addr (saved_line st) False st"
  have s: "saved_line (snd (snd ?r)) = saved_line st"
    using Cons.prems by (rule UpdateRegisters_saved)
  have i: "work_insn_idx (snd (snd ?r)) = work_insn_idx st"
    by (rule UpdateRegisters_frame)
  show ?case
    using Cons.IH [of "snd (snd ?r)"] Cons.prems s i
    by (simp add: h Let_def split_def)
qed

lemma HandleThrow_snapshot:
  assumes "ThrowsOrCompat M (work_insn_idx st)"
  shows "HandleThrow L M loc st = MergeSnapshotIntoCoveringHandlers L M (saved_line st) loc st"
  using assms
  by (simp add: HandleThrow_def MergeSnapshotIntoCoveringHandlers_def ThrowEdges_snapshot
           cong: option.case_cong)

lemma CodeFlowVerifyInstruction_edges:
  "CodeFlowVerifyInstruction T L M start_guess st =
     (let (ok, loc, st4) = BeforeThrowEdges T L M st in
      if \<not> ok then (False, start_guess, st4)
      else AfterThrowEdges L M start_guess loc (HandleThrow L M loc st4))"
  unfolding CodeFlowVerifyInstruction_def AfterThrowEdges_def Let_def split_def
  by (rule refl)

text \<open>
  C2. For an instruction whose opcode can throw (\<open>kThrow\<close> among its static flags) and
  that lies in a try block, \<open>CodeFlowVerifyInstruction\<close> is the step that, at its exception
  edges, merges the working line as it was on entry, before the transfer function of the
  instruction ran, into the target of every handler of the try item that \<open>FindTryItem\<close>
  gives for the instruction, in table order: \<open>saved_line_\<close> holds that line when the edges
  are reached, \<open>HandleThrow\<close> is \<open>MergeSnapshotIntoCoveringHandlers\<close> on it, and the whole
  step is the one with \<open>MergeSnapshotIntoCoveringHandlers\<close> in the place of \<open>HandleThrow\<close>.
  The edges are taken when the opcode flags still include \<open>kThrow\<close> there; for
  \<open>monitor-exit\<close> they do not (see C4).
\<close>

theorem exception_edges_merge_pre_instruction_line:
  assumes "kThrow \<in> Flags (InstructionAt M (work_insn_idx st))"
    and "IsInTry (insn_flags st ! work_insn_idx st)"
    and "BeforeThrowEdges T L M st = (ok, loc, st4)"
  shows "saved_line st4 = work_line st
         \<and> HandleThrow L M loc st4
             = MergeSnapshotIntoCoveringHandlers L M (work_line st) loc st4
         \<and> CodeFlowVerifyInstruction T L M start_guess st
             = (if \<not> ok then (False, start_guess, st4)
                else AfterThrowEdges L M start_guess loc
                       (MergeSnapshotIntoCoveringHandlers L M (work_line st) loc st4))"
proof -
  have t: "ThrowsOrCompat M (work_insn_idx st)" using assms(1) by simp
  have s: "saved_line st4 = work_line st"
    using BeforeThrowEdges_saved [OF t assms(2), of T L] assms(3) by simp
  have i: "work_insn_idx st4 = work_insn_idx st"
    using BeforeThrowEdges_idx [of T L M st] assms(3) by simp
  have "ThrowsOrCompat M (work_insn_idx st4)" using t i by simp
  then have "HandleThrow L M loc st4
               = MergeSnapshotIntoCoveringHandlers L M (saved_line st4) loc st4"
    by (rule HandleThrow_snapshot)
  then have h: "HandleThrow L M loc st4
                  = MergeSnapshotIntoCoveringHandlers L M (work_line st) loc st4"
    using s by simp
  have c: "CodeFlowVerifyInstruction T L M start_guess st
             = (if \<not> ok then (False, start_guess, st4)
                else AfterThrowEdges L M start_guess loc (HandleThrow L M loc st4))"
    by (simp add: CodeFlowVerifyInstruction_edges assms(3))
  show ?thesis using s h c by simp
qed

lemma TwoHandler_simps [simp]:
  "InstructionAt TwoHandlerMethod 0 = IgetInst"
  "FindTryItem TwoHandlerMethod 0 = Some [(Some 7, 3), (None, 4)]"
  "work_insn_idx TwoHandlerVerifier = 0"
  "work_line TwoHandlerVerifier = Regs [kUndefined, kResolvedReference 2]"
  "saved_line TwoHandlerVerifier = Regs [kConflict, kConflict]"
  "insn_flags TwoHandlerVerifier ! 0
     = NoFlags\<lparr>IsBranchTarget := True, IsInTry := True, IsChanged := True\<rparr>"
  by (simp_all add: TwoHandlerMethod_def TwoHandlerVerifier_def InitialVerifier_def)

lemma TwoHandler_example:
  "CodeFlowVerifyInstruction SmallTypeOps SmallLineOps TwoHandlerMethod 0 TwoHandlerVerifier
   = (True, 2,
      TwoHandlerVerifier
        \<lparr>saved_line := Regs [kUndefined, kResolvedReference 2],
         work_line := Regs [kInteger, kResolvedReference 2],
         reg_table := [Some (Regs [kUndefined, kResolvedReference 2]), None, None,
                       Some (Regs [kUndefined, kResolvedReference 2]),
                       Some (Regs [kUndefined, kResolvedReference 2])],
         insn_flags := [NoFlags\<lparr>IsBranchTarget := True, IsInTry := True, IsChanged := True\<rparr>,
                        NoFlags\<lparr>IsOpcode := False, IsInTry := True\<rparr>,
                        NoFlags\<lparr>IsChanged := True\<rparr>, TargetFlags\<lparr>IsChanged := True\<rparr>,
                        TargetFlags\<lparr>IsChanged := True\<rparr>]\<rparr>)"
  by (simp add: CodeFlowVerifyInstruction_def BeforeThrowEdges_def SaveWorkLine_def Dispatch_def
        AfterSwitch_def OnWorkLine_def HandleBranch_def HandleSwitch_def HandleThrow_def
        HandleContinue_def UpdateRegisters_def CheckNotMoveException_def OP_MOVE_EXCEPTION_def
        ToInt_def SetChanged_def Let_def NoFlags_def Regs_def TargetFlags_def
        IsVisitedOrChanged_def TwoHandlerMethod_def TwoHandlerVerifier_def InitialVerifier_def
        PlainMethod_def IgetInst_def)

lemma TwoHandler_before:
  "fst (BeforeThrowEdges SmallTypeOps SmallLineOps TwoHandlerMethod TwoHandlerVerifier)"
  by (simp add: BeforeThrowEdges_def SaveWorkLine_def Dispatch_def AfterSwitch_def
        OnWorkLine_def HandleBranch_def HandleSwitch_def Let_def split_def
        TwoHandlerMethod_def TwoHandlerVerifier_def InitialVerifier_def IgetInst_def)

text \<open>
  On \<open>iget v0, v1\<close> in a try block with two handlers, entered with a stale \<open>saved_line_\<close>,
  both handler entries (pc 3 and pc 4) receive the line with \<open>v0\<close> still undefined, while
  the working line carried to the next instruction has \<open>v0\<close> Integer.
\<close>

theorem exception_edges_merge_pre_instruction_line_witness:
  "saved_line TwoHandlerVerifier = Regs [kConflict, kConflict]
   \<and> work_line TwoHandlerVerifier = Regs [kUndefined, kResolvedReference 2]
   \<and> FindTryItem TwoHandlerMethod (work_insn_idx TwoHandlerVerifier)
       = Some [(Some 7, 3), (None, 4)]
   \<and> saved_line (snd (snd (BeforeThrowEdges SmallTypeOps SmallLineOps TwoHandlerMethod
                              TwoHandlerVerifier)))
       = work_line TwoHandlerVerifier
   \<and> CodeFlowVerifyInstruction SmallTypeOps SmallLineOps TwoHandlerMethod 0 TwoHandlerVerifier
       = AfterThrowEdges SmallLineOps TwoHandlerMethod 0
           (fst (snd (BeforeThrowEdges SmallTypeOps SmallLineOps TwoHandlerMethod
                        TwoHandlerVerifier)))
           (MergeSnapshotIntoCoveringHandlers SmallLineOps TwoHandlerMethod
              (work_line TwoHandlerVerifier)
              (fst (snd (BeforeThrowEdges SmallTypeOps SmallLineOps TwoHandlerMethod
                           TwoHandlerVerifier)))
              (snd (snd (BeforeThrowEdges SmallTypeOps SmallLineOps TwoHandlerMethod
                           TwoHandlerVerifier))))
   \<and> reg_table (snd (snd (CodeFlowVerifyInstruction SmallTypeOps SmallLineOps
                            TwoHandlerMethod 0 TwoHandlerVerifier))) ! 3
       = Some (Regs [kUndefined, kResolvedReference 2])
   \<and> reg_table (snd (snd (CodeFlowVerifyInstruction SmallTypeOps SmallLineOps
                            TwoHandlerMethod 0 TwoHandlerVerifier))) ! 4
       = Some (Regs [kUndefined, kResolvedReference 2])
   \<and> work_line (snd (snd (CodeFlowVerifyInstruction SmallTypeOps SmallLineOps
                            TwoHandlerMethod 0 TwoHandlerVerifier)))
       = Regs [kInteger, kResolvedReference 2]"
proof -
  let ?r = "BeforeThrowEdges SmallTypeOps SmallLineOps TwoHandlerMethod TwoHandlerVerifier"
  have h1: "kThrow \<in> Flags (InstructionAt TwoHandlerMethod (work_insn_idx TwoHandlerVerifier))"
    by simp
  have h2: "IsInTry (insn_flags TwoHandlerVerifier ! work_insn_idx TwoHandlerVerifier)"
    by (simp add: NoFlags_def)
  have h3: "?r = (fst ?r, fst (snd ?r), snd (snd ?r))"
    by simp
  note t = exception_edges_merge_pre_instruction_line [OF h1 h2 h3, of 0]
  have a: "saved_line (snd (snd ?r)) = work_line TwoHandlerVerifier"
    using t by blast
  have b: "CodeFlowVerifyInstruction SmallTypeOps SmallLineOps TwoHandlerMethod 0
             TwoHandlerVerifier
           = AfterThrowEdges SmallLineOps TwoHandlerMethod 0 (fst (snd ?r))
               (MergeSnapshotIntoCoveringHandlers SmallLineOps TwoHandlerMethod
                  (work_line TwoHandlerVerifier) (fst (snd ?r)) (snd (snd ?r)))"
    using t TwoHandler_before by presburger
  have c: "reg_table (snd (snd (CodeFlowVerifyInstruction SmallTypeOps SmallLineOps
                            TwoHandlerMethod 0 TwoHandlerVerifier))) ! 3
             = Some (Regs [kUndefined, kResolvedReference 2])
         \<and> reg_table (snd (snd (CodeFlowVerifyInstruction SmallTypeOps SmallLineOps
                            TwoHandlerMethod 0 TwoHandlerVerifier))) ! 4
             = Some (Regs [kUndefined, kResolvedReference 2])
         \<and> work_line (snd (snd (CodeFlowVerifyInstruction SmallTypeOps SmallLineOps
                            TwoHandlerMethod 0 TwoHandlerVerifier)))
             = Regs [kInteger, kResolvedReference 2]"
    by (simp add: TwoHandler_example)
  have d: "saved_line TwoHandlerVerifier = Regs [kConflict, kConflict]
           \<and> work_line TwoHandlerVerifier = Regs [kUndefined, kResolvedReference 2]
           \<and> FindTryItem TwoHandlerMethod (work_insn_idx TwoHandlerVerifier)
               = Some [(Some 7, 3), (None, 4)]"
    by simp
  show ?thesis
    using a b c d by blast
qed


section \<open>The catch-all requirement and monitor-exit\<close>

lemma ThrowEdges_idx [simp]:
  "work_insn_idx (snd (snd (ThrowEdges L M hs b st))) = work_insn_idx st"
proof (induction hs arbitrary: b st)
  case Nil
  then show ?case by simp
next
  case (Cons h hs)
  obtain t a where h: "h = (t, a)" by (cases h)
  show ?case
    by (simp add: h Let_def split_def Cons.IH UpdateRegisters_frame)
qed

lemma ThrowEdges_work_line [simp]:
  "work_line (snd (snd (ThrowEdges L M hs b st))) = work_line st"
proof (induction hs arbitrary: b st)
  case Nil
  then show ?case by simp
next
  case (Cons h hs)
  obtain t a where h: "h = (t, a)" by (cases h)
  show ?case
    by (simp add: h Let_def split_def Cons.IH UpdateRegisters_frame)
qed

lemma ThrowEdges_catch_all:
  "ThrowEdges L M hs b st = (True, hca, st1) \<Longrightarrow>
   hca \<longleftrightarrow> b \<or> (\<exists>h \<in> set hs. fst h = None \<or> (\<exists>ti. fst h = Some ti \<and> ResolvesToThrowable M ti))"
proof (induction hs arbitrary: b st)
  case Nil
  then show ?case by simp
next
  case (Cons h hs)
  obtain t a where h: "h = (t, a)" by (cases h)
  let ?r = "UpdateRegisters L M a (saved_line st) False st"
  show ?case
  proof (cases t)
    case None
    from Cons.prems have "ThrowEdges L M hs True (snd (snd ?r)) = (True, hca, st1)"
      by (simp add: h None Let_def split_def split: if_splits)
    from Cons.IH [OF this] show ?thesis by (simp add: h None)
  next
    case (Some ti)
    from Cons.prems
    have "ThrowEdges L M hs (ResolvesToThrowable M ti \<or> b) (snd (snd ?r)) = (True, hca, st1)"
      by (cases "ResolvesToThrowable M ti") (simp_all add: h Some Let_def split_def split: if_splits)
    from Cons.IH [OF this] show ?thesis by (auto simp: h Some)
  qed
qed

lemma HandleThrow_cases:
  assumes "kThrow \<in> opcode_flags loc" "IsInTry (insn_flags st ! work_insn_idx st)"
    and "FindTryItem M (work_insn_idx st) = Some handlers"
    and "ThrowEdges L M handlers False st = (True, hca, st1)"
  shows "HandleThrow L M loc st =
           (if MonitorStackDepth L (work_line st) > 0 \<and> \<not> hca
               \<and> \<not> (Opcode (InstructionAt M (work_insn_idx st)) = MONITOR_ENTER
                     \<and> MonitorStackDepth L (work_line st) = 1)
            then (False, Fail M VERIFY_ERROR_BAD_CLASS_HARD True st1)
            else (True, st1))"
proof -
  have w: "work_line st1 = work_line st" "work_insn_idx st1 = work_insn_idx st"
    using ThrowEdges_work_line [of L M handlers False st]
          ThrowEdges_idx [of L M handlers False st] assms(4) by simp_all
  show ?thesis
    using assms by (auto simp: HandleThrow_def w)
qed

lemma HandleBranch_flags [simp]:
  "opcode_flags (fst (snd (HandleBranch L M loc st))) = opcode_flags loc"
  by (simp add: HandleBranch_def Let_def split_def split: option.splits)

lemma MonitorExit_flags:
  assumes "Opcode (InstructionAt M (work_insn_idx st)) = MONITOR_EXIT"
    and "\<not> have_pending_runtime_throw_failure (snd (Dispatch T L M (SaveWorkLine M st)))"
    and "BeforeThrowEdges T L M st = (True, loc, st4)"
  shows "kThrow \<notin> opcode_flags loc"
  using assms
  by (auto simp: BeforeThrowEdges_def Let_def split_def Dispatch_def AfterSwitch_def
           split: if_splits)

lemma HandleThrow_skip: "kThrow \<notin> opcode_flags loc \<Longrightarrow> HandleThrow L M loc st = (True, st)"
  by (simp add: HandleThrow_def)


lemma MonitorExit_pops:
  assumes "Opcode (InstructionAt M (work_insn_idx st)) = MONITOR_EXIT"
  shows "work_line (snd (Dispatch T L M (SaveWorkLine M st)))
           = snd (PopMonitor L (work_line st) (VRegA (InstructionAt M (work_insn_idx st))))"
  using assms by (simp add: Dispatch_def Let_def)

lemmas eval_defs = CodeFlowVerifyInstruction_def BeforeThrowEdges_def SaveWorkLine_def
  Dispatch_def AfterSwitch_def OnWorkLine_def HandleBranch_def HandleSwitch_def HandleThrow_def
  HandleContinue_def UpdateRegisters_def CheckNotMoveException_def OP_MOVE_EXCEPTION_def
  ToInt_def SetChanged_def Let_def NoFlags_def Regs_def TargetFlags_def
  IsVisitedOrChanged_def Transfer_MONITOR_ENTER_def MergeKind_def

text \<open>
  C3, as amended. At the exception edges of an instruction that lies in a try block and
  whose opcode flags there include \<open>kThrow\<close>, once every handler of the covering try item
  has been updated without failure: the try item counts as having a catch-all exactly
  when one of its handlers has no type or a type that resolves to \<open>java.lang.Throwable\<close>;
  if the monitor stack of the working line, which is the line after the instruction, is
  non-empty and there is no catch-all, verification hard-fails, unless the instruction
  is \<open>monitor-enter\<close> and the depth after it is exactly 1; in every other case the step
  succeeds. \<open>monitor-exit\<close> is exempt as well: its \<open>kThrow\<close> flag is stripped, so unless the
  pop left a runtime-throw failure pending the step does nothing for it.
\<close>

theorem catch_all_required_when_monitor_held:
  assumes "kThrow \<in> opcode_flags loc" and "IsInTry (insn_flags st ! work_insn_idx st)"
    and "FindTryItem M (work_insn_idx st) = Some handlers"
    and "ThrowEdges L M handlers False st = (True, has_catch_all, st1)"
  shows
    "(has_catch_all \<longleftrightarrow>
        (\<exists>h \<in> set handlers. fst h = None
                             \<or> (\<exists>ti. fst h = Some ti \<and> ResolvesToThrowable M ti)))
     \<and> (0 < MonitorStackDepth L (work_line st) \<and> \<not> has_catch_all
         \<and> \<not> (Opcode (InstructionAt M (work_insn_idx st)) = MONITOR_ENTER
               \<and> MonitorStackDepth L (work_line st) = 1)
        \<longrightarrow> fst (HandleThrow L M loc st) = False
            \<and> have_pending_hard_failure (snd (HandleThrow L M loc st))
            \<and> failures (snd (HandleThrow L M loc st))
                = failures st1 @ [VERIFY_ERROR_BAD_CLASS_HARD])
     \<and> (\<not> (0 < MonitorStackDepth L (work_line st) \<and> \<not> has_catch_all
            \<and> \<not> (Opcode (InstructionAt M (work_insn_idx st)) = MONITOR_ENTER
                  \<and> MonitorStackDepth L (work_line st) = 1))
        \<longrightarrow> HandleThrow L M loc st = (True, st1))
     \<and> (Opcode (InstructionAt M' (work_insn_idx s)) = MONITOR_EXIT
         \<and> \<not> have_pending_runtime_throw_failure (snd (Dispatch T L M' (SaveWorkLine M' s)))
         \<and> BeforeThrowEdges T L M' s = (True, loc', s4)
        \<longrightarrow> HandleThrow L M' loc' s4 = (True, s4))"
proof (intro conjI impI)
  show "has_catch_all \<longleftrightarrow>
        (\<exists>h \<in> set handlers. fst h = None
                             \<or> (\<exists>ti. fst h = Some ti \<and> ResolvesToThrowable M ti))"
    using ThrowEdges_catch_all [OF assms(4)] by simp
next
  assume a: "0 < MonitorStackDepth L (work_line st) \<and> \<not> has_catch_all
         \<and> \<not> (Opcode (InstructionAt M (work_insn_idx st)) = MONITOR_ENTER
               \<and> MonitorStackDepth L (work_line st) = 1)"
  have eq: "HandleThrow L M loc st = (False, Fail M VERIFY_ERROR_BAD_CLASS_HARD True st1)"
    using HandleThrow_cases [OF assms] a by simp
  show "fst (HandleThrow L M loc st) = False" by (simp add: eq)
  show "have_pending_hard_failure (snd (HandleThrow L M loc st))" by (simp add: eq)
  show "failures (snd (HandleThrow L M loc st)) = failures st1 @ [VERIFY_ERROR_BAD_CLASS_HARD]"
    by (simp add: eq)
next
  assume "\<not> (0 < MonitorStackDepth L (work_line st) \<and> \<not> has_catch_all
            \<and> \<not> (Opcode (InstructionAt M (work_insn_idx st)) = MONITOR_ENTER
                  \<and> MonitorStackDepth L (work_line st) = 1))"
  then show "HandleThrow L M loc st = (True, st1)"
    using HandleThrow_cases [OF assms] by simp
next
  assume "Opcode (InstructionAt M' (work_insn_idx s)) = MONITOR_EXIT
         \<and> \<not> have_pending_runtime_throw_failure (snd (Dispatch T L M' (SaveWorkLine M' s)))
         \<and> BeforeThrowEdges T L M' s = (True, loc', s4)"
  then have "kThrow \<notin> opcode_flags loc'"
    using MonitorExit_flags [of M' s T L loc' s4] by blast
  then show "HandleThrow L M' loc' s4 = (True, s4)"
    by (rule HandleThrow_skip)
qed

lemma ThrowEdges_example:
  "ThrowEdges SmallLineOps (TryMethod inst) [(Some 7, 3)] False (TryVerifier line)
   = (True, False,
      (TryVerifier line)
        \<lparr>reg_table := [Some line, None, None, Some line],
         insn_flags := [NoFlags\<lparr>IsBranchTarget := True, IsInTry := True, IsChanged := True\<rparr>,
                        NoFlags\<lparr>IsInTry := True\<rparr>, NoFlags,
                        TargetFlags\<lparr>IsChanged := True\<rparr>]\<rparr>)"
  by (simp add: UpdateRegisters_def SetChanged_def Let_def)

theorem catch_all_required_when_monitor_held_witness:
  "fst (HandleThrow SmallLineOps (TryMethod IgetInst) ThrowingLocals (TryVerifier OneMonitor))
     = False
   \<and> have_pending_hard_failure
       (snd (HandleThrow SmallLineOps (TryMethod IgetInst) ThrowingLocals
               (TryVerifier OneMonitor)))
   \<and> fst (HandleThrow SmallLineOps (TryMethod MonitorEnterInst) ThrowingLocals
            (TryVerifier OneMonitor))"
proof -
  let ?st = "TryVerifier OneMonitor"
  let ?st1 = "?st\<lparr>reg_table := [Some OneMonitor, None, None, Some OneMonitor],
                  insn_flags := [NoFlags\<lparr>IsBranchTarget := True, IsInTry := True,
                                         IsChanged := True\<rparr>,
                                 NoFlags\<lparr>IsInTry := True\<rparr>, NoFlags,
                                 TargetFlags\<lparr>IsChanged := True\<rparr>]\<rparr>"
  have h1: "kThrow \<in> opcode_flags ThrowingLocals" by (simp add: ThrowingLocals_def)
  have h2: "IsInTry (insn_flags ?st ! work_insn_idx ?st)" by (simp add: NoFlags_def)
  have h3: "FindTryItem (TryMethod inst) (work_insn_idx ?st) = Some [(Some 7, 3)]" for inst
    by simp
  have h4: "ThrowEdges SmallLineOps (TryMethod inst) [(Some 7, 3)] False ?st
              = (True, False, ?st1)" for inst
    by (rule ThrowEdges_example)
  note t1 = catch_all_required_when_monitor_held [OF h1 h2 h3 h4, of IgetInst]
  note t2 = catch_all_required_when_monitor_held [OF h1 h2 h3 h4, of MonitorEnterInst]
  have a1: "0 < MonitorStackDepth SmallLineOps (work_line ?st) \<and> \<not> False
         \<and> \<not> (Opcode (InstructionAt (TryMethod IgetInst) (work_insn_idx ?st)) = MONITOR_ENTER
               \<and> MonitorStackDepth SmallLineOps (work_line ?st) = 1)"
    by (simp add: OneMonitor_def)
  have a2: "\<not> (0 < MonitorStackDepth SmallLineOps (work_line ?st) \<and> \<not> False
         \<and> \<not> (Opcode (InstructionAt (TryMethod MonitorEnterInst) (work_insn_idx ?st))
                 = MONITOR_ENTER
               \<and> MonitorStackDepth SmallLineOps (work_line ?st) = 1))"
    by (simp add: OneMonitor_def)
  have c1: "fst (HandleThrow SmallLineOps (TryMethod IgetInst) ThrowingLocals ?st) = False
            \<and> have_pending_hard_failure
                (snd (HandleThrow SmallLineOps (TryMethod IgetInst) ThrowingLocals ?st))"
    using t1 a1 by blast
  have c2: "HandleThrow SmallLineOps (TryMethod MonitorEnterInst) ThrowingLocals ?st
              = (True, ?st1)"
    using t2 a2 by blast
  show ?thesis using c1 c2 by simp
qed

lemma MonitorExit_example:
  "CodeFlowVerifyInstruction SmallTypeOps SmallLineOps (TryMethod MonitorExitInst) 0
     (TryVerifier TwoMonitors)
   = (True, 1,
      (TryVerifier TwoMonitors)
        \<lparr>saved_line := TwoMonitors,
         work_line := OneMonitor,
         insn_flags := [NoFlags\<lparr>IsBranchTarget := True, IsInTry := True, IsChanged := True\<rparr>,
                        NoFlags\<lparr>IsInTry := True, IsChanged := True\<rparr>, NoFlags,
                        TargetFlags]\<rparr>)"
  by (simp add: eval_defs TwoMonitors_def OneMonitor_def)

text \<open>
  C3 as stated fails: \<open>monitor-exit\<close> may throw by its opcode flags and lies in a try
  block with no catch-all handler; two monitors are held when control reaches it and one
  is still held after it, yet the instruction verifies with no failure.
\<close>

theorem catch_all_monitor_exit_counterexample:
  "kThrow \<in> Flags (InstructionAt (TryMethod MonitorExitInst) 0)
   \<and> IsInTry (insn_flags (TryVerifier TwoMonitors) ! 0)
   \<and> FindTryItem (TryMethod MonitorExitInst) 0 = Some [(Some 7, 3)]
   \<and> \<not> ResolvesToThrowable (TryMethod MonitorExitInst) 7
   \<and> MonitorStackDepth SmallLineOps (work_line (TryVerifier TwoMonitors)) = 2
   \<and> fst (CodeFlowVerifyInstruction SmallTypeOps SmallLineOps (TryMethod MonitorExitInst) 0
            (TryVerifier TwoMonitors))
   \<and> MonitorStackDepth SmallLineOps
        (work_line (snd (snd (CodeFlowVerifyInstruction SmallTypeOps SmallLineOps
                                (TryMethod MonitorExitInst) 0 (TryVerifier TwoMonitors))))) = 1
   \<and> failures (snd (snd (CodeFlowVerifyInstruction SmallTypeOps SmallLineOps
                            (TryMethod MonitorExitInst) 0 (TryVerifier TwoMonitors)))) = []
   \<and> \<not> have_pending_hard_failure
         (snd (snd (CodeFlowVerifyInstruction SmallTypeOps SmallLineOps
                      (TryMethod MonitorExitInst) 0 (TryVerifier TwoMonitors))))"
  by (simp only: MonitorExit_example) (simp add: NoFlags_def TwoMonitors_def OneMonitor_def)
section \<open>The exception edges of monitor-exit\<close>

lemma PotentiallyMarkRuntimeThrow_off:
  "IsAotMode M \<or> SdkAtLeastS_V2 M \<Longrightarrow> PotentiallyMarkRuntimeThrow M st = (False, st)"
  by (simp add: PotentiallyMarkRuntimeThrow_def)

lemma Fail_runtime_throw_off:
  "IsAotMode M \<or> SdkAtLeastS_V2 M \<Longrightarrow>
   have_pending_runtime_throw_failure (Fail M e p st) = have_pending_runtime_throw_failure st"
  by (cases e; simp add: Fail_def Let_def PotentiallyMarkRuntimeThrow_off)

lemma Raise_runtime_throw_off:
  "IsAotMode M \<or> SdkAtLeastS_V2 M \<Longrightarrow>
   have_pending_runtime_throw_failure (Raise M rs st) = have_pending_runtime_throw_failure st"
  by (induction M rs st rule: Raise.induct)
     (simp_all add: Fail_runtime_throw_off PotentiallyMarkRuntimeThrow_off)

lemma MonitorExit_runtime_throw_off:
  assumes "Opcode (InstructionAt M (work_insn_idx st)) = MONITOR_EXIT"
    and "IsAotMode M \<or> SdkAtLeastS_V2 M"
  shows "have_pending_runtime_throw_failure (snd (Dispatch T L M (SaveWorkLine M st)))
           = have_pending_runtime_throw_failure st"
  using assms
  by (simp add: Dispatch_def Let_def OnWorkLine_def Raise_runtime_throw_off SaveWorkLine_def)

lemma MonitorExit_pending_flags:
  assumes "Opcode (InstructionAt M (work_insn_idx st)) = MONITOR_EXIT"
    and "have_pending_runtime_throw_failure (snd (Dispatch T L M (SaveWorkLine M st)))"
    and "BeforeThrowEdges T L M st = (True, loc, st4)"
  shows "opcode_flags loc = {kThrow}"
proof -
  let ?d = "Dispatch T L M (SaveWorkLine M st)"
  let ?a = "AfterSwitch L M (fst ?d) (snd ?d)"
  have a: "fst ?a \<Longrightarrow> opcode_flags (fst (snd ?a)) = {kThrow}"
    using assms(2) by (simp add: AfterSwitch_def Let_def split: if_splits)
  have l: "fst ?a \<and> loc = fst (snd (HandleBranch L M (fst (snd ?a)) (snd (snd ?a))))"
    using assms(3)
    by (auto simp: BeforeThrowEdges_def Let_def split_def split: if_splits)
  show ?thesis
    using a l by (simp add: HandleBranch_flags)
qed


lemma CompatTryMethod_simps [simp]:
  "InstructionAt (CompatTryMethod inst) pc
     = (if pc = 0 then inst else InstructionAt PlainMethod pc)"
  "FindTryItem (CompatTryMethod inst) pc = (if pc < 2 then Some [(Some 7, 3)] else None)"
  "ResolvesToThrowable (CompatTryMethod inst) ti = False"
  "InsnsSizeInCodeUnits (CompatTryMethod inst) = 4"
  "Insns (CompatTryMethod inst) pc = 0"
  "IsAotMode (CompatTryMethod inst) = False"
  "SdkAtLeastS_V2 (CompatTryMethod inst) = False"
  "IsVerifierMissingKThrowFatal (CompatTryMethod inst) = False"
  by (simp_all add: CompatTryMethod_def TryMethod_def PlainMethod_def)

lemma StrictLineOps_simps [simp]:
  "PopMonitor StrictLineOps l reg
     = (if monitors l = [] then ([RaiseFail VERIFY_ERROR_LOCKING True], l)
        else ([], l\<lparr>monitors := butlast (monitors l)\<rparr>))"
  "MonitorStackDepth StrictLineOps = MonitorStackDepth SmallLineOps"
  "SetResultTypeToUnknown StrictLineOps = SetResultTypeToUnknown SmallLineOps"
  "MergeRegisters StrictLineOps = MergeRegisters SmallLineOps"
  "VerifyMonitorStackEmpty StrictLineOps = VerifyMonitorStackEmpty SmallLineOps"
  by (simp_all add: StrictLineOps_def)

lemma MonitorExit_compat_before:
  "BeforeThrowEdges SmallTypeOps StrictLineOps (CompatTryMethod MonitorExitInst)
     (TryVerifier TwoMonitors)
   = (True,
      \<lparr>opcode_flags = {kContinue}, just_set_result = False, exc_handler_unreachable = False,
       branch_line = None, fallthrough_line = None, branch_target = 0\<rparr>,
      (TryVerifier TwoMonitors)\<lparr>saved_line := TwoMonitors, work_line := OneMonitor\<rparr>)"
  by (auto simp: eval_defs TwoMonitors_def OneMonitor_def)

lemma MonitorExit_compat_dispatch:
  "have_pending_runtime_throw_failure
     (snd (Dispatch SmallTypeOps StrictLineOps (CompatTryMethod MonitorExitInst)
             (SaveWorkLine (CompatTryMethod MonitorExitInst) (TryVerifier TwoMonitors)))) = False"
  by (simp add: eval_defs TwoMonitors_def)

lemma MonitorExit_compat_example:
  "CodeFlowVerifyInstruction SmallTypeOps StrictLineOps (CompatTryMethod MonitorExitInst) 0
     (TryVerifier TwoMonitors)
   = (True, 1,
      (TryVerifier TwoMonitors)
        \<lparr>saved_line := TwoMonitors,
         work_line := OneMonitor,
         insn_flags := [NoFlags\<lparr>IsBranchTarget := True, IsInTry := True, IsChanged := True\<rparr>,
                        NoFlags\<lparr>IsInTry := True, IsChanged := True\<rparr>, NoFlags,
                        TargetFlags]\<rparr>)"
  by (simp add: eval_defs TwoMonitors_def OneMonitor_def)




subsection \<open>The iteration step of the driver\<close>

lemmas drv_defs = DriverStep_def LoadWorkLine_def MarkVisited_def eval_defs LoopFlags_def
  GetBranchOffset_def CheckNotMoveExceptionOrMoveResult_def CheckNotMoveResult_def
  OP_GOTO_def OP_GOTO_16_def OP_GOTO_32_def OP_IF_EQ_def OP_IF_LEZ_def OP_MOVE_RESULT_def
  OP_MOVE_RESULT_OBJECT_def AddOffset_def Transfer_RETURN_VOID_def ConstructorReturnOk_def
  AdjustReturnLine_def

lemma LoopMethod_step1:
  "DriverStep SmallTypeOps SmallLineOps LoopMethod 0 (SetChanged 0 LoopVerifier) =
     Inr (2, LoopState1)"
proof -
  have f: "FindChanged (insn_flags (SetChanged 0 LoopVerifier)) 5 0 = 0"
    by (simp add: FindChanged.simps [of _ 5 0] SetChanged_def LoopVerifier_def LoopFlags_def)
  show ?thesis
    by (simp add: DriverStep_def f)
       (simp add: LoopVerifier_def LoopState1_def drv_defs InitialVerifier_def)
qed

lemma LoopMethod_step2:
  "DriverStep SmallTypeOps SmallLineOps LoopMethod 2 LoopState1 = Inr (4, LoopState2)"
proof -
  have f: "FindChanged (insn_flags LoopState1) 5 2 = 2"
    by (simp add: FindChanged.simps [of _ 5 2] LoopState1_def NoFlags_def)
  show ?thesis
    by (simp add: DriverStep_def f)
       (simp add: LoopVerifier_def LoopState1_def LoopState2_def drv_defs InitialVerifier_def)
qed

lemma DriverStep_cases:
  assumes "start_guess \<le> InsnsSizeInCodeUnits M"
    and "length (insn_flags st) = InsnsSizeInCodeUnits M"
    and "length (reg_table st) = InsnsSizeInCodeUnits M"
  shows "(DriverStep T L M start_guess st = Inl (True, st')) =
           (start_guess = 0 \<and> st' = st \<and>
            (\<forall>j. j < InsnsSizeInCodeUnits M \<longrightarrow> \<not> IsChanged (insn_flags st ! j)))"
    and "start_guess \<noteq> 0 \<Longrightarrow>
         \<forall>j. start_guess \<le> j \<and> j < InsnsSizeInCodeUnits M \<longrightarrow> \<not> IsChanged (insn_flags st ! j) \<Longrightarrow>
         DriverStep T L M start_guess st = Inr (0, st)"
    and "start_guess \<le> i \<Longrightarrow> i < InsnsSizeInCodeUnits M \<Longrightarrow> IsChanged (insn_flags st ! i) \<Longrightarrow>
         \<forall>j. start_guess \<le> j \<and> j < i \<longrightarrow> \<not> IsChanged (insn_flags st ! j) \<Longrightarrow>
         DriverStep T L M start_guess st =
           (let (ok, start_guess1, st2) =
                  CodeFlowVerifyInstruction T L M start_guess (LoadWorkLine i st)
            in if \<not> ok \<or> crashed st2 then Inl (False, st2)
               else Inr (start_guess1, MarkVisited i st2))
         \<and> work_insn_idx (LoadWorkLine i st) = i
         \<and> (IsBranchTarget (insn_flags st ! i) \<longrightarrow>
              (\<forall>line. reg_table st ! i = Some line \<longrightarrow> work_line (LoadWorkLine i st) = line))
         \<and> (\<not> IsBranchTarget (insn_flags st ! i) \<longrightarrow>
              work_line (LoadWorkLine i st) = work_line st)"
proof -
  let ?N = "InsnsSizeInCodeUnits M"
  let ?f = "FindChanged (insn_flags st) ?N start_guess"
  note p = FindChanged_props [OF assms(1), of "insn_flags st"]
  show "(DriverStep T L M start_guess st = Inl (True, st')) =
           (start_guess = 0 \<and> st' = st \<and> (\<forall>j. j < ?N \<longrightarrow> \<not> IsChanged (insn_flags st ! j)))"
  proof (cases "?f = ?N")
    case True
    with p have none: "\<forall>j. start_guess \<le> j \<and> j < ?N \<longrightarrow> \<not> IsChanged (insn_flags st ! j)"
      by simp
    show ?thesis using True none by (auto simp add: DriverStep_def)
  next
    case False
    with p have "?f < ?N" and "IsChanged (insn_flags st ! ?f)" by auto
    then have some: "\<not> (\<forall>j. j < ?N \<longrightarrow> \<not> IsChanged (insn_flags st ! j))" by blast
    show ?thesis using False some
      by (auto simp add: DriverStep_def Let_def split_def)
  qed
next
  assume "start_guess \<noteq> 0"
    and "\<forall>j. start_guess \<le> j \<and> j < InsnsSizeInCodeUnits M \<longrightarrow> \<not> IsChanged (insn_flags st ! j)"
  then show "DriverStep T L M start_guess st = Inr (0, st)"
    using FindChanged_none [OF assms(1), of "insn_flags st"] by (simp add: DriverStep_def)
next
  assume i: "start_guess \<le> i" "i < InsnsSizeInCodeUnits M" "IsChanged (insn_flags st ! i)"
    "\<forall>j. start_guess \<le> j \<and> j < i \<longrightarrow> \<not> IsChanged (insn_flags st ! j)"
  have f: "FindChanged (insn_flags st) (InsnsSizeInCodeUnits M) start_guess = i"
    by (rule FindChanged_least [OF i])
  show "DriverStep T L M start_guess st =
           (let (ok, start_guess1, st2) =
                  CodeFlowVerifyInstruction T L M start_guess (LoadWorkLine i st)
            in if \<not> ok \<or> crashed st2 then Inl (False, st2)
               else Inr (start_guess1, MarkVisited i st2))
         \<and> work_insn_idx (LoadWorkLine i st) = i
         \<and> (IsBranchTarget (insn_flags st ! i) \<longrightarrow>
              (\<forall>line. reg_table st ! i = Some line \<longrightarrow> work_line (LoadWorkLine i st) = line))
         \<and> (\<not> IsBranchTarget (insn_flags st ! i) \<longrightarrow>
              work_line (LoadWorkLine i st) = work_line st)"
    using i(2) assms(2,3) by (simp add: DriverStep_def f LoadWorkLine_simps)
qed

text \<open>
  C9, as amended. One turn of the driver's loop, with the cursor \<open>start_guess\<close> inside the
  method and flags and line table of the method's size. The turn ends the loop with
  success exactly when the cursor is 0 and no instruction is marked changed, and then
  the verifier is left as it was. When no instruction at or after the cursor is marked
  changed and the cursor is not 0, the turn only resets the cursor to 0. Otherwise the
  instruction verified is the lowest-indexed changed one at or after the cursor: the
  turn is \<open>CodeFlowVerifyInstruction\<close> on the verifier with that index as the working
  index, followed by marking it visited and not changed. The working line is then the
  saved line of that pc if the instruction is a branch target, and the line the
  preceding turn left if it is not.
\<close>

theorem driver_selects_first_changed_from_cursor:
  assumes "start_guess \<le> InsnsSizeInCodeUnits M"
    and "length (insn_flags st) = InsnsSizeInCodeUnits M"
    and "length (reg_table st) = InsnsSizeInCodeUnits M"
  shows "((DriverStep T L M start_guess st = Inl (True, st')) =
           (start_guess = 0 \<and> st' = st \<and>
            (\<forall>j. j < InsnsSizeInCodeUnits M \<longrightarrow> \<not> IsChanged (insn_flags st ! j))))
    \<and> (start_guess \<noteq> 0 \<and>
         (\<forall>j. start_guess \<le> j \<and> j < InsnsSizeInCodeUnits M \<longrightarrow> \<not> IsChanged (insn_flags st ! j)) \<longrightarrow>
         DriverStep T L M start_guess st = Inr (0, st))
    \<and> (start_guess \<le> i \<and> i < InsnsSizeInCodeUnits M \<and> IsChanged (insn_flags st ! i) \<and>
         (\<forall>j. start_guess \<le> j \<and> j < i \<longrightarrow> \<not> IsChanged (insn_flags st ! j)) \<longrightarrow>
         DriverStep T L M start_guess st =
           (let (ok, start_guess1, st2) =
                  CodeFlowVerifyInstruction T L M start_guess (LoadWorkLine i st)
            in if \<not> ok \<or> crashed st2 then Inl (False, st2)
               else Inr (start_guess1, MarkVisited i st2))
         \<and> work_insn_idx (LoadWorkLine i st) = i
         \<and> (IsBranchTarget (insn_flags st ! i) \<longrightarrow>
              (\<forall>line. reg_table st ! i = Some line \<longrightarrow> work_line (LoadWorkLine i st) = line))
         \<and> (\<not> IsBranchTarget (insn_flags st ! i) \<longrightarrow>
              work_line (LoadWorkLine i st) = work_line st))"
  using DriverStep_cases [OF assms] by blast

lemma LoopMethod_step3:
  "DriverStep SmallTypeOps SmallLineOps LoopMethod 4 LoopState2 =
     Inr (4, MarkVisited 4 (LoopState2\<lparr>work_insn_idx := 4\<rparr>))"
proof -
  have f: "FindChanged (insn_flags LoopState2) 5 4 = 4"
    by (simp add: FindChanged.simps [of _ 5 4] LoopState2_def NoFlags_def)
  show ?thesis
    by (simp add: DriverStep_def f)
       (simp add: LoopVerifier_def LoopState2_def drv_defs InitialVerifier_def RegTypeOf_def)
qed

theorem driver_selects_first_changed_from_cursor_witness:
  "(0::nat) \<le> InsnsSizeInCodeUnits LoopMethod
   \<and> length (insn_flags (SetChanged 0 LoopVerifier)) = InsnsSizeInCodeUnits LoopMethod
   \<and> length (reg_table (SetChanged 0 LoopVerifier)) = InsnsSizeInCodeUnits LoopMethod
   \<and> IsChanged (insn_flags (SetChanged 0 LoopVerifier) ! 0)
   \<and> IsBranchTarget (insn_flags (SetChanged 0 LoopVerifier) ! 0)
   \<and> DriverStep SmallTypeOps SmallLineOps LoopMethod 0 (SetChanged 0 LoopVerifier) \<noteq>
       Inl (True, SetChanged 0 LoopVerifier)
   \<and> work_insn_idx (LoadWorkLine 0 (SetChanged 0 LoopVerifier)) = 0
   \<and> work_line (LoadWorkLine 0 (SetChanged 0 LoopVerifier)) =
       Regs [kUndefined, kResolvedReference 2]"
proof -
  let ?st = "SetChanged 0 LoopVerifier"
  have a: "(0::nat) \<le> InsnsSizeInCodeUnits LoopMethod" by simp
  have b: "length (insn_flags ?st) = InsnsSizeInCodeUnits LoopMethod"
    by (simp add: SetChanged_def LoopVerifier_def LoopFlags_def)
  have c: "length (reg_table ?st) = InsnsSizeInCodeUnits LoopMethod"
    by (simp add: SetChanged_def LoopVerifier_def)
  have d: "IsChanged (insn_flags ?st ! 0)"
    by (simp add: SetChanged_def LoopVerifier_def LoopFlags_def)
  have e: "IsBranchTarget (insn_flags ?st ! 0)"
    by (simp add: SetChanged_def LoopVerifier_def LoopFlags_def TargetFlags_def)
  have f: "reg_table ?st ! 0 = Some (Regs [kUndefined, kResolvedReference 2])"
    by (simp add: SetChanged_def LoopVerifier_def)
  have n: "0 < InsnsSizeInCodeUnits LoopMethod" by simp
  note t = driver_selects_first_changed_from_cursor
             [of 0 LoopMethod ?st SmallTypeOps SmallLineOps ?st 0, OF a b c]
  from t d n have g: "DriverStep SmallTypeOps SmallLineOps LoopMethod 0 ?st \<noteq> Inl (True, ?st)"
    by blast
  from t d n e f have h: "work_insn_idx (LoadWorkLine 0 ?st) = 0
      \<and> work_line (LoadWorkLine 0 ?st) = Regs [kUndefined, kResolvedReference 2]"
    by blast
  from a b c d e g h show ?thesis by blast
qed

text \<open>
  C9 as stated fails on the method \<open>iget v0, v1; if-eqz v0, -2; return-void\<close>. After the
  driver has verified pc 0 and pc 2, the instructions at pc 0 and at pc 4 are both marked
  changed and the cursor is 4; the next turn verifies pc 4, not the lowest-indexed
  changed instruction, and pc 0 is still marked changed after it.
\<close>

theorem driver_skips_lower_changed_counterexample:
  "DriverStep SmallTypeOps SmallLineOps LoopMethod 0 (SetChanged 0 LoopVerifier) =
     Inr (2, LoopState1)
   \<and> DriverStep SmallTypeOps SmallLineOps LoopMethod 2 LoopState1 = Inr (4, LoopState2)
   \<and> IsChanged (insn_flags LoopState2 ! 0)
   \<and> IsChanged (insn_flags LoopState2 ! 4)
   \<and> (case DriverStep SmallTypeOps SmallLineOps LoopMethod 4 LoopState2 of
         Inl r \<Rightarrow> False
       | Inr (start_guess, st) \<Rightarrow>
           work_insn_idx st = 4 \<and> IsVisited (insn_flags st ! 4) \<and>
           \<not> IsChanged (insn_flags st ! 4) \<and>
           \<not> IsVisited (insn_flags LoopState2 ! 4) \<and>
           IsChanged (insn_flags st ! 0))"
  by (simp only: LoopMethod_step1 LoopMethod_step2 LoopMethod_step3)
     (simp add: LoopState2_def MarkVisited_def TargetFlags_def NoFlags_def)

subsection \<open>The driver terminates\<close>

lemma Progress_frame:
  "insn_flags st' = insn_flags st \<Longrightarrow> reg_table st' = reg_table st \<Longrightarrow> Progress h N X st st'"
proof -
  assume a: "insn_flags st' = insn_flags st" "reg_table st' = reg_table st"
  have "Untouched st' = Untouched st" "RankAt h st' = RankAt h st"
    by (rule ext, simp add: Untouched_def RankAt_def a)+
  then show ?thesis
    by (simp add: Progress_def UntouchedSlots_def SlotRank_def a)
qed

lemma Progress_trans:
  "Progress h N X st st' \<Longrightarrow> Progress h N Y st' st'' \<Longrightarrow> Progress h N (X \<union> Y) st st''"
  unfolding Progress_def
  apply (intro conjI)
     apply simp
    apply simp
   apply blast
  apply (elim conjE disjE)
          apply simp_all
  apply blast
  done

lemma Progress_mono:
  "Progress h N X st st' \<Longrightarrow> X \<subseteq> Y \<Longrightarrow> Progress h N Y st st'"
  unfolding Progress_def by blast

lemma Progress_frame_right:
  "Progress h N X st st' \<Longrightarrow> insn_flags st'' = insn_flags st' \<Longrightarrow>
   reg_table st'' = reg_table st' \<Longrightarrow> Progress h N X st st''"
  using Progress_trans [of h N X st st' "{}" st''] Progress_frame [of st'' st' h N "{}"] by simp

lemma Progress_frame_left:
  "Progress h N X st' st'' \<Longrightarrow> insn_flags st' = insn_flags st \<Longrightarrow>
   reg_table st' = reg_table st \<Longrightarrow> Progress h N X st st''"
  using Progress_trans [of h N "{}" st st' X st''] Progress_frame [of st' st h N "{}"] by simp


lemma UpdateRegisters_shape:
  assumes "UpdateRegisters L M t ml upd st = (True, ml', st')"
  shows "t < length (insn_flags st) \<and> t < length (reg_table st) \<and>
     (\<exists>target. reg_table st ! t = Some target \<and>
       ((\<not> IsVisitedOrChanged (insn_flags st ! t) \<and>
         (\<exists>x. reg_table st' = (reg_table st)[t := Some x]) \<and>
         insn_flags st' = (insn_flags st)[t := (insn_flags st ! t)\<lparr>IsChanged := True\<rparr>]) \<or>
        (IsVisitedOrChanged (insn_flags st ! t) \<and>
         reg_table st' = (reg_table st)[t := Some (fst (snd (MergeRegisters L target ml)))] \<and>
         insn_flags st' =
           (if snd (snd (MergeRegisters L target ml))
            then (insn_flags st)[t := (insn_flags st ! t)\<lparr>IsChanged := True\<rparr>]
            else insn_flags st))))"
proof -
  have g: "t < length (insn_flags st) \<and> t < length (reg_table st)"
    using assms by (cases "t < length (insn_flags st) \<and> t < length (reg_table st)")
                   (simp_all add: UpdateRegisters_def)
  obtain target where tg: "reg_table st ! t = Some target"
    using assms g by (cases "reg_table st ! t") (simp_all add: UpdateRegisters_def)
  show ?thesis
  proof (cases "IsVisitedOrChanged (insn_flags st ! t)")
    case False
    show ?thesis
    proof (cases "IsReturn (insn_flags st ! t)")
      case True
      with False assms g tg show ?thesis
        by (auto simp add: UpdateRegisters_def Let_def split_def SetChanged_def
                 split: if_splits)
    next
      case r: False
      with False assms g tg show ?thesis
        by (auto simp add: UpdateRegisters_def SetChanged_def)
    qed
  next
    case True
    with assms g tg show ?thesis
      by (auto simp add: UpdateRegisters_def Let_def split_def SetChanged_def
               split: if_splits)
  qed
qed

lemma UpdateRegisters_Progress:
  assumes ok: "UpdateRegisters L M t ml upd st = (True, ml', st')"
    and rank: "MergeLowersRank L h"
    and len: "length (insn_flags st) = N" "length (reg_table st) = N"
  shows "Progress h N {} st st'"
proof -
  from UpdateRegisters_shape [OF ok] len obtain target where
    t: "t < N" and tg: "reg_table st ! t = Some target" and
    c: "(\<not> IsVisitedOrChanged (insn_flags st ! t) \<and>
         (\<exists>x. reg_table st' = (reg_table st)[t := Some x]) \<and>
         insn_flags st' = (insn_flags st)[t := (insn_flags st ! t)\<lparr>IsChanged := True\<rparr>]) \<or>
        (IsVisitedOrChanged (insn_flags st ! t) \<and>
         reg_table st' = (reg_table st)[t := Some (fst (snd (MergeRegisters L target ml)))] \<and>
         insn_flags st' =
           (if snd (snd (MergeRegisters L target ml))
            then (insn_flags st)[t := (insn_flags st ! t)\<lparr>IsChanged := True\<rparr>]
            else insn_flags st))"
    by auto
  from c show ?thesis
  proof
    assume a: "\<not> IsVisitedOrChanged (insn_flags st ! t) \<and>
         (\<exists>x. reg_table st' = (reg_table st)[t := Some x]) \<and>
         insn_flags st' = (insn_flags st)[t := (insn_flags st ! t)\<lparr>IsChanged := True\<rparr>]"
    then obtain x where rt: "reg_table st' = (reg_table st)[t := Some x]" by blast
    from a have fl: "insn_flags st' = (insn_flags st)[t := (insn_flags st ! t)\<lparr>IsChanged := True\<rparr>]"
      by blast
    have mono: "\<forall>j. IsChanged (insn_flags st ! j) \<longrightarrow> IsChanged (insn_flags st' ! j)"
      using t len by (simp add: fl nth_list_update)
    have le: "\<forall>j\<in>{..<N}. Untouched st' j \<le> Untouched st j"
      using t len tg by (simp add: Untouched_def fl rt nth_list_update IsVisitedOrChanged_def)
    have lt: "Untouched st' t < Untouched st t"
      using t len tg a by (simp add: Untouched_def fl rt IsVisitedOrChanged_def)
    have "UntouchedSlots N st' < UntouchedSlots N st"
      unfolding UntouchedSlots_def
      by (rule sum_strict_mono_ex1) (use le lt t in auto)
    then show ?thesis using mono by (simp add: Progress_def fl rt)
  next
    assume a: "IsVisitedOrChanged (insn_flags st ! t) \<and>
         reg_table st' = (reg_table st)[t := Some (fst (snd (MergeRegisters L target ml)))] \<and>
         insn_flags st' =
           (if snd (snd (MergeRegisters L target ml))
            then (insn_flags st)[t := (insn_flags st ! t)\<lparr>IsChanged := True\<rparr>]
            else insn_flags st)"
    let ?merged = "fst (snd (MergeRegisters L target ml))"
    let ?changed = "snd (snd (MergeRegisters L target ml))"
    from a have rt: "reg_table st' = (reg_table st)[t := Some ?merged]" by blast
    from a have fl: "insn_flags st' =
           (if ?changed then (insn_flags st)[t := (insn_flags st ! t)\<lparr>IsChanged := True\<rparr>]
            else insn_flags st)" by blast
    from a have touched: "IsVisitedOrChanged (insn_flags st ! t)" by blast
    from rank have r1: "h ?merged \<le> h target" and r2: "?changed \<longrightarrow> h ?merged < h target"
      unfolding MergeLowersRank_def by (auto simp add: split_def)
    have mono: "\<forall>j. IsChanged (insn_flags st ! j) \<longrightarrow> IsChanged (insn_flags st' ! j)"
      using t len by (simp add: fl nth_list_update)
    have v: "\<forall>j. IsVisitedOrChanged (insn_flags st' ! j) = IsVisitedOrChanged (insn_flags st ! j)"
      using t len touched by (auto simp add: fl nth_list_update IsVisitedOrChanged_def)
    have u: "Untouched st' = Untouched st"
      by (rule ext) (use t len tg v in \<open>auto simp add: Untouched_def rt nth_list_update\<close>)
    have le: "\<forall>j\<in>{..<N}. RankAt h st' j \<le> RankAt h st j"
      using t len tg r1 v by (simp add: RankAt_def rt nth_list_update)
    have lt: "?changed \<Longrightarrow> RankAt h st' t < RankAt h st t"
      using t len tg r2 v touched by (simp add: RankAt_def rt)
    have s1: "SlotRank h N st' \<le> SlotRank h N st"
      unfolding SlotRank_def by (rule sum_mono) (use le in auto)
    have s2: "?changed \<Longrightarrow> SlotRank h N st' < SlotRank h N st"
      unfolding SlotRank_def
      by (rule sum_strict_mono_ex1) (use le lt t in auto)
    have len': "length (insn_flags st') = length (insn_flags st)"
               "length (reg_table st') = length (reg_table st)"
      by (simp_all add: fl rt)
    show ?thesis
    proof (cases ?changed)
      case True
      with s2 mono len' u show ?thesis by (simp add: Progress_def UntouchedSlots_def)
    next
      case False
      then have "insn_flags st' = insn_flags st" using fl by simp
      with s1 mono len' u show ?thesis by (simp add: Progress_def UntouchedSlots_def)
    qed
  qed
qed

lemma UpdateRegisters_Progress_snd:
  assumes "fst (UpdateRegisters L M t ml upd st)"
    and "MergeLowersRank L h"
    and "length (insn_flags st) = N" "length (reg_table st) = N"
  shows "Progress h N {} st (snd (snd (UpdateRegisters L M t ml upd st)))"
proof -
  have "UpdateRegisters L M t ml upd st =
          (True, fst (snd (UpdateRegisters L M t ml upd st)),
           snd (snd (UpdateRegisters L M t ml upd st)))"
    using assms(1) by (cases "UpdateRegisters L M t ml upd st") simp
  from UpdateRegisters_Progress [OF this assms(2-4)] show ?thesis .
qed

lemma Progress_lengths:
  "Progress h N X st st' \<Longrightarrow> length (insn_flags st) = N \<Longrightarrow> length (reg_table st) = N \<Longrightarrow>
   length (insn_flags st') = N \<and> length (reg_table st') = N"
  by (simp add: Progress_def)

lemma HandleBranch_Progress:
  assumes ok: "fst (HandleBranch L M loc st)"
    and rank: "MergeLowersRank L h"
    and len: "length (insn_flags st) = N" "length (reg_table st) = N"
  shows "Progress h N {} st (snd (snd (HandleBranch L M loc st)))"
proof (cases "kBranch \<in> opcode_flags loc")
  case False
  then show ?thesis by (simp add: HandleBranch_def Progress_frame)
next
  case True
  show ?thesis
  proof (cases "GetBranchOffset M (work_insn_idx st)")
    case None
    with True ok show ?thesis by (simp add: HandleBranch_def)
  next
    case (Some r)
    obtain off c s where r: "r = (off, c, s)" by (cases r)
    let ?target = "AddOffset (work_insn_idx st) off"
    let ?chk = "CheckNotMoveExceptionOrMoveResult M (ToInt ?target) st"
    let ?ml = "case branch_line loc of Some bl \<Rightarrow> bl | None \<Rightarrow> work_line st"
    let ?upd = "UpdateRegisters L M ?target ?ml False (snd ?chk)"
    from True Some r ok have c1: "fst ?chk"
      by (simp add: HandleBranch_def Let_def split_def split: if_splits)
    from True Some r ok c1 have c2: "fst ?upd"
      by (simp add: HandleBranch_def Let_def split_def cong: option.case_cong)
    from True Some r c1 have eq: "snd (snd (HandleBranch L M loc st)) = snd (snd ?upd)"
      by (simp add: HandleBranch_def Let_def split_def cong: option.case_cong)
    have "Progress h N {} (snd ?chk) (snd (snd ?upd))"
      by (rule UpdateRegisters_Progress_snd [OF c2 rank]) (simp_all add: len)
    then have "Progress h N {} st (snd (snd ?upd))"
      by (rule Progress_frame_left) simp_all
    with eq show ?thesis by simp
  qed
qed

lemma SwitchTargets_Progress:
  "fst (SwitchTargets L M base ott targs st) \<Longrightarrow> MergeLowersRank L h \<Longrightarrow>
   length (insn_flags st) = N \<Longrightarrow> length (reg_table st) = N \<Longrightarrow>
   Progress h N {} st (snd (SwitchTargets L M base ott targs st))"
proof (induction targs arbitrary: st)
  case Nil
  then show ?case by (simp add: Progress_frame)
next
  case (Cons targ targs)
  let ?offset = "Fetch32 (Insns M (nat (base + ott + int targ * 2)))
                         (Insns M (nat (base + ott + int targ * 2 + 1)))"
  let ?abs = "AddOffset (work_insn_idx st) ?offset"
  let ?chk = "CheckNotMoveExceptionOrMoveResult M (ToInt ?abs) st"
  let ?upd = "UpdateRegisters L M ?abs (work_line (snd ?chk)) False (snd ?chk)"
  from Cons.prems(1) have c1: "fst ?chk"
    by (simp add: Let_def split_def split: if_splits)
  from Cons.prems(1) c1 have c2: "fst ?upd"
    by (simp add: Let_def split_def split: if_splits)
  from c1 c2 have eq: "SwitchTargets L M base ott (targ # targs) st =
                       SwitchTargets L M base ott targs (snd (snd ?upd))"
    by (simp add: Let_def split_def)
  have p0: "Progress h N {} (snd ?chk) (snd (snd ?upd))"
    by (rule UpdateRegisters_Progress_snd [OF c2 Cons.prems(2)]) (simp_all add: Cons.prems)
  then have p1: "Progress h N {} st (snd (snd ?upd))"
    by (rule Progress_frame_left) simp_all
  from Progress_lengths [OF p1 Cons.prems(3,4)]
  have l: "length (insn_flags (snd (snd ?upd))) = N" "length (reg_table (snd (snd ?upd))) = N"
    by simp_all
  from Cons.prems(1) have "fst (SwitchTargets L M base ott targs (snd (snd ?upd)))"
    by (simp only: eq)
  from Cons.IH [OF this Cons.prems(2) l]
  have p2: "Progress h N {} (snd (snd ?upd))
              (snd (SwitchTargets L M base ott targs (snd (snd ?upd))))" .
  from Progress_trans [OF p1 p2] show ?case by (simp only: eq Un_empty_left)
qed

lemma HandleSwitch_Progress:
  "fst (HandleSwitch L M loc st) \<Longrightarrow> MergeLowersRank L h \<Longrightarrow>
   length (insn_flags st) = N \<Longrightarrow> length (reg_table st) = N \<Longrightarrow>
   Progress h N {} st (snd (HandleSwitch L M loc st))"
  by (cases "kSwitch \<in> opcode_flags loc")
     (simp_all add: HandleSwitch_def Let_def SwitchTargets_Progress Progress_frame)

lemma ThrowEdges_Progress:
  "fst (ThrowEdges L M handlers b st) \<Longrightarrow> MergeLowersRank L h \<Longrightarrow>
   length (insn_flags st) = N \<Longrightarrow> length (reg_table st) = N \<Longrightarrow>
   Progress h N {} st (snd (snd (ThrowEdges L M handlers b st)))"
proof (induction handlers arbitrary: st b)
  case Nil
  then show ?case by (simp add: Progress_frame)
next
  case (Cons hd handlers)
  obtain ty addr where hd: "hd = (ty, addr)" by (cases hd)
  let ?b1 = "case ty of None \<Rightarrow> True
             | Some ti \<Rightarrow> (if ResolvesToThrowable M ti then True else b)"
  let ?upd = "UpdateRegisters L M addr (saved_line st) False st"
  from Cons.prems(1) have c2: "fst ?upd"
    by (simp add: hd Let_def split_def split: if_splits)
  from c2 have eq: "ThrowEdges L M (hd # handlers) b st =
                    ThrowEdges L M handlers ?b1 (snd (snd ?upd))"
    by (simp add: hd Let_def split_def)
  have p1: "Progress h N {} st (snd (snd ?upd))"
    by (rule UpdateRegisters_Progress_snd [OF c2 Cons.prems(2,3,4)])
  from Progress_lengths [OF p1 Cons.prems(3,4)]
  have l: "length (insn_flags (snd (snd ?upd))) = N" "length (reg_table (snd (snd ?upd))) = N"
    by simp_all
  from Cons.prems(1) have "fst (ThrowEdges L M handlers ?b1 (snd (snd ?upd)))"
    by (simp only: eq)
  from Cons.IH [OF this Cons.prems(2) l]
  have p2: "Progress h N {} (snd (snd ?upd))
              (snd (snd (ThrowEdges L M handlers ?b1 (snd (snd ?upd)))))" .
  from Progress_trans [OF p1 p2] show ?case by (simp only: eq Un_empty_left)
qed

lemma HandleThrow_Progress:
  assumes ok: "fst (HandleThrow L M loc st)"
    and rank: "MergeLowersRank L h"
    and len: "length (insn_flags st) = N" "length (reg_table st) = N"
  shows "Progress h N {} st (snd (HandleThrow L M loc st))"
proof (cases "kThrow \<in> opcode_flags loc \<and> IsInTry (insn_flags st ! work_insn_idx st)")
  case False
  then show ?thesis by (auto simp add: HandleThrow_def Progress_frame)
next
  case True
  show ?thesis
  proof (cases "FindTryItem M (work_insn_idx st)")
    case None
    with True ok show ?thesis by (simp add: HandleThrow_def)
  next
    case (Some handlers)
    let ?te = "ThrowEdges L M handlers False st"
    from True Some ok have c: "fst ?te"
      by (simp add: HandleThrow_def Let_def split_def split: if_splits)
    from True Some ok c have eq: "snd (HandleThrow L M loc st) = snd (snd ?te)"
      by (auto simp add: HandleThrow_def Let_def split_def split: if_splits)
    from ThrowEdges_Progress [OF c rank len] eq show ?thesis by simp
  qed
qed

lemma SetChanged_Progress:
  assumes "reg_table st ! t = None"
  shows "Progress h N {t} st (SetChanged t st)"
proof -
  have v: "\<forall>j. j \<noteq> t \<longrightarrow> insn_flags (SetChanged t st) ! j = insn_flags st ! j"
    by (simp add: SetChanged_def)
  have u: "Untouched (SetChanged t st) = Untouched st"
  proof
    fix j show "Untouched (SetChanged t st) j = Untouched st j"
      using assms v by (cases "j = t") (simp_all add: Untouched_def)
  qed
  have r: "RankAt h (SetChanged t st) = RankAt h st"
  proof
    fix j show "RankAt h (SetChanged t st) j = RankAt h st j"
      using assms v by (cases "j = t") (simp_all add: RankAt_def)
  qed
  have m: "\<forall>j. IsChanged (insn_flags st ! j) \<longrightarrow> IsChanged (insn_flags (SetChanged t st) ! j)"
  proof (intro allI impI)
    fix j assume "IsChanged (insn_flags st ! j)"
    then show "IsChanged (insn_flags (SetChanged t st) ! j)"
      by (cases "j = t"; cases "t < length (insn_flags st)")
         (simp_all add: SetChanged_def list_update_beyond)
  qed
  have x: "\<forall>j<N. IsChanged (insn_flags (SetChanged t st) ! j) \<longrightarrow>
                 IsChanged (insn_flags st ! j) \<or> j \<in> {t}"
    using v by auto
  show ?thesis
    using m x by (simp add: Progress_def UntouchedSlots_def SlotRank_def u r)
qed

lemma HandleContinue_Progress:
  assumes ok: "fst (HandleContinue L M loc st)"
    and rank: "MergeLowersRank L h"
    and len: "length (insn_flags st) = N" "length (reg_table st) = N"
  shows "Progress h N
           {(work_insn_idx st + SizeInCodeUnits (InstructionAt M (work_insn_idx st))) mod 2 ^ 32}
           st (snd (HandleContinue L M loc st))"
proof (cases "kContinue \<in> opcode_flags loc \<and> \<not> exc_handler_unreachable loc")
  case False
  then show ?thesis by (auto simp add: HandleContinue_def Progress_frame)
next
  case True
  define nx where
    "nx = (work_insn_idx st + SizeInCodeUnits (InstructionAt M (work_insn_idx st))) mod 2 ^ 32"
  define st1 where "st1 = snd (CheckNotMoveException M (ToInt nx) st)"
  define st2 where
    "st2 = (case fallthrough_line loc of Some fl \<Rightarrow> st1\<lparr>work_line := fl\<rparr> | None \<Rightarrow> st1)"
  define st3 where
    "st3 = (if IsReturn (insn_flags st2 ! nx)
            then (let (adjusted, s) =
                        AdjustReturnLine L M (InstructionAt M nx) (work_line st2) st2
                  in s\<lparr>work_line := adjusted\<rparr>)
            else st2)"
  have unf: "HandleContinue L M loc st =
      (if nx \<ge> InsnsSizeInCodeUnits M
       then (False, Fail M VERIFY_ERROR_BAD_CLASS_HARD True st)
       else if \<not> fst (CheckNotMoveException M (ToInt nx) st) then (False, st1)
       else if \<not> (nx < length (insn_flags st1) \<and> nx < length (reg_table st1))
       then (False, st1\<lparr>crashed := True\<rparr>)
       else case reg_table st3 ! nx of
              Some next_line \<Rightarrow>
                (let (ok2, ml, st4) = UpdateRegisters L M nx (work_line st3) True st3
                 in if \<not> ok2 then (False, st4) else (True, st4\<lparr>work_line := ml\<rparr>))
            | None \<Rightarrow> (True, SetChanged nx st3))"
    using True
    unfolding HandleContinue_def nx_def st1_def st2_def st3_def Let_def split_def
    by (simp only: if_True simp_thms)
  have f1: "insn_flags st1 = insn_flags st" "reg_table st1 = reg_table st"
    by (simp_all add: st1_def)
  have f2: "insn_flags st2 = insn_flags st" "reg_table st2 = reg_table st"
    by (simp_all add: st2_def f1 split: option.splits)
  have f3: "insn_flags st3 = insn_flags st" "reg_table st3 = reg_table st"
    by (simp_all add: st3_def f2 split_def Let_def)
  show ?thesis
  proof (cases "reg_table st3 ! nx")
    case None
    from ok have "snd (HandleContinue L M loc st) = SetChanged nx st3"
      by (simp add: unf None split: if_splits)
    moreover have "Progress h N {nx} st (SetChanged nx st3)"
      by (rule Progress_frame_left [OF SetChanged_Progress [OF None]]) (simp_all add: f3)
    ultimately show ?thesis by (simp add: nx_def)
  next
    case (Some next_line)
    let ?upd = "UpdateRegisters L M nx (work_line st3) True st3"
    from ok have c: "fst ?upd"
      by (simp add: unf Some split_def Let_def split: if_splits)
    from ok c have eq: "snd (HandleContinue L M loc st) =
                        (snd (snd ?upd))\<lparr>work_line := fst (snd ?upd)\<rparr>"
      by (simp add: unf Some split_def Let_def split: if_splits)
    have "Progress h N {} st3 (snd (snd ?upd))"
      by (rule UpdateRegisters_Progress_snd [OF c rank]) (simp_all add: f3 len)
    then have "Progress h N {} st3 ((snd (snd ?upd))\<lparr>work_line := fst (snd ?upd)\<rparr>)"
      by (rule Progress_frame_right) simp_all
    then have "Progress h N {} st ((snd (snd ?upd))\<lparr>work_line := fst (snd ?upd)\<rparr>)"
      by (rule Progress_frame_left) (simp_all add: f3)
    then have "Progress h N {nx} st ((snd (snd ?upd))\<lparr>work_line := fst (snd ?upd)\<rparr>)"
      by (rule Progress_mono) simp
    with eq show ?thesis by (simp add: nx_def)
  qed
qed

lemma HandleThrow_idx:
  "work_insn_idx (snd (HandleThrow L M loc st)) = work_insn_idx st"
  by (simp add: HandleThrow_def Let_def split_def ThrowEdges_idx split: option.splits)

lemma BeforeThrowEdges_Progress:
  assumes ok: "fst (BeforeThrowEdges T L M st)"
    and rank: "MergeLowersRank L h"
    and len: "length (insn_flags st) = N" "length (reg_table st) = N"
  shows "Progress h N {} st (snd (snd (BeforeThrowEdges T L M st)))"
proof -
  define d where "d = Dispatch T L M (SaveWorkLine M st)"
  define a where "a = AfterSwitch L M (fst d) (snd d)"
  define b where "b = HandleBranch L M (fst (snd a)) (snd (snd a))"
  define s where "s = HandleSwitch L M (fst (snd b)) (snd (snd b))"
  have unf: "BeforeThrowEdges T L M st =
      (if \<not> fst a then (False, fst (snd a), snd (snd a))
       else if \<not> fst b then (False, fst (snd b), snd (snd b))
       else (fst s, fst (snd b), snd s))"
    unfolding BeforeThrowEdges_def d_def a_def b_def s_def Let_def split_def
    by (rule refl)
  from ok have cb: "fst b" and cs: "fst s" by (simp_all add: unf split: if_splits)
  from ok have eq: "snd (snd (BeforeThrowEdges T L M st)) = snd s"
    by (simp add: unf split: if_splits)
  have fa: "insn_flags (snd (snd a)) = insn_flags st" "reg_table (snd (snd a)) = reg_table st"
    by (simp_all add: a_def d_def)
  have "Progress h N {} (snd (snd a)) (snd (snd b))"
    unfolding b_def
    by (rule HandleBranch_Progress [OF cb [unfolded b_def] rank]) (simp_all add: fa len)
  then have p1: "Progress h N {} st (snd (snd b))"
    by (rule Progress_frame_left) (simp_all add: fa)
  from Progress_lengths [OF p1 len]
  have l: "length (insn_flags (snd (snd b))) = N" "length (reg_table (snd (snd b))) = N"
    by simp_all
  have p2: "Progress h N {} (snd (snd b)) (snd s)"
    unfolding s_def by (rule HandleSwitch_Progress [OF cs [unfolded s_def] rank l])
  from Progress_trans [OF p1 p2] eq show ?thesis by simp
qed

lemma CodeFlowVerifyInstruction_Progress:
  assumes ok: "fst (CodeFlowVerifyInstruction T L M sg st)"
    and rank: "MergeLowersRank L h"
    and len: "length (insn_flags st) = N" "length (reg_table st) = N"
  shows "Progress h N
           {(work_insn_idx st + SizeInCodeUnits (InstructionAt M (work_insn_idx st))) mod 2 ^ 32}
           st (snd (snd (CodeFlowVerifyInstruction T L M sg st)))"
proof -
  define b where "b = BeforeThrowEdges T L M st"
  define t where "t = HandleThrow L M (fst (snd b)) (snd (snd b))"
  define c where "c = HandleContinue L M (fst (snd b)) (snd t)"
  define st7 where
    "st7 = (if kReturn \<in> opcode_flags (fst (snd b))
            then Raise M (VerifyMonitorStackEmpty L (work_line (snd c))) (snd c)
            else snd c)"
  define st8 where
    "st8 = (if have_pending_runtime_throw_failure st7
            then (Fail M VERIFY_ERROR_RUNTIME_THROW False st7)
                   \<lparr>have_pending_runtime_throw_failure := False\<rparr>
            else st7)"
  have unf: "snd (snd (CodeFlowVerifyInstruction T L M sg st)) =
      (if \<not> fst b then snd (snd b)
       else if \<not> fst t then snd t
       else if \<not> fst c then snd c
       else st8)"
    unfolding CodeFlowVerifyInstruction_def b_def t_def c_def st7_def st8_def Let_def split_def
    by simp
  have okk: "fst (CodeFlowVerifyInstruction T L M sg st) = (fst b \<and> fst t \<and> fst c)"
    unfolding CodeFlowVerifyInstruction_def b_def t_def c_def Let_def split_def
    by simp
  from ok okk have cb: "fst b" and ct: "fst t" and cc: "fst c" by simp_all
  have p1: "Progress h N {} st (snd (snd b))"
    unfolding b_def by (rule BeforeThrowEdges_Progress [OF cb [unfolded b_def] rank len])
  note l1 = Progress_lengths [OF p1 len]
  have p2: "Progress h N {} (snd (snd b)) (snd t)"
    unfolding t_def
    by (rule HandleThrow_Progress [OF ct [unfolded t_def] rank]) (simp_all add: l1)
  from Progress_trans [OF p1 p2] have p12: "Progress h N {} st (snd t)" by simp
  note l2 = Progress_lengths [OF p12 len]
  have idx: "work_insn_idx (snd t) = work_insn_idx st"
    by (simp add: t_def b_def HandleThrow_idx)
  have p3: "Progress h N
             {(work_insn_idx st + SizeInCodeUnits (InstructionAt M (work_insn_idx st))) mod 2 ^ 32}
             (snd t) (snd c)"
    using HandleContinue_Progress [OF cc [unfolded c_def] rank, of N] l2
    by (simp add: c_def idx)
  from Progress_trans [OF p12 p3]
  have p: "Progress h N
             {(work_insn_idx st + SizeInCodeUnits (InstructionAt M (work_insn_idx st))) mod 2 ^ 32}
             st (snd c)" by simp
  have f: "insn_flags st8 = insn_flags (snd c)" "reg_table st8 = reg_table (snd c)"
    by (simp_all add: st8_def st7_def)
  from Progress_frame_right [OF p f] unf cb ct cc show ?thesis by simp
qed

lemma MarkVisited_potential:
  assumes "IsChanged (insn_flags st ! i)"
  shows "UntouchedSlots N (MarkVisited i st) = UntouchedSlots N st"
    and "SlotRank h N (MarkVisited i st) = SlotRank h N st"
proof -
  have v: "IsVisitedOrChanged (insn_flags (MarkVisited i st) ! j) =
           IsVisitedOrChanged (insn_flags st ! j)" for j
    using assms
    by (cases "j = i"; cases "i < length (insn_flags st)")
       (simp_all add: MarkVisited_def IsVisitedOrChanged_def list_update_beyond)
  have r: "reg_table (MarkVisited i st) = reg_table st" by (simp add: MarkVisited_def)
  have "Untouched (MarkVisited i st) = Untouched st"
    by (rule ext) (simp add: Untouched_def v r)
  then show "UntouchedSlots N (MarkVisited i st) = UntouchedSlots N st"
    by (simp add: UntouchedSlots_def)
  have "RankAt h (MarkVisited i st) = RankAt h st"
    by (rule ext) (simp add: RankAt_def v r)
  then show "SlotRank h N (MarkVisited i st) = SlotRank h N st"
    by (simp add: SlotRank_def)
qed

lemma ChangedWeight_step:
  assumes i: "i < N" and len: "length (insn_flags st2) = N"
    and ch: "IsChanged (insn_flags st ! i)"
    and new: "\<forall>j<N. IsChanged (insn_flags st2 ! j) \<longrightarrow> IsChanged (insn_flags st ! j) \<or> j = nx"
    and nx: "i \<le> nx"
  shows "ChangedWeight N (MarkVisited i st2) < ChangedWeight N st"
proof -
  let ?c' = "ChangedAt N (MarkVisited i st2)"
  let ?c = "ChangedAt N st"
  let ?d = "\<lambda>j. if j = nx then N - nx else 0"
  let ?S = "{..<N} - {i}"
  have fin: "finite {..<N}" and mem: "i \<in> {..<N}" using i by simp_all
  have c'i: "?c' i = 0" using i len by (simp add: ChangedAt_def MarkVisited_def)
  have ci: "?c i = N - i" using ch by (simp add: ChangedAt_def)
  have le: "\<forall>j\<in>?S. ?c' j \<le> ?c j + ?d j"
  proof
    fix j assume "j \<in> ?S"
    then have j: "j < N" "j \<noteq> i" by simp_all
    then have "insn_flags (MarkVisited i st2) ! j = insn_flags st2 ! j"
      by (simp add: MarkVisited_def)
    with new j show "?c' j \<le> ?c j + ?d j" by (auto simp add: ChangedAt_def)
  qed
  have "sum ?c' {..<N} = ?c' i + sum ?c' ?S" by (rule sum.remove [OF fin mem])
  also have "\<dots> = sum ?c' ?S" by (simp add: c'i)
  also have "\<dots> \<le> sum (\<lambda>j. ?c j + ?d j) ?S" by (rule sum_mono) (use le in blast)
  also have "\<dots> = sum ?c ?S + sum ?d ?S" by (rule sum.distrib)
  finally have a: "sum ?c' {..<N} \<le> sum ?c ?S + sum ?d ?S" .
  have "sum ?d ?S = (if nx \<in> ?S then N - nx else 0)"
    by (rule sum.delta) simp
  then have d: "sum ?d ?S < N - i" using i nx by auto
  have "sum ?c {..<N} = ?c i + sum ?c ?S" by (rule sum.remove [OF fin mem])
  then have b: "sum ?c {..<N} = (N - i) + sum ?c ?S" by (simp add: ci)
  from a d b show ?thesis by (simp add: ChangedWeight_def)
qed

lemma DriverStep_decreases:
  assumes step: "DriverStep T L M sg st = Inr (sg', st')"
    and rank: "MergeLowersRank L h"
    and len: "length (insn_flags st) = InsnsSizeInCodeUnits M"
             "length (reg_table st) = InsnsSizeInCodeUnits M"
    and nowrap: "\<forall>pc<InsnsSizeInCodeUnits M. pc + SizeInCodeUnits (InstructionAt M pc) < 2 ^ 32"
  shows "(DriverMeasure h (InsnsSizeInCodeUnits M) (sg', st'),
          DriverMeasure h (InsnsSizeInCodeUnits M) (sg, st))
           \<in> less_than <*lex*> less_than <*lex*> less_than <*lex*> less_than
         \<and> length (insn_flags st') = InsnsSizeInCodeUnits M
         \<and> length (reg_table st') = InsnsSizeInCodeUnits M"
proof -
  let ?N = "InsnsSizeInCodeUnits M"
  let ?i = "FindChanged (insn_flags st) ?N sg"
  show ?thesis
  proof (cases "?i = ?N")
    case True
    with step have "sg \<noteq> 0" "sg' = 0" "st' = st"
      by (auto simp add: DriverStep_def split: if_splits)
    then show ?thesis using len by (simp add: DriverMeasure_def)
  next
    case False
    let ?st1 = "LoadWorkLine ?i st"
    let ?cf = "CodeFlowVerifyInstruction T L M sg ?st1"
    let ?st2 = "snd (snd ?cf)"
    from False step len have iN: "?i < ?N"
      by (auto simp add: DriverStep_def Let_def split: if_splits)
    from False step iN len have ok: "fst ?cf" and st': "st' = MarkVisited ?i ?st2"
      by (auto simp add: DriverStep_def Let_def split_def split: if_splits)
    have sgN: "sg \<le> ?N"
    proof (rule ccontr)
      assume "\<not> sg \<le> ?N"
      then have "?i = sg" by (simp add: FindChanged.simps [of _ ?N sg])
      with iN \<open>\<not> sg \<le> ?N\<close> show False by simp
    qed
    from FindChanged_props [OF sgN, of "insn_flags st"] iN
    have ch: "IsChanged (insn_flags st ! ?i)" by blast
    have f1: "insn_flags ?st1 = insn_flags st" "reg_table ?st1 = reg_table st"
             "work_insn_idx ?st1 = ?i"
      by (simp_all add: LoadWorkLine_simps)
    let ?nx = "(?i + SizeInCodeUnits (InstructionAt M ?i)) mod 2 ^ 32"
    have "Progress h ?N {?nx} ?st1 ?st2"
      using CodeFlowVerifyInstruction_Progress [OF ok rank, of ?N] len
      by (simp add: f1)
    then have p: "Progress h ?N {?nx} st ?st2"
      by (rule Progress_frame_left) (simp_all add: f1)
    from nowrap iN have nx: "?i \<le> ?nx" by simp
    from p have l2: "length (insn_flags ?st2) = ?N" "length (reg_table ?st2) = ?N"
      using len by (simp_all add: Progress_def)
    from p ch have ch2: "IsChanged (insn_flags ?st2 ! ?i)" by (simp add: Progress_def)
    note mv = MarkVisited_potential [OF ch2]
    have l3: "length (insn_flags st') = ?N" "length (reg_table st') = ?N"
      using l2 by (simp_all add: st' MarkVisited_def)
    from p have "UntouchedSlots ?N ?st2 < UntouchedSlots ?N st \<or>
       (UntouchedSlots ?N ?st2 = UntouchedSlots ?N st \<and> SlotRank h ?N ?st2 < SlotRank h ?N st) \<or>
       (UntouchedSlots ?N ?st2 = UntouchedSlots ?N st \<and> SlotRank h ?N ?st2 \<le> SlotRank h ?N st \<and>
        (\<forall>j<?N. IsChanged (insn_flags ?st2 ! j) \<longrightarrow> IsChanged (insn_flags st ! j) \<or> j = ?nx))"
      by (simp add: Progress_def)
    then have "(DriverMeasure h ?N (sg', st'), DriverMeasure h ?N (sg, st))
                 \<in> less_than <*lex*> less_than <*lex*> less_than <*lex*> less_than"
    proof (elim disjE conjE)
      assume "UntouchedSlots ?N ?st2 < UntouchedSlots ?N st"
      then show ?thesis by (simp add: DriverMeasure_def st' mv)
    next
      assume "UntouchedSlots ?N ?st2 = UntouchedSlots ?N st"
             "SlotRank h ?N ?st2 < SlotRank h ?N st"
      then show ?thesis by (simp add: DriverMeasure_def st' mv)
    next
      assume a: "UntouchedSlots ?N ?st2 = UntouchedSlots ?N st"
             "SlotRank h ?N ?st2 \<le> SlotRank h ?N st"
             "\<forall>j<?N. IsChanged (insn_flags ?st2 ! j) \<longrightarrow> IsChanged (insn_flags st ! j) \<or> j = ?nx"
      from ChangedWeight_step [OF iN l2(1) ch a(3) nx]
      have "ChangedWeight ?N (MarkVisited ?i ?st2) < ChangedWeight ?N st" .
      with a(1,2) show ?thesis by (auto simp add: DriverMeasure_def st' mv)
    qed
    with l3 show ?thesis by simp
  qed
qed

lemma CodeFlowVerifyLoop_terminates:
  assumes rank: "MergeLowersRank L h"
    and nowrap: "\<forall>pc<InsnsSizeInCodeUnits M. pc + SizeInCodeUnits (InstructionAt M pc) < 2 ^ 32"
  shows "length (insn_flags (snd p)) = InsnsSizeInCodeUnits M \<longrightarrow>
         length (reg_table (snd p)) = InsnsSizeInCodeUnits M \<longrightarrow>
         (\<exists>r. CodeFlowVerifyLoop T L M (fst p) (snd p) = Some r)"
proof -
  let ?N = "InsnsSizeInCodeUnits M"
  have wf: "wf (inv_image (less_than <*lex*> less_than <*lex*> less_than <*lex*> less_than)
                  (DriverMeasure h ?N))"
    by (intro wf_inv_image wf_lex_prod wf_less_than)
  show ?thesis
  proof (induct p rule: wf_induct_rule [OF wf])
    case (1 p)
    show ?case
    proof (intro impI)
      assume len: "length (insn_flags (snd p)) = ?N" "length (reg_table (snd p)) = ?N"
      show "\<exists>r. CodeFlowVerifyLoop T L M (fst p) (snd p) = Some r"
      proof (cases "DriverStep T L M (fst p) (snd p)")
        case (Inl r)
        then show ?thesis by (subst CodeFlowVerifyLoop.simps) simp
      next
        case (Inr q)
        obtain sg' st' where q: "q = (sg', st')" by (cases q)
        from Inr q have step: "DriverStep T L M (fst p) (snd p) = Inr (sg', st')" by simp
        from DriverStep_decreases [OF step rank len nowrap]
        have d: "(q, p) \<in> inv_image (less_than <*lex*> less_than <*lex*> less_than <*lex*> less_than)
                  (DriverMeasure h ?N)"
          and l: "length (insn_flags st') = ?N" "length (reg_table st') = ?N"
          by (simp_all add: q)
        from 1 [OF d] l have "\<exists>r. CodeFlowVerifyLoop T L M sg' st' = Some r"
          by (simp add: q)
        then show ?thesis by (subst CodeFlowVerifyLoop.simps) (simp add: step)
      qed
    qed
  qed
qed

lemma MergeKind_rank:
  "length (map2 MergeKind xs ys) + length (filter (\<lambda>k. k \<noteq> kConflict) (map2 MergeKind xs ys))
     \<le> length xs + length (filter (\<lambda>k. k \<noteq> kConflict) xs)
   \<and> (map2 MergeKind xs ys \<noteq> xs \<longrightarrow>
        length (map2 MergeKind xs ys)
          + length (filter (\<lambda>k. k \<noteq> kConflict) (map2 MergeKind xs ys))
        < length xs + length (filter (\<lambda>k. k \<noteq> kConflict) xs))"
proof (induction xs arbitrary: ys)
  case Nil
  then show ?case by simp
next
  case (Cons x xs)
  show ?case
  proof (cases ys)
    case Nil
    then show ?thesis by simp
  next
    case (Cons y ys')
    with Cons.IH [of ys'] show ?thesis by (auto simp add: MergeKind_def)
  qed
qed

lemma SmallLineOps_MergeLowersRank: "MergeLowersRank SmallLineOps LineRank"
proof -
  have r: "LineRank (t\<lparr>regs := map2 MergeKind (regs t) (regs m)\<rparr>) \<le> LineRank t
        \<and> (t\<lparr>regs := map2 MergeKind (regs t) (regs m)\<rparr> \<noteq> t \<longrightarrow>
             LineRank (t\<lparr>regs := map2 MergeKind (regs t) (regs m)\<rparr>) < LineRank t)" for t m
  proof -
    have "t\<lparr>regs := map2 MergeKind (regs t) (regs m)\<rparr> \<noteq> t \<Longrightarrow>
          map2 MergeKind (regs t) (regs m) \<noteq> regs t"
      by (cases t) auto
    with MergeKind_rank [of "regs t" "regs m"] show ?thesis
      by (auto simp add: LineRank_def)
  qed
  show ?thesis
    unfolding MergeLowersRank_def
  proof (intro allI)
    fix t m
    from r [of t m] show "case MergeRegisters SmallLineOps t m of
            (raised, merged, changed) \<Rightarrow>
              LineRank merged \<le> LineRank t \<and> (changed \<longrightarrow> LineRank merged < LineRank t)"
      by (simp only: SmallLineOps_simps prod.case)
  qed
qed

text \<open>
  C1. The loop of \<open>CodeFlowVerifyMethod\<close> ends, with a result, for every method and every
  verifier whose flags and line table have the size of the method, provided that the
  register lines carry a rank that no merge raises and that every merge reporting a change
  lowers (the lattice has finite height and merging is monotone), and that no instruction
  of the method ends beyond the 32-bit range of its indices. Each turn of the loop either
  writes a line slot for the first time, or lowers the rank of a written slot, or, marking
  nothing changed but possibly the fall-through successor, clears the changed mark of
  the instruction it verified: \<open>UpdateRegisters\<close> marks a successor changed only on those
  first two occasions.
\<close>

theorem CodeFlowVerifyMethod_terminates:
  assumes "MergeLowersRank L h"
    and "\<forall>pc<InsnsSizeInCodeUnits M. pc + SizeInCodeUnits (InstructionAt M pc) < 2 ^ 32"
    and "length (insn_flags st) = InsnsSizeInCodeUnits M"
    and "length (reg_table st) = InsnsSizeInCodeUnits M"
  shows "\<exists>r. CodeFlowVerifyMethod T L M st = Some r"
  using CodeFlowVerifyLoop_terminates [OF assms(1,2), of "(0, SetChanged 0 st)" T] assms(3,4)
  by (simp add: CodeFlowVerifyMethod_def)

theorem CodeFlowVerifyMethod_terminates_witness:
  "CodeFlowVerifyMethod SmallTypeOps SmallLineOps LoopMethod LoopVerifier \<noteq> None"
proof -
  have a: "\<forall>pc<InsnsSizeInCodeUnits LoopMethod.
             pc + SizeInCodeUnits (InstructionAt LoopMethod pc) < 2 ^ 32"
    by (simp add: IgetInst_def)
  have b: "length (insn_flags LoopVerifier) = InsnsSizeInCodeUnits LoopMethod"
    by (simp add: LoopVerifier_def LoopFlags_def)
  have c: "length (reg_table LoopVerifier) = InsnsSizeInCodeUnits LoopMethod"
    by (simp add: LoopVerifier_def)
  from CodeFlowVerifyMethod_terminates [OF SmallLineOps_MergeLowersRank a b c, of SmallTypeOps]
  show ?thesis by auto
qed

subsection \<open>Failures of the static pre-pass\<close>

lemma FailHard_rejects [simp]:
  "\<not> fst (FailHard M st)" "HardRejected (snd (FailHard M st))"
  by (simp_all add: FailHard_def HardRejected_def)

lemma HardIfFalse_simps [simp]:
  "HardIfFalse (True, st)" "HardIfFalse (FailHard M st)" "HardIfFalse (False, st\<lparr>crashed := True\<rparr>)"
  by (simp_all add: HardIfFalse_def)

lemma AndCheck_HardIfFalse:
  "HardIfFalse r \<Longrightarrow> (\<And>st. HardIfFalse (c st)) \<Longrightarrow> HardIfFalse (AndCheck r c)"
  by (auto simp add: AndCheck_def HardIfFalse_def)

lemma CheckSwitchTargetList_HardIfFalse:
  "HardIfFalse (CheckSwitchTargetList M cur sw toff targs st)"
  by (induction targs arbitrary: st) (simp_all add: Let_def)

lemma checks_HardIfFalse:
  "HardIfFalse (CheckRegisterIndex D M idx st)"
  "HardIfFalse (CheckWideRegisterIndex D M idx st)"
  "HardIfFalse (CheckCallSiteIndex D M idx st)"
  "HardIfFalse (CheckFieldIndex D M inst idx st)"
  "HardIfFalse (CheckMethodIndex D M idx st)"
  "HardIfFalse (CheckMethodHandleIndex D M idx st)"
  "HardIfFalse (CheckPrototypeIndex D M idx st)"
  "HardIfFalse (CheckStringIndex D M idx st)"
  "HardIfFalse (CheckTypeIndex D M idx st)"
  "HardIfFalse (CheckNewInstance D M idx st)"
  "HardIfFalse (CheckNewArray D M idx st)"
  "HardIfFalse (CheckVarArgRegs D M inst vA st)"
  "HardIfFalse (CheckVarArgRangeRegs D M vA vC st)"
  "HardIfFalse (CheckArrayData M cur st)"
  "HardIfFalse (CheckSwitchTargets D M cur st)"
  by (simp_all add: CheckRegisterIndex_def CheckWideRegisterIndex_def CheckCallSiteIndex_def
        CheckFieldIndex_def CheckMethodIndex_def CheckMethodHandleIndex_def
        CheckPrototypeIndex_def CheckStringIndex_def CheckTypeIndex_def CheckNewInstance_def
        CheckNewArray_def CheckVarArgRegs_def CheckVarArgRangeRegs_def CheckArrayData_def
        CheckSwitchTargets_def CheckSwitchTargetList_HardIfFalse Let_def)

lemma CheckBranchTarget_HardIfFalse:
  "GetBranchOffset M cur \<noteq> None \<Longrightarrow> HardIfFalse (CheckBranchTarget M cur st)"
  by (auto simp add: CheckBranchTarget_def Let_def)

lemma VerifyArgumentA_HardIfFalse:
  "HardIfFalse r \<Longrightarrow> HardIfFalse (VerifyArgumentA D M inst r)"
  by (cases "GetVerifyTypeArgumentA inst")
     (simp_all add: VerifyArgumentA_def AndCheck_HardIfFalse checks_HardIfFalse)

lemma VerifyArgumentB_HardIfFalse:
  "HardIfFalse r \<Longrightarrow> HardIfFalse (VerifyArgumentB D M inst r)"
  by (cases "GetVerifyTypeArgumentB inst")
     (simp_all add: VerifyArgumentB_def AndCheck_HardIfFalse checks_HardIfFalse)

lemma VerifyArgumentC_HardIfFalse:
  "HardIfFalse r \<Longrightarrow> HardIfFalse (VerifyArgumentC D M inst r)"
  by (cases "GetVerifyTypeArgumentC inst")
     (simp_all add: VerifyArgumentC_def AndCheck_HardIfFalse checks_HardIfFalse)

lemma VerifyArgumentH_HardIfFalse:
  "HardIfFalse r \<Longrightarrow> HardIfFalse (VerifyArgumentH D M inst r)"
  by (cases "GetVerifyTypeArgumentH inst")
     (simp_all add: VerifyArgumentH_def AndCheck_HardIfFalse checks_HardIfFalse)

lemma VerifyExtraArgs_HardIfFalse:
  assumes "HardIfFalse r"
    and "GetVerifyExtraFlags inst = kVerifyBranchTarget \<longrightarrow> GetBranchOffset M pc \<noteq> None"
  shows "HardIfFalse (VerifyExtraArgs D M inst pc r)"
proof (cases "GetVerifyExtraFlags inst")
  case kVerifyBranchTarget
  with assms(2) have "\<And>st. HardIfFalse (CheckBranchTarget M pc st)"
    by (simp add: CheckBranchTarget_HardIfFalse)
  then have "HardIfFalse (AndCheck r (CheckBranchTarget M pc))"
    by (rule AndCheck_HardIfFalse [OF assms(1)])
  with kVerifyBranchTarget show ?thesis
    by (simp add: VerifyExtraArgs_def)
qed (use assms(1) in \<open>simp_all add: VerifyExtraArgs_def Let_def AndCheck_HardIfFalse
       checks_HardIfFalse\<close>)

lemma VerifyInstruction_HardIfFalse:
  assumes "GetVerifyExtraFlags inst = kVerifyBranchTarget \<longrightarrow> GetBranchOffset M pc \<noteq> None"
  shows "HardIfFalse (VerifyInstruction D M inst pc st)"
  unfolding VerifyInstruction_def
  by (intro VerifyExtraArgs_HardIfFalse VerifyArgumentH_HardIfFalse VerifyArgumentC_HardIfFalse
        VerifyArgumentB_HardIfFalse VerifyArgumentA_HardIfFalse assms) simp


lemma VerifyInstructionsFrom_HardIfFalse:
  assumes run: "VerifyInstructionsFrom D M pc st = Some r"
    and br: "\<forall>pc. GetVerifyExtraFlags (DecodeAt D pc) = kVerifyBranchTarget \<longrightarrow>
                   GetBranchOffset M pc \<noteq> None"
  shows "HardIfFalse r"
proof -
  have "(\<forall>pc. GetVerifyExtraFlags (DecodeAt D pc) = kVerifyBranchTarget \<longrightarrow>
               GetBranchOffset M pc \<noteq> None) \<longrightarrow> HardIfFalse r"
  proof (rule VerifyInstructionsFrom.raw_induct
           [where P = "\<lambda>D M pc st r.
              (\<forall>pc. GetVerifyExtraFlags (DecodeAt D pc) = kVerifyBranchTarget \<longrightarrow>
                    GetBranchOffset M pc \<noteq> None) \<longrightarrow> HardIfFalse r", OF _ run])
    fix f :: "DexFile \<Rightarrow> ('b, 'c) Method \<Rightarrow> nat \<Rightarrow> 'a Verifier \<Rightarrow> (bool \<times> 'a Verifier) option"
    fix D :: DexFile and M :: "('b, 'c) Method" and pc :: nat and st :: "'a Verifier"
      and r :: "bool \<times> 'a Verifier"
    assume IH: "\<And>D M pc st r. f D M pc st = Some r \<Longrightarrow>
                 (\<forall>pc. GetVerifyExtraFlags (DecodeAt D pc) = kVerifyBranchTarget \<longrightarrow>
                       GetBranchOffset M pc \<noteq> None) \<longrightarrow> HardIfFalse r"
      and body: "(if pc = InsnsSizeInCodeUnits M then Some (True, st)
                  else case VerifyInstruction D M (DecodeAt D pc) pc st of
                       (ok, st1) \<Rightarrow>
                         if \<not> ok then Some (False, st1)
                         else f D M ((pc + DecodedSizeInCodeUnits (DecodeAt D pc)) mod 2 ^ 32)
                                (if DecodedIsReturn (DecodeAt D pc) then SetReturn pc st1
                                 else st1)) = Some r"
    show "(\<forall>pc. GetVerifyExtraFlags (DecodeAt D pc) = kVerifyBranchTarget \<longrightarrow>
                GetBranchOffset M pc \<noteq> None) \<longrightarrow> HardIfFalse r"
    proof (intro impI)
      assume br: "\<forall>pc. GetVerifyExtraFlags (DecodeAt D pc) = kVerifyBranchTarget \<longrightarrow>
                       GetBranchOffset M pc \<noteq> None"
      let ?vi = "VerifyInstruction D M (DecodeAt D pc) pc st"
      have vi: "HardIfFalse ?vi"
        by (rule VerifyInstruction_HardIfFalse) (use br in blast)
      show "HardIfFalse r"
      proof (cases "pc = InsnsSizeInCodeUnits M")
        case True
        with body show ?thesis by auto
      next
        case False
        show ?thesis
        proof (cases "fst ?vi")
          case ok: False
          with False body have "r = (False, snd ?vi)" by (simp add: split_def)
          with ok vi show ?thesis by (simp add: HardIfFalse_def)
        next
          case ok: True
          with False body have
            "f D M ((pc + DecodedSizeInCodeUnits (DecodeAt D pc)) mod 2 ^ 32)
               (if DecodedIsReturn (DecodeAt D pc) then SetReturn pc (snd ?vi) else snd ?vi)
             = Some r"
            by (simp add: split_def)
          from IH [OF this] br show ?thesis by blast
        qed
      qed
    qed
  qed
  with br show ?thesis by blast
qed

text \<open>
  C7, as amended. When the static instruction verification returns false, on an
  instruction whose checks did not read outside the flags, the hard-failure flag is
  set and the failure recorded last is \<open>VERIFY_ERROR_BAD_CLASS_HARD\<close>; \<open>Verify\<close> then returns
  false without running the code-flow pass and \<open>VerifyMethod\<close> reports a hard failure. The
  opcodes flagged as having a branch target are taken to be the ones \<open>GetBranchOffset\<close>
  knows. A check can raise a failure without returning false: see the counterexample.
\<close>

theorem prepass_rejection_is_hard:
  assumes "\<forall>pc. GetVerifyExtraFlags (DecodeAt D pc) = kVerifyBranchTarget \<longrightarrow>
                GetBranchOffset M pc \<noteq> None"
    and "VerifyInstructions D M st = Some (False, st')"
    and "\<not> crashed st'"
  shows "have_pending_hard_failure st' \<and> failures st' \<noteq> []
         \<and> last (failures st') = VERIFY_ERROR_BAD_CLASS_HARD
         \<and> VerifyFromInstructions D M VerifyCodeFlow st = Some (False, st')
         \<and> VerifyMethodKind initial (False, st') = Some kHardFailure"
proof -
  from assms(2) have "VerifyInstructionsFrom D M 0 (SetBranchTarget 0 st) = Some (False, st')"
    by (simp add: VerifyInstructions_def)
  from VerifyInstructionsFrom_HardIfFalse [OF this assms(1)] assms(3)
  have "HardRejected st'" by (simp add: HardIfFalse_def)
  then show ?thesis
    using assms(2) by (simp add: HardRejected_def VerifyFromInstructions_def VerifyMethodKind_def)
qed

theorem prepass_rejection_is_hard_witness:
  "VerifyInstructions BadRegisterDex OneUnitMethod OneUnitVerifier =
     Some (False, Fail OneUnitMethod VERIFY_ERROR_BAD_CLASS_HARD True
                    (SetBranchTarget 0 OneUnitVerifier))
   \<and> VerifyMethodKind kNoFailure
        (False, Fail OneUnitMethod VERIFY_ERROR_BAD_CLASS_HARD True
                  (SetBranchTarget 0 OneUnitVerifier)) = Some kHardFailure"
proof -
  let ?st' = "Fail OneUnitMethod VERIFY_ERROR_BAD_CLASS_HARD True
                (SetBranchTarget 0 OneUnitVerifier)"
  have br: "\<forall>pc. GetVerifyExtraFlags (DecodeAt BadRegisterDex pc) = kVerifyBranchTarget \<longrightarrow>
                 GetBranchOffset OneUnitMethod pc \<noteq> None"
    by (simp add: BadRegisterDex_def NothingDecoded_def)
  have run: "VerifyInstructions BadRegisterDex OneUnitMethod OneUnitVerifier = Some (False, ?st')"
    by (simp add: VerifyInstructions_def VerifyInstructionsFrom.simps [of _ _ 0]
          VerifyInstruction_def VerifyArgumentA_def VerifyArgumentB_def VerifyArgumentC_def
          VerifyArgumentH_def VerifyExtraArgs_def AndCheck_def CheckRegisterIndex_def
          FailHard_def BadRegisterDex_def PlainDex_def NothingDecoded_def OneUnitMethod_def)
  have nc: "\<not> crashed ?st'"
    by (simp add: Fail_def SetBranchTarget_def OneUnitVerifier_def InitialVerifier_def)
  from prepass_rejection_is_hard [OF br run nc, of "\<lambda>s. (True, s)" kNoFailure] run
  show ?thesis by simp
qed

lemma NewInstance_prepass:
  "VerifyInstructions NewInstanceDex NewInstanceMethod NewInstanceVerifier =
     Some (True, NewInstanceState)"
proof -
  let ?V = "VerifyInstructionsFrom NewInstanceDex NewInstanceMethod"
  let ?s1 = "NewInstanceState\<lparr>insn_flags := [NoFlags\<lparr>IsBranchTarget := True\<rparr>,
                                                 NoFlags\<lparr>IsOpcode := False\<rparr>, NoFlags]\<rparr>"
  have vi: "VerifyInstruction NewInstanceDex NewInstanceMethod
              (DecodeAt NewInstanceDex 0) 0 (SetBranchTarget 0 NewInstanceVerifier) = (True, ?s1)"
    by (simp add: VerifyInstruction_def VerifyArgumentA_def VerifyArgumentB_def
          VerifyArgumentC_def VerifyArgumentH_def VerifyExtraArgs_def AndCheck_def
          CheckRegisterIndex_def CheckNewInstance_def FirstChar_def Fail_def
          PotentiallyMarkRuntimeThrow_def SetBranchTarget_def NewInstanceState_def
          NewInstanceDex_def PlainDex_def NothingDecoded_def NewInstanceMethod_def
          NewInstanceVerifier_def InitialVerifier_def NoFlags_def Let_def)
  have s0: "?V 0 (SetBranchTarget 0 NewInstanceVerifier) = ?V 2 ?s1"
    by (subst VerifyInstructionsFrom.simps)
       (simp add: vi, simp add: NewInstanceDex_def PlainDex_def NothingDecoded_def
          NewInstanceMethod_def)
  have vi2: "VerifyInstruction NewInstanceDex NewInstanceMethod
               (DecodeAt NewInstanceDex 2) 2 ?s1 = (True, ?s1)"
    by (simp add: VerifyInstruction_def VerifyArgumentA_def VerifyArgumentB_def
          VerifyArgumentC_def VerifyArgumentH_def VerifyExtraArgs_def
          NewInstanceDex_def PlainDex_def NothingDecoded_def)
  have s2: "?V 2 ?s1 = ?V 3 NewInstanceState"
    by (subst VerifyInstructionsFrom.simps)
       (simp add: vi2, simp add: NewInstanceDex_def PlainDex_def NothingDecoded_def
          NewInstanceMethod_def SetReturn_def NewInstanceState_def NewInstanceVerifier_def
          InitialVerifier_def)
  have s3: "?V 3 NewInstanceState = Some (True, NewInstanceState)"
    by (subst VerifyInstructionsFrom.simps) (simp add: NewInstanceMethod_def)
  show ?thesis by (simp only: VerifyInstructions_def s0 s2 s3)
qed

text \<open>
  C7 as stated fails on \<open>new-instance v0, Ljava/lang/Class;\<close> followed by \<open>return-void\<close>.
  The check of the type of \<open>new-instance\<close> raises a failure, \<open>VERIFY_ERROR_INSTANTIATION\<close>,
  and returns true: the pre-pass ends with success, the hard-failure flag is not set, and
  when the code-flow pass that follows raises nothing \<open>VerifyMethod\<close> reports an
  access-checks failure, not a hard failure.
\<close>

theorem prepass_soft_failure_counterexample:
  "(case VerifyInstructions NewInstanceDex NewInstanceMethod NewInstanceVerifier of
      None \<Rightarrow> False
    | Some (ok, st') \<Rightarrow>
        ok \<and> failures st' = [VERIFY_ERROR_INSTANTIATION]
        \<and> \<not> have_pending_hard_failure st' \<and> \<not> crashed st'
        \<and> VerifyFromInstructions NewInstanceDex NewInstanceMethod (\<lambda>s. (True, s))
             NewInstanceVerifier = Some (True, st')
        \<and> VerifyMethodKind kNoFailure (True, st') = Some kAccessChecksFailure)"
  by (simp add: NewInstance_prepass VerifyFromInstructions_def)
     (simp add: NewInstanceState_def NewInstanceVerifier_def InitialVerifier_def
        VerifyMethodKind_def CanRuntimeHandleVerificationFailure_def)

subsection \<open>Interning in the cache of register types\<close>

lemma find_upt_Some:
  "(find P [k..<n] = Some i) = (k \<le> i \<and> i < n \<and> P i \<and> (\<forall>j. k \<le> j \<and> j < i \<longrightarrow> \<not> P j))"
proof
  assume "find P [k..<n] = Some i"
  then obtain m where m: "m < length [k..<n]" "P ([k..<n] ! m)" "i = [k..<n] ! m"
      "\<forall>j<m. \<not> P ([k..<n] ! j)"
    by (auto simp add: find_Some_iff)
  from m(1) have mn: "m < n - k" by simp
  with m(3) have i: "i = k + m" by simp
  have "\<forall>j. k \<le> j \<and> j < i \<longrightarrow> \<not> P j"
  proof (intro allI impI)
    fix j assume j: "k \<le> j \<and> j < i"
    then have "j - k < m" using i by arith
    with m(4) have "\<not> P ([k..<n] ! (j - k))" by blast
    moreover have "k + (j - k) < n" using j i mn by arith
    then have "[k..<n] ! (j - k) = k + (j - k)" by (rule nth_upt)
    then have "[k..<n] ! (j - k) = j" using j by simp
    ultimately show "\<not> P j" by simp
  qed
  with m(2) i mn show "k \<le> i \<and> i < n \<and> P i \<and> (\<forall>j. k \<le> j \<and> j < i \<longrightarrow> \<not> P j)"
    by simp
next
  assume a: "k \<le> i \<and> i < n \<and> P i \<and> (\<forall>j. k \<le> j \<and> j < i \<longrightarrow> \<not> P j)"
  have "\<exists>m<length [k..<n]. P ([k..<n] ! m) \<and> i = [k..<n] ! m \<and> (\<forall>j<m. \<not> P ([k..<n] ! j))"
  proof (intro exI [of _ "i - k"] conjI allI impI)
    have "k + (i - k) < n" using a by arith
    then have c: "[k..<n] ! (i - k) = k + (i - k)" by (rule nth_upt)
    show "i - k < length [k..<n]" using a by simp arith
    show "P ([k..<n] ! (i - k))" using a c by simp
    show "i = [k..<n] ! (i - k)" using a c by simp
    fix j assume "j < i - k"
    then have b: "k \<le> k + j \<and> k + j < i" by arith
    then have "k + j < n" using a by arith
    then have "[k..<n] ! j = k + j" by (rule nth_upt)
    with a b show "\<not> P ([k..<n] ! j)" by simp
  qed
  then show "find P [k..<n] = Some i" by (simp only: find_Some_iff)
qed

lemma find_upt_None:
  "(find P [k..<n] = None) = (\<forall>j. k \<le> j \<and> j < n \<longrightarrow> \<not> P j)"
  by (auto simp add: find_None_iff)

lemma GrownFrom_nth:
  assumes "GrownFrom c1 c2"
  shows "length (entries c1) \<le> length (entries c2)"
    and "j < length (entries c1) \<Longrightarrow> entries c2 ! j = entries c1 ! j"
proof -
  from assms have t: "take (length (entries c1)) (entries c2) = entries c1"
    by (simp add: GrownFrom_def)
  then have "length (take (length (entries c1)) (entries c2)) = length (entries c1)" by simp
  then show "length (entries c1) \<le> length (entries c2)" by simp
  assume "j < length (entries c1)"
  then have "take (length (entries c1)) (entries c2) ! j = entries c2 ! j" by simp
  with t show "entries c2 ! j = entries c1 ! j" by simp
qed

lemma GrownFrom_refl [simp]: "GrownFrom c c"
  by (simp add: GrownFrom_def)

lemma FindEntry_Some:
  "FindEntry R c P = Some i \<Longrightarrow>
   kNumPrimitivesAndSmallConstants R \<le> i \<and> i < length (entries c) \<and> P (entries c ! i)"
  by (simp add: FindEntry_def find_upt_Some)

lemma FindEntry_grow:
  assumes "GrownFrom c1 c2" and "FindEntry R c1 P = Some i"
  shows "FindEntry R c2 P = Some i"
proof -
  note g = GrownFrom_nth [OF assms(1)]
  from assms(2) have a: "kNumPrimitivesAndSmallConstants R \<le> i" "i < length (entries c1)"
    "P (entries c1 ! i)"
    "\<forall>j. kNumPrimitivesAndSmallConstants R \<le> j \<and> j < i \<longrightarrow> \<not> P (entries c1 ! j)"
    by (simp_all add: FindEntry_def find_upt_Some)
  have "\<forall>j. kNumPrimitivesAndSmallConstants R \<le> j \<and> j < i \<longrightarrow> \<not> P (entries c2 ! j)"
    using a(2,4) g(2) by simp
  moreover have "P (entries c2 ! i)" using a(2,3) g(2) by simp
  moreover have "i < length (entries c2)" using a(2) g(1) by simp
  ultimately show ?thesis using a(1) by (simp add: FindEntry_def find_upt_Some)
qed

lemma FindEntry_added:
  assumes none: "FindEntry R c P = None" and e: "P e"
    and k: "kNumPrimitivesAndSmallConstants R \<le> length (entries c)"
    and g: "GrownFrom (snd (AddEntry R c e)) c2"
  shows "FindEntry R c2 P = Some (length (entries c))"
proof -
  let ?c1 = "snd (AddEntry R c e)"
  have e1: "entries ?c1 = entries c @ [e]" by (simp add: AddEntry_def)
  note g' = GrownFrom_nth [OF g]
  from none have n: "\<forall>j. kNumPrimitivesAndSmallConstants R \<le> j \<and> j < length (entries c) \<longrightarrow>
                         \<not> P (entries c ! j)"
    by (simp add: FindEntry_def find_upt_None)
  have "\<forall>j. kNumPrimitivesAndSmallConstants R \<le> j \<and> j < length (entries c) \<longrightarrow>
            \<not> P (entries c2 ! j)"
  proof (intro allI impI)
    fix j assume j: "kNumPrimitivesAndSmallConstants R \<le> j \<and> j < length (entries c)"
    then have "entries c2 ! j = entries ?c1 ! j" using g'(2) [of j] e1 by simp
    also have "\<dots> = entries c ! j" using j e1 by (simp add: nth_append)
    finally show "\<not> P (entries c2 ! j)" using n j by simp
  qed
  moreover have "entries c2 ! length (entries c) = e"
    using g'(2) [of "length (entries c)"] e1 by simp
  moreover have "length (entries c) < length (entries c2)" using g'(1) e1 by simp
  ultimately show ?thesis using k e by (simp add: FindEntry_def find_upt_Some)
qed

lemma AddEntry_simps [simp]:
  "fst (AddEntry R c e) = length (entries c)"
  "entries (snd (AddEntry R c e)) = entries c @ [e]"
  by (simp_all add: AddEntry_def)

lemma find_or_add:
  assumes r: "r = (case FindEntry R c P of Some i \<Rightarrow> (i, c) | None \<Rightarrow> AddEntry R c e)"
    and e: "P e"
    and k: "kNumPrimitivesAndSmallConstants R \<le> length (entries c)"
    and g: "GrownFrom (snd r) c2"
  shows "FindEntry R c2 P = Some (fst r)"
proof (cases "FindEntry R c P")
  case None
  with r have "r = AddEntry R c e" by simp
  with FindEntry_added [OF None e k] g show ?thesis by simp
next
  case (Some i)
  with r have "r = (i, c)" by simp
  with FindEntry_grow [OF _ Some, of c2] g show ?thesis by simp
qed

lemma From_found:
  assumes law: "ClassesAsDeclared R"
    and k: "kNumPrimitivesAndSmallConstants R \<le> length (entries c)"
    and f: "From R c d = (i, c1)" and i: "kNumPrimitivesAndSmallConstants R \<le> i"
    and g: "GrownFrom c1 c2"
  shows "FindEntry R c2 (MatchDescriptor R d) = Some i"
proof -
  from law have d1: "\<And>kl n. MatchDescriptor R d (NewReferenceType R kl d n)"
    and d2: "\<And>n. MatchDescriptor R d (NewUnresolvedReferenceType R d n)"
    and cf: "kConflictCacheId R < kNumPrimitivesAndSmallConstants R"
    by (simp_all add: ClassesAsDeclared_def MatchDescriptor_def)
  show ?thesis
  proof (cases "ResolveClass R d")
    case (Some klass)
    let ?e = "NewReferenceType R klass d (length (entries c))"
    from f Some have "(i, c1) = (case FindEntry R c (MatchDescriptor R d) of
                                   Some i \<Rightarrow> (i, c) | None \<Rightarrow> AddEntry R c ?e)"
      by (simp add: From_def split: option.splits)
    from find_or_add [OF this d1 k] g show ?thesis by simp
  next
    case None
    show ?thesis
    proof (cases "IsValidDescriptor R d")
      case True
      let ?e = "NewUnresolvedReferenceType R d (length (entries c))"
      from f None True have "(i, c1) = (case FindEntry R c (MatchDescriptor R d) of
                                   Some i \<Rightarrow> (i, c) | None \<Rightarrow> AddEntry R c ?e)"
        by (simp add: From_def split: option.splits)
      from find_or_add [OF this d2 k] g show ?thesis by simp
    next
      case False
      show ?thesis
      proof (cases "FindEntry R c (MatchDescriptor R d)")
        case (Some j)
        with f have "i = j" "c1 = c" by (simp_all add: From_def)
        with FindEntry_grow [OF _ Some, of c2] g show ?thesis by simp
      next
        case n: None
        with f None False have "i = kConflictCacheId R" by (simp add: From_def)
        with cf i show ?thesis by simp
      qed
    qed
  qed
qed

lemma From_grows:
  "From R c d = (i, c1) \<Longrightarrow> GrownFrom c c1"
  by (auto simp add: From_def GrownFrom_def AddEntry_def split: option.splits if_splits)

lemma From_index:
  assumes "From R c d = (i, c1)"
  shows "FindEntry R c (MatchDescriptor R d) = Some i \<or> i = length (entries c)
         \<or> i = kConflictCacheId R"
  using assms by (auto simp add: From_def AddEntry_def split: option.splits if_splits)

lemma From_interns:
  assumes law: "ClassesAsDeclared R"
    and k: "kNumPrimitivesAndSmallConstants R \<le> length (entries c)"
    and f: "From R c d = (i, c1)" and i: "kNumPrimitivesAndSmallConstants R \<le> i"
    and g: "GrownFrom c1 c2"
  shows "From R c2 d = (i, c2)" and "From R c2 d' = (i, c3) \<Longrightarrow> d' = d"
proof -
  note found = From_found [OF law k f i g]
  then show "From R c2 d = (i, c2)" by (simp add: From_def)
  from FindEntry_Some [OF found] have ii: "i < length (entries c2)"
    and m: "MatchDescriptor R d (entries c2 ! i)" by simp_all
  from law have cf: "kConflictCacheId R < kNumPrimitivesAndSmallConstants R"
    by (simp add: ClassesAsDeclared_def)
  assume "From R c2 d' = (i, c3)"
  from From_index [OF this] ii i cf
  have "FindEntry R c2 (MatchDescriptor R d') = Some i" by auto
  from FindEntry_Some [OF this] m show "d' = d" by (simp add: MatchDescriptor_def)
qed

lemma NonSmall_found:
  assumes law: "ClassesAsDeclared R"
    and k: "kNumPrimitivesAndSmallConstants R \<le> length (entries c)"
    and f: "FromCat1NonSmallConstant R c v p = (i, c1)"
    and g: "GrownFrom c1 c2"
  shows "FindEntry R c2 (\<lambda>cur_entry. \<not> HasClassOf R cur_entry \<and> IsConstant R cur_entry
             \<and> IsPreciseConstant R cur_entry = p \<and> ConstantValue R cur_entry = v) = Some i"
proof -
  let ?P = "\<lambda>cur_entry. \<not> HasClassOf R cur_entry \<and> IsConstant R cur_entry
             \<and> IsPreciseConstant R cur_entry = p \<and> ConstantValue R cur_entry = v"
  let ?e = "if p then NewPreciseConstType R v (length (entries c))
            else NewImpreciseConstType R v (length (entries c))"
  from law have e: "?P ?e" by (simp add: ClassesAsDeclared_def)
  have "(case FindEntry R c ?P of Some i \<Rightarrow> (i, c) | None \<Rightarrow> AddEntry R c ?e) = (i, c1)"
    using f unfolding FromCat1NonSmallConstant_def
    by (cases p) (simp_all cong: option.case_cong)
  from find_or_add [OF this [symmetric] e k] g show ?thesis by simp
qed

lemma NonSmall_index:
  assumes "FromCat1NonSmallConstant R c v p = (i, c1)"
  shows "FindEntry R c (\<lambda>cur_entry. \<not> HasClassOf R cur_entry \<and> IsConstant R cur_entry
             \<and> IsPreciseConstant R cur_entry = p \<and> ConstantValue R cur_entry = v) = Some i
         \<or> i = length (entries c)"
proof (cases "FindEntry R c (\<lambda>cur_entry. \<not> HasClassOf R cur_entry \<and> IsConstant R cur_entry
             \<and> IsPreciseConstant R cur_entry = p \<and> ConstantValue R cur_entry = v)")
  case None
  with assms have "i = length (entries c)"
    unfolding FromCat1NonSmallConstant_def by (cases p) (auto simp add: AddEntry_def)
  then show ?thesis by simp
next
  case (Some j)
  with assms have "i = j" unfolding FromCat1NonSmallConstant_def by simp
  with Some show ?thesis by simp
qed

lemma FromCat1Const_grows:
  "FromCat1Const R c v p = (i, c1) \<Longrightarrow> GrownFrom c c1"
  unfolding FromCat1Const_def FromCat1NonSmallConstant_def
  by (cases p; cases "FindEntry R c (\<lambda>cur_entry. \<not> HasClassOf R cur_entry \<and> IsConstant R cur_entry
             \<and> IsPreciseConstant R cur_entry = p \<and> ConstantValue R cur_entry = v)")
     (auto simp add: GrownFrom_def AddEntry_def split: if_splits)

lemma FromCat1Const_interns:
  assumes law: "ClassesAsDeclared R"
    and k: "kNumPrimitivesAndSmallConstants R \<le> length (entries c)"
    and f: "FromCat1Const R c v p = (i, c1)"
    and g: "GrownFrom c1 c2"
  shows "FromCat1Const R c2 v p = (i, c2)"
    and "FromCat1Const R c2 v' p' = (i, c3) \<Longrightarrow> v' = v \<and> p' = p"
proof -
  let ?small = "\<lambda>v p. p \<and> v \<ge> kMinSmallConstant R \<and> v \<le> kMaxSmallConstant R"
  let ?P = "\<lambda>v p cur_entry. \<not> HasClassOf R cur_entry \<and> IsConstant R cur_entry
             \<and> IsPreciseConstant R cur_entry = p \<and> ConstantValue R cur_entry = v"
  from law have lim: "nat (kMaxSmallConstant R - kMinSmallConstant R)
                      < kNumPrimitivesAndSmallConstants R"
    by (simp add: ClassesAsDeclared_def)
  have small_lt: "\<And>v p. ?small v p \<Longrightarrow>
                   nat (v - kMinSmallConstant R) < kNumPrimitivesAndSmallConstants R"
    using lim by arith
  from GrownFrom_nth(1) [OF FromCat1Const_grows [OF f]] GrownFrom_nth(1) [OF g] k
  have k2: "kNumPrimitivesAndSmallConstants R \<le> length (entries c2)" by simp
  have stable_found: "(?small v p \<and> i = nat (v - kMinSmallConstant R))
        \<or> (\<not> ?small v p \<and> FindEntry R c2 (?P v p) = Some i)"
  proof (cases "?small v p")
    case True
    with f show ?thesis by (simp add: FromCat1Const_def)
  next
    case False
    with f have "FromCat1NonSmallConstant R c v p = (i, c1)"
      by (auto simp add: FromCat1Const_def)
    from NonSmall_found [OF law k this g] False show ?thesis by blast
  qed
  then show "FromCat1Const R c2 v p = (i, c2)"
    unfolding FromCat1Const_def FromCat1NonSmallConstant_def by (cases p) auto
  assume f': "FromCat1Const R c2 v' p' = (i, c3)"
  show "v' = v \<and> p' = p"
  proof (cases "?small v' p'")
    case s': True
    with f' have i': "i = nat (v' - kMinSmallConstant R)" by (simp add: FromCat1Const_def)
    from stable_found show ?thesis
    proof
      assume "?small v p \<and> i = nat (v - kMinSmallConstant R)"
      with s' i' show ?thesis by auto
    next
      assume "\<not> ?small v p \<and> FindEntry R c2 (?P v p) = Some i"
      then have "kNumPrimitivesAndSmallConstants R \<le> i" using FindEntry_Some by blast
      with small_lt [OF s'] i' show ?thesis by simp
    qed
  next
    case ns': False
    with f' have "FromCat1NonSmallConstant R c2 v' p' = (i, c3)"
      by (auto simp add: FromCat1Const_def)
    from NonSmall_index [OF this]
    have idx: "FindEntry R c2 (?P v' p') = Some i \<or> i = length (entries c2)" .
    from stable_found show ?thesis
    proof
      assume s: "?small v p \<and> i = nat (v - kMinSmallConstant R)"
      then have "i < kNumPrimitivesAndSmallConstants R" using small_lt [of p v] by simp
      with idx k2 FindEntry_Some [of R c2 "?P v' p'" i] show ?thesis by auto
    next
      assume n: "\<not> ?small v p \<and> FindEntry R c2 (?P v p) = Some i"
      then have ff: "FindEntry R c2 (?P v p) = Some i" by blast
      from FindEntry_Some [OF ff] have ii: "i < length (entries c2)"
        and pe: "?P v p (entries c2 ! i)" by blast+
      from idx ii have "FindEntry R c2 (?P v' p') = Some i" by auto
      from FindEntry_Some [OF this] have "?P v' p' (entries c2 ! i)" by blast
      with pe show ?thesis by auto
    qed
  qed
qed

lemma Uninitialized_unfold:
  "Uninitialized R c ty pc =
     (if IsUnresolvedTypesOf R ty then
        (case FindEntry R c (\<lambda>cur_entry.
                IsUnresolvedAndUninitializedReference R cur_entry
                \<and> GetAllocationPc R cur_entry = pc
                \<and> GetDescriptor R cur_entry = GetDescriptor R ty) of
           Some i \<Rightarrow> (i, c)
         | None \<Rightarrow>
             AddEntry R c (NewUnresolvedUninitializedRefType R (GetDescriptor R ty) pc
                             (length (entries c))))
      else
        (case FindEntry R c (\<lambda>cur_entry.
                IsUninitializedReference R cur_entry
                \<and> GetAllocationPc R cur_entry = pc
                \<and> GetClassOf R cur_entry = GetClassOf R ty) of
           Some i \<Rightarrow> (i, c)
         | None \<Rightarrow>
             AddEntry R c (NewUninitializedReferenceType R (GetClassOf R ty) (GetDescriptor R ty)
                             pc (length (entries c)))))"
  unfolding Uninitialized_def Let_def by (rule refl)

lemma Uninitialized_found:
  assumes law: "ClassesAsDeclared R"
    and k: "kNumPrimitivesAndSmallConstants R \<le> length (entries c)"
    and f: "Uninitialized R c ty pc = (i, c1)"
    and g: "GrownFrom c1 c2"
  shows "FindEntry R c2
           (if IsUnresolvedTypesOf R ty
            then (\<lambda>cur_entry. IsUnresolvedAndUninitializedReference R cur_entry
                    \<and> GetAllocationPc R cur_entry = pc
                    \<and> GetDescriptor R cur_entry = GetDescriptor R ty)
            else (\<lambda>cur_entry. IsUninitializedReference R cur_entry
                    \<and> GetAllocationPc R cur_entry = pc
                    \<and> GetClassOf R cur_entry = GetClassOf R ty)) = Some i"
proof (cases "IsUnresolvedTypesOf R ty")
  case True
  let ?P = "\<lambda>cur_entry. IsUnresolvedAndUninitializedReference R cur_entry
                    \<and> GetAllocationPc R cur_entry = pc
                    \<and> GetDescriptor R cur_entry = GetDescriptor R ty"
  let ?e = "NewUnresolvedUninitializedRefType R (GetDescriptor R ty) pc (length (entries c))"
  from law have e: "?P ?e" by (simp add: ClassesAsDeclared_def)
  from f True have "(i, c1) = (case FindEntry R c ?P of Some i \<Rightarrow> (i, c)
                               | None \<Rightarrow> AddEntry R c ?e)"
    by (simp add: Uninitialized_unfold)
  from find_or_add [OF this e k] g True show ?thesis by simp
next
  case False
  let ?P = "\<lambda>cur_entry. IsUninitializedReference R cur_entry
                    \<and> GetAllocationPc R cur_entry = pc
                    \<and> GetClassOf R cur_entry = GetClassOf R ty"
  let ?e = "NewUninitializedReferenceType R (GetClassOf R ty) (GetDescriptor R ty) pc
              (length (entries c))"
  from law have e: "?P ?e" by (simp add: ClassesAsDeclared_def)
  from f False have "(i, c1) = (case FindEntry R c ?P of Some i \<Rightarrow> (i, c)
                               | None \<Rightarrow> AddEntry R c ?e)"
    by (simp add: Uninitialized_unfold)
  from find_or_add [OF this e k] g False show ?thesis by simp
qed

lemma Uninitialized_index:
  assumes "Uninitialized R c ty pc = (i, c1)"
  shows "FindEntry R c
           (if IsUnresolvedTypesOf R ty
            then (\<lambda>cur_entry. IsUnresolvedAndUninitializedReference R cur_entry
                    \<and> GetAllocationPc R cur_entry = pc
                    \<and> GetDescriptor R cur_entry = GetDescriptor R ty)
            else (\<lambda>cur_entry. IsUninitializedReference R cur_entry
                    \<and> GetAllocationPc R cur_entry = pc
                    \<and> GetClassOf R cur_entry = GetClassOf R ty)) = Some i
         \<or> i = length (entries c)"
  using assms
  by (cases "IsUnresolvedTypesOf R ty")
     (auto simp add: Uninitialized_unfold AddEntry_def split: option.splits)

lemma Uninitialized_interns:
  assumes law: "ClassesAsDeclared R"
    and k: "kNumPrimitivesAndSmallConstants R \<le> length (entries c)"
    and f: "Uninitialized R c ty pc = (i, c1)"
    and g: "GrownFrom c1 c2"
  shows "Uninitialized R c2 ty pc = (i, c2)"
    and "Uninitialized R c2 ty' pc' = (i, c3) \<Longrightarrow>
         pc' = pc \<and> IsUnresolvedTypesOf R ty' = IsUnresolvedTypesOf R ty
         \<and> (if IsUnresolvedTypesOf R ty then GetDescriptor R ty' = GetDescriptor R ty
             else GetClassOf R ty' = GetClassOf R ty)"
proof -
  note found = Uninitialized_found [OF law k f g]
  then show "Uninitialized R c2 ty pc = (i, c2)"
    by (cases "IsUnresolvedTypesOf R ty") (simp_all add: Uninitialized_unfold)
  from law have excl: "\<And>r. \<not> (IsUninitializedReference R r
                               \<and> IsUnresolvedAndUninitializedReference R r)"
    by (simp add: ClassesAsDeclared_def)
  from FindEntry_Some [OF found] have ii: "i < length (entries c2)" by simp
  assume "Uninitialized R c2 ty' pc' = (i, c3)"
  from Uninitialized_index [OF this] ii
  have found': "FindEntry R c2
           (if IsUnresolvedTypesOf R ty'
            then (\<lambda>cur_entry. IsUnresolvedAndUninitializedReference R cur_entry
                    \<and> GetAllocationPc R cur_entry = pc'
                    \<and> GetDescriptor R cur_entry = GetDescriptor R ty')
            else (\<lambda>cur_entry. IsUninitializedReference R cur_entry
                    \<and> GetAllocationPc R cur_entry = pc'
                    \<and> GetClassOf R cur_entry = GetClassOf R ty')) = Some i"
    by auto
  from FindEntry_Some [OF found] FindEntry_Some [OF found'] excl [of "entries c2 ! i"]
  show "pc' = pc \<and> IsUnresolvedTypesOf R ty' = IsUnresolvedTypesOf R ty
         \<and> (if IsUnresolvedTypesOf R ty then GetDescriptor R ty' = GetDescriptor R ty
             else GetClassOf R ty' = GetClassOf R ty)"
    by (cases "IsUnresolvedTypesOf R ty"; cases "IsUnresolvedTypesOf R ty'") auto
qed

lemma SmallClasses_declared: "ClassesAsDeclared SmallClasses"
  by (simp add: ClassesAsDeclared_def SmallClasses_def split: SmallEntry.splits)

lemma upt_19: "[19..<20] = [19]" "[19..<21] = [19, 20]" "[19..<22] = [19, 20, 21]"
  "[19..<19] = []"
  by (simp_all add: upt_rec)

lemma CacheA_From:
  "From SmallClasses InitialCache ''Ljava/lang/Object;'' = (19, CacheA)"
  by (simp add: From_def FindEntry_def AddEntry_def InitialCache_def CacheA_def
        ObjectEntry_def SmallClasses_def)

lemma CacheB_Const:
  "FromCat1Const SmallClasses CacheA 100 True = (20, CacheB)"
  by (simp add: FromCat1Const_def FromCat1NonSmallConstant_def FindEntry_def AddEntry_def
        CacheA_def CacheB_def ObjectEntry_def SmallClasses_def upt_19 nth_append)

lemma CacheC_Uninitialized:
  "Uninitialized SmallClasses CacheB ObjectEntry 7 = (21, CacheC)"
  by (simp add: Uninitialized_def FindEntry_def AddEntry_def
        CacheB_def CacheC_def ObjectEntry_def SmallClasses_def upt_19 nth_append)

lemma Grown_examples:
  "GrownFrom CacheA CacheB" "GrownFrom CacheB CacheC" "GrownFrom CacheC CacheC"
  by (simp_all add: GrownFrom_def CacheA_def CacheB_def CacheC_def)

text \<open>
  C6. In a cache holding at least the built-in entries, with the classes of register
  types answering the queries as they were constructed: once a request has returned the
  entry \<open>i\<close>, the same request made on the cache as it is then or after any further
  additions returns \<open>i\<close> again and adds nothing, and a request returning \<open>i\<close> there is for
  the same type. This holds for \<open>From\<close> on a descriptor (when it returns an entry other than
  the built-in ones, that is, when the descriptor resolves or is valid), for
  \<open>FromCat1Const\<close> on a value and a precision, and for \<open>Uninitialized\<close> on a type and an
  allocation pc, where two types are the same when both are unresolved with the same
  descriptor or both resolved with the same class.
\<close>

theorem RegTypeCache_interns:
  assumes "ClassesAsDeclared R"
    and "kNumPrimitivesAndSmallConstants R \<le> length (entries c)"
    and "GrownFrom c1 c2"
  shows "(From R c d = (i, c1) \<and> kNumPrimitivesAndSmallConstants R \<le> i \<longrightarrow>
            From R c2 d = (i, c2) \<and> (\<forall>d' c3. From R c2 d' = (i, c3) \<longrightarrow> d' = d))
       \<and> (FromCat1Const R c v p = (i, c1) \<longrightarrow>
            FromCat1Const R c2 v p = (i, c2)
            \<and> (\<forall>v' p' c3. FromCat1Const R c2 v' p' = (i, c3) \<longrightarrow> v' = v \<and> p' = p))
       \<and> (Uninitialized R c ty pc = (i, c1) \<longrightarrow>
            Uninitialized R c2 ty pc = (i, c2)
            \<and> (\<forall>ty' pc' c3. Uninitialized R c2 ty' pc' = (i, c3) \<longrightarrow>
                  pc' = pc \<and> IsUnresolvedTypesOf R ty' = IsUnresolvedTypesOf R ty
                  \<and> (if IsUnresolvedTypesOf R ty
                      then GetDescriptor R ty' = GetDescriptor R ty
                      else GetClassOf R ty' = GetClassOf R ty)))"
proof (intro conjI impI allI)
  assume a: "From R c d = (i, c1) \<and> kNumPrimitivesAndSmallConstants R \<le> i"
  then have f: "From R c d = (i, c1)" and i: "kNumPrimitivesAndSmallConstants R \<le> i"
    by simp_all
  show "From R c2 d = (i, c2)"
    by (rule From_interns(1) [OF assms(1,2) f i assms(3)])
  fix d' c3 assume "From R c2 d' = (i, c3)"
  then show "d' = d" by (rule From_interns(2) [OF assms(1,2) f i assms(3)])
next
  assume f: "FromCat1Const R c v p = (i, c1)"
  show "FromCat1Const R c2 v p = (i, c2)"
    by (rule FromCat1Const_interns(1) [OF assms(1,2) f assms(3)])
  fix v' p' c3 assume f': "FromCat1Const R c2 v' p' = (i, c3)"
  from FromCat1Const_interns(2) [OF assms(1,2) f assms(3) f']
  show "v' = v" and "p' = p" by simp_all
next
  assume f: "Uninitialized R c ty pc = (i, c1)"
  show "Uninitialized R c2 ty pc = (i, c2)"
    by (rule Uninitialized_interns(1) [OF assms(1,2) f assms(3)])
  fix ty' pc' c3 assume f': "Uninitialized R c2 ty' pc' = (i, c3)"
  from Uninitialized_interns(2) [OF assms(1,2) f assms(3) f']
  show "pc' = pc" and "IsUnresolvedTypesOf R ty' = IsUnresolvedTypesOf R ty"
    and "if IsUnresolvedTypesOf R ty then GetDescriptor R ty' = GetDescriptor R ty
         else GetClassOf R ty' = GetClassOf R ty"
    by simp_all
qed

theorem RegTypeCache_interns_witness:
  "From SmallClasses InitialCache ''Ljava/lang/Object;'' = (19, CacheA)
   \<and> From SmallClasses CacheB ''Ljava/lang/Object;'' = (19, CacheB)
   \<and> FromCat1Const SmallClasses CacheA 100 True = (20, CacheB)
   \<and> FromCat1Const SmallClasses CacheC 100 True = (20, CacheC)
   \<and> Uninitialized SmallClasses CacheB ObjectEntry 7 = (21, CacheC)
   \<and> Uninitialized SmallClasses CacheC ObjectEntry 7 = (21, CacheC)"
proof -
  have k0: "kNumPrimitivesAndSmallConstants SmallClasses \<le> length (entries InitialCache)"
    and kA: "kNumPrimitivesAndSmallConstants SmallClasses \<le> length (entries CacheA)"
    and kB: "kNumPrimitivesAndSmallConstants SmallClasses \<le> length (entries CacheB)"
    and ki: "kNumPrimitivesAndSmallConstants SmallClasses \<le> 19"
    by (simp_all add: SmallClasses_def InitialCache_def CacheA_def CacheB_def)
  from RegTypeCache_interns [OF SmallClasses_declared k0 Grown_examples(1),
         of "''Ljava/lang/Object;''" 19] CacheA_From ki
  have a: "From SmallClasses CacheB ''Ljava/lang/Object;'' = (19, CacheB)" by blast
  from RegTypeCache_interns [OF SmallClasses_declared kA Grown_examples(2),
         of _ 20 100 True] CacheB_Const
  have b: "FromCat1Const SmallClasses CacheC 100 True = (20, CacheC)" by blast
  from RegTypeCache_interns [OF SmallClasses_declared kB Grown_examples(3),
         of _ 21 _ _ ObjectEntry 7] CacheC_Uninitialized
  have c: "Uninitialized SmallClasses CacheC ObjectEntry 7 = (21, CacheC)" by blast
  from a b c CacheA_From CacheB_Const CacheC_Uninitialized show ?thesis by blast
qed

end
